theory Spec2Isabelle
  imports Main "HOL-Library.Sublist"
begin

section \<open>Python strings\<close>

text \<open>
  The script \<^verbatim>\<open>app_download.py\<close> is glue code around strings: it builds messages
  and request parameters with f-strings and takes its resumption state out of log lines
  with \<^verbatim>\<open>in\<close>, \<^verbatim>\<open>str.split\<close>, \<^verbatim>\<open>str.strip\<close> and \<^verbatim>\<open>str.replace\<close>. A Python string is
  modelled as a \<^typ>\<open>string\<close>, one \<^typ>\<open>char\<close> per code point below 256.
\<close>

abbreviation dquote :: char where "dquote \<equiv> CHR 0x22"
abbreviation squote :: char where "squote \<equiv> CHR 0x27"
abbreviation newline :: char where "newline \<equiv> CHR 0x0A"
abbreviation creturn :: char where "creturn \<equiv> CHR 0x0D"
abbreviation backslash :: char where "backslash \<equiv> CHR 0x5C"

text \<open>\<^verbatim>\<open>str(n)\<close> and \<^verbatim>\<open>f"{n}"\<close> for a non-negative integer: its decimal digits.\<close>

definition digit :: "nat \<Rightarrow> char" where
  "digit d = ''0123456789'' ! d"

fun str_nat :: "nat \<Rightarrow> string" where
  "str_nat n = (if n < 10 then [digit n] else str_nat (n div 10) @ [digit (n mod 10)])"

declare str_nat.simps [simp del]

text \<open>\<^verbatim>\<open>f"{n:02d}"\<close> for a non-negative integer: zero-padded to width two.\<close>

definition fmt_02d :: "nat \<Rightarrow> string" where
  "fmt_02d n = (if n < 10 then CHR ''0'' # str_nat n else str_nat n)"

text \<open>
  \<^verbatim>\<open>str.isspace\<close> on one character: the code points below 256 that Python counts as
  whitespace (tab to carriage return, the four separators 0x1C to 0x1F, space, NEL and
  the no-break space).
\<close>

definition isspace :: "char \<Rightarrow> bool" where
  "isspace c \<longleftrightarrow>
     c \<in> {CHR 0x09, CHR 0x0A, CHR 0x0B, CHR 0x0C, CHR 0x0D, CHR 0x1C, CHR 0x1D,
          CHR 0x1E, CHR 0x1F, CHR 0x20, CHR 0x85, CHR 0xA0}"

text \<open>\<^verbatim>\<open>s.strip()\<close>: whitespace removed from both ends.\<close>

definition str_strip :: "string \<Rightarrow> string" where
  "str_strip s = rev (dropWhile isspace (rev (dropWhile isspace s)))"

text \<open>\<^verbatim>\<open>s.replace(old, new)\<close> for single characters \<^verbatim>\<open>old\<close> and \<^verbatim>\<open>new\<close>.\<close>

definition str_replace :: "string \<Rightarrow> char \<Rightarrow> char \<Rightarrow> string" where
  "str_replace s old new = map (\<lambda>c. if c = old then new else c) s"

text \<open>\<^verbatim>\<open>sub in s\<close>: \<^verbatim>\<open>sub\<close> occurs in \<^verbatim>\<open>s\<close> as a contiguous substring.\<close>

fun str_contains :: "string \<Rightarrow> string \<Rightarrow> bool" where
  "str_contains sub [] = (sub = [])"
| "str_contains sub (c # cs) = (prefix sub (c # cs) \<or> str_contains sub cs)"

text \<open>
  \<^verbatim>\<open>s.split(sep)\<close>: a scan from the left that cuts at every occurrence of \<^verbatim>\<open>sep\<close> and
  resumes behind it, so occurrences never overlap. \<^verbatim>\<open>acc\<close> holds the current piece in
  reverse. Python raises \<^verbatim>\<open>ValueError\<close> for an empty separator; the script only
  passes the literals \<^verbatim>\<open>"ID: "\<close>, \<^verbatim>\<open>","\<close> and \<^verbatim>\<open>"Downloaded attachment: "\<close>.
\<close>

function str_split_acc :: "string \<Rightarrow> string \<Rightarrow> string \<Rightarrow> string list" where
  "str_split_acc sep acc s =
     (if s = [] then [rev acc]
      else if sep \<noteq> [] \<and> prefix sep s
        then rev acc # str_split_acc sep [] (drop (length sep) s)
      else str_split_acc sep (hd s # acc) (tl s))"
  by pat_completeness auto
termination
  by (relation "measure (\<lambda>(sep, acc, s). length s)") auto

declare str_split_acc.simps [simp del]

definition str_split :: "string \<Rightarrow> string \<Rightarrow> string list" where
  "str_split s sep = str_split_acc sep [] s"

text \<open>
  Iterating over a file opened in text mode: the lines with their terminator. With
  Python's universal newlines each of \<^verbatim>\<open>\n\<close>, \<^verbatim>\<open>\r\n\<close> and \<^verbatim>\<open>\r\<close> ends a line and is
  read as \<^verbatim>\<open>\n\<close>; a last line without terminator is yielded as it is.
\<close>

fun file_lines_acc :: "string \<Rightarrow> string \<Rightarrow> string list" where
  "file_lines_acc acc [] = (if acc = [] then [] else [rev acc])"
| "file_lines_acc acc (c # cs) =
     (if c = newline then rev (newline # acc) # file_lines_acc [] cs
      else if c = creturn
        then rev (newline # acc) #
             file_lines_acc [] (if cs \<noteq> [] \<and> hd cs = newline then tl cs else cs)
      else file_lines_acc (c # acc) cs)"

definition file_lines :: "string \<Rightarrow> string list" where
  "file_lines s = file_lines_acc [] s"

section \<open>The world the script runs in\<close>

text \<open>
  The script talks to the accounting service over HTTP, prints, logs, and reads and
  writes files. All of it is made explicit: a \<^emph>\<open>world\<close> is threaded through every
  function, and everything the script does to its surroundings is appended to the
  world's \<open>trace\<close>, in the order it happens.

  A request is \<^verbatim>\<open>requests.post(url, headers, auth, data)\<close> or
  \<^verbatim>\<open>requests.get(url, headers, params)\<close>; \<^verbatim>\<open>params=None\<close> is the empty list, and
  the integer \<^verbatim>\<open>page\<close> parameter is written in decimal, as it goes on the wire.
\<close>

datatype request =
    Post string "(string \<times> string) list" "string \<times> string" "(string \<times> string) list"
  | Get string "(string \<times> string) list" "(string \<times> string) list"

text \<open>
  A JSON object of a response, as far as the script reads it: an association list from
  member names to strings, the first binding of a name being the one Python's
  dictionary holds. A missing member is a missing key (\<^verbatim>\<open>KeyError\<close> under \<^verbatim>\<open>d[k]\<close>,
  the default under \<^verbatim>\<open>d.get(k, default)\<close>).

  A response carries its status, its body as text and as bytes, and the decoded body
  \<^verbatim>\<open>response.json()\<close> in the shape the service documents: the string members of a
  top-level object (\<open>json_object\<close>), its members that are arrays of objects
  (\<open>json_lists\<close>), and the elements of a top-level array (\<open>json_array\<close>).
\<close>

type_synonym jobj = "(string \<times> string) list"

record response =
  status_code :: nat
  text_body :: string
  content :: string
  json_object :: jobj
  json_lists :: "(string \<times> jobj list) list"
  json_array :: "jobj list"

datatype event =
    Print string
  | Log string string
  | Http request
  | FileWrite string string
  | Sleep nat
  | MakeDirs string
  | ChDir string

text \<open>
  The world: the current working directory, the directories and files that exist (by
  path), the path of the file the logger appends to, the trace, and the number of
  HTTP requests issued so far. Paths are compared as strings; file-system failures
  (permissions, a missing parent directory, a full disk) and network failures are
  outside the model, so every file operation succeeds and every request is answered.
\<close>

record world =
  cwd :: string
  dirs :: "string set"
  files :: "string \<Rightarrow> string option"
  log_path :: string
  trace :: "event list"
  requests :: nat

text \<open>
  What the script cannot decide: the answer of the service to the \<open>n\<close>-th request of
  the run, and the time stamp the logger puts in front of a record (indexed by the
  length of the trace).
\<close>

record env =
  http :: "nat \<Rightarrow> request \<Rightarrow> response"
  asctime :: "nat \<Rightarrow> string"

text \<open>
  \<^verbatim>\<open>config.ini\<close> after the module-level checks (lines 25 to 45): the four keys, with
  \<^verbatim>\<open>START_DATE\<close> already parsed by \<^verbatim>\<open>datetime.strptime(START_DATE, '%Y-%m-%d')\<close>.
\<close>

record date =
  year :: nat
  month :: nat
  day :: nat

record config =
  CLIENT_ID :: string
  CLIENT_SECRET :: string
  SUPPLIER_NAME :: string
  start_date :: date

text \<open>
  How a call ends other than by returning: \<^verbatim>\<open>sys.exit(code)\<close>, or an exception, kept
  as \<^verbatim>\<open>str(err)\<close>. A \<^verbatim>\<open>KeyError\<close> prints as the key in single quotes.
\<close>

datatype abort = Exit nat | Raise string

definition KeyError :: "string \<Rightarrow> abort" where
  "KeyError k = Raise ([squote] @ k @ [squote])"

definition IsADirectoryError :: "string \<Rightarrow> abort" where
  "IsADirectoryError p = Raise (''[Errno 21] Is a directory: '' @ [squote] @ p @ [squote])"

subsection \<open>Paths and files\<close>

text \<open>\<^verbatim>\<open>os.path.join(a, b)\<close> on POSIX; a relative path is resolved against \<open>cwd\<close>.\<close>

definition path_join :: "string \<Rightarrow> string \<Rightarrow> string" where
  "path_join a b =
     (if b \<noteq> [] \<and> hd b = CHR ''/'' then b
      else if a = [] \<or> last a = CHR ''/'' then a @ b
      else a @ ''/'' @ b)"

definition abspath :: "world \<Rightarrow> string \<Rightarrow> string" where
  "abspath w p = path_join (cwd w) p"

definition path_exists :: "world \<Rightarrow> string \<Rightarrow> bool" where
  "path_exists w p \<longleftrightarrow> files w (abspath w p) \<noteq> None \<or> abspath w p \<in> dirs w"

definition makedirs :: "string \<Rightarrow> world \<Rightarrow> world" where
  "makedirs p w = w\<lparr>dirs := insert (abspath w p) (dirs w), trace := trace w @ [MakeDirs p]\<rparr>"

definition chdir :: "string \<Rightarrow> world \<Rightarrow> world" where
  "chdir p w = w\<lparr>cwd := abspath w p, trace := trace w @ [ChDir p]\<rparr>"

text \<open>
  \<^verbatim>\<open>with open(name, 'wb') as f: f.write(data)\<close>: the file is created or replaced, and
  the trace records the path that \<^verbatim>\<open>open\<close> was given, resolved against \<open>cwd\<close> and not
  normalised. The directory part of the name is taken to exist, as it does for a name
  without separator and for one that begins with \<^verbatim>\<open>../\<close>; \<^verbatim>\<open>open\<close> raises otherwise.
\<close>

definition write_file :: "string \<Rightarrow> string \<Rightarrow> world \<Rightarrow> world" where
  "write_file name data w =
     w\<lparr>files := (files w)(abspath w name \<mapsto> data),
       trace := trace w @ [FileWrite (abspath w name) data]\<rparr>"

subsection \<open>Printing, logging, sleeping\<close>

definition print :: "string \<Rightarrow> world \<Rightarrow> world" where
  "print msg w = w\<lparr>trace := trace w @ [Print msg]\<rparr>"

definition sleep :: "nat \<Rightarrow> world \<Rightarrow> world" where
  "sleep n w = w\<lparr>trace := trace w @ [Sleep n]\<rparr>"

text \<open>
  \<^verbatim>\<open>logging.basicConfig(filename='xero_download.log', ...)\<close> runs when the module is
  loaded (lines 12 to 16). Its file handler resolves the name against the working
  directory of that moment, keeps the absolute path and opens the file for appending:
  later changes of directory do not move the log.
\<close>

definition basicConfig :: "world \<Rightarrow> world" where
  "basicConfig w =
     (let p = abspath w ''xero_download.log''
      in w\<lparr>log_path := p,
           files := (files w)(p \<mapsto> (case files w p of None \<Rightarrow> [] | Some old \<Rightarrow> old))\<rparr>)"

text \<open>
  One log record, in the format \<^verbatim>\<open>'%(asctime)s - %(levelname)s - %(message)s'\<close>,
  appended to the log file with a newline.
\<close>

definition logger_log :: "env \<Rightarrow> string \<Rightarrow> string \<Rightarrow> world \<Rightarrow> world" where
  "logger_log e level msg w =
     (let record = asctime e (length (trace w)) @ '' - '' @ level @ '' - '' @ msg @ [newline];
          old = (case files w (log_path w) of None \<Rightarrow> [] | Some s \<Rightarrow> s)
      in w\<lparr>files := (files w)(log_path w \<mapsto> old @ record),
           trace := trace w @ [Log level msg]\<rparr>)"

definition logger_info :: "env \<Rightarrow> string \<Rightarrow> world \<Rightarrow> world" where
  "logger_info e msg w = logger_log e ''INFO'' msg w"

definition logger_error :: "env \<Rightarrow> string \<Rightarrow> world \<Rightarrow> world" where
  "logger_error e msg w = logger_log e ''ERROR'' msg w"

text \<open>The pair \<^verbatim>\<open>print(msg); logger.info(msg)\<close> the script writes for most messages.\<close>

definition say :: "env \<Rightarrow> string \<Rightarrow> world \<Rightarrow> world" where
  "say e msg w = logger_info e msg (print msg w)"

definition complain :: "env \<Rightarrow> string \<Rightarrow> world \<Rightarrow> world" where
  "complain e msg w = logger_error e msg (print msg w)"

subsection \<open>HTTP\<close>

text \<open>
  Sending a request: the world afterwards (\<open>sent\<close>), and the response together with
  that world (\<open>send\<close>).
\<close>

definition sent :: "request \<Rightarrow> world \<Rightarrow> world" where
  "sent req w = w\<lparr>trace := trace w @ [Http req], requests := Suc (requests w)\<rparr>"

definition send :: "env \<Rightarrow> request \<Rightarrow> world \<Rightarrow> response \<times> world" where
  "send e req w = (http e (requests w) req, sent req w)"

definition XERO_TOKEN_URL :: string where
  "XERO_TOKEN_URL = ''https://identity.xero.com/connect/token''"

definition XERO_CONNECTIONS_URL :: string where
  "XERO_CONNECTIONS_URL = ''https://api.xero.com/connections''"

definition XERO_CONTACTS_URL :: string where
  "XERO_CONTACTS_URL = ''https://api.xero.com/api.xro/2.0/Contacts''"

definition XERO_INVOICES_URL :: string where
  "XERO_INVOICES_URL = ''https://api.xero.com/api.xro/2.0/Invoices''"

text \<open>
  The text \<^verbatim>\<open>f"...: {response.status_code} - {response.text}"\<close> that ends every
  failure message.
\<close>

definition status_and_text :: "response \<Rightarrow> string" where
  "status_and_text r = str_nat (status_code r) @ '' - '' @ text_body r"

section \<open>The functions of the script\<close>

subsection \<open>Token, tenant, contact\<close>

definition get_token :: "env \<Rightarrow> config \<Rightarrow> world \<Rightarrow> (abort + string) \<times> world" where
  "get_token e cfg w =
     (let headers = [(''Content-Type'', ''application/x-www-form-urlencoded'')];
          data = [(''grant_type'', ''client_credentials''),
                  (''scopes'',
                   ''accounting.transactions accounting.attachments accounting.contacts'')];
          (response, w1) =
            send e (Post XERO_TOKEN_URL headers (CLIENT_ID cfg, CLIENT_SECRET cfg) data) w
      in if status_code response = 200
         then (let w2 = say e ''Obtained token successfully'' w1
               in case map_of (json_object response) ''access_token'' of
                    Some token \<Rightarrow> (Inr token, w2)
                  | None \<Rightarrow> (Inl (KeyError ''access_token''), w2))
         else (Inl (Exit 1),
               complain e (''Failed to fetch token: '' @ status_and_text response) w1))"

definition get_tenant_id :: "env \<Rightarrow> string \<Rightarrow> world \<Rightarrow> (abort + string) \<times> world" where
  "get_tenant_id e token w =
     (let headers = [(''Authorization'', ''Bearer '' @ token),
                     (''Accept'', ''application/json'')];
          (response, w1) = send e (Get XERO_CONNECTIONS_URL headers []) w
      in if status_code response = 200
         then (case json_array response of
                 connection # _ \<Rightarrow>
                   (case map_of connection ''tenantId'' of
                      Some tenant_id \<Rightarrow>
                        (Inr tenant_id, say e (''Using tenant ID: '' @ tenant_id) w1)
                    | None \<Rightarrow> (Inl (KeyError ''tenantId''), w1))
               | [] \<Rightarrow> (Inl (Exit 1), complain e ''No tenant found in connections'' w1))
         else (Inl (Exit 1),
               complain e (''Failed to fetch tenant ID: '' @ status_and_text response) w1))"

definition get_xero_api ::
  "env \<Rightarrow> string \<Rightarrow> string \<Rightarrow> string \<Rightarrow> (string \<times> string) list \<Rightarrow> world \<Rightarrow> response \<times> world"
where
  "get_xero_api e url token tenant_id params w =
     (let headers = [(''Authorization'', ''Bearer '' @ token),
                     (''Accept'', ''application/json''),
                     (''Xero-tenant-id'', tenant_id)]
      in send e (Get url headers params) w)"

text \<open>
  \<^verbatim>\<open>get_contact_id(token, tenant_id, contact_name=SUPPLIER_NAME)\<close>: the optional
  argument is \<open>None\<close> when the caller leaves it to its default.
\<close>

definition get_contact_id ::
  "env \<Rightarrow> config \<Rightarrow> string \<Rightarrow> string \<Rightarrow> string option \<Rightarrow> world
    \<Rightarrow> (abort + string) \<times> world"
where
  "get_contact_id e cfg token tenant_id contact_name_arg w =
     (let contact_name = (case contact_name_arg of Some x \<Rightarrow> x | None \<Rightarrow> SUPPLIER_NAME cfg);
          params = [(''where'', ''Name=='' @ [dquote] @ contact_name @ [dquote])];
          (response, w1) = get_xero_api e XERO_CONTACTS_URL token tenant_id params w
      in if status_code response = 200
         then (case (case map_of (json_lists response) ''Contacts'' of
                       Some cs \<Rightarrow> cs | None \<Rightarrow> []) of
                 contact # _ \<Rightarrow>
                   (case map_of contact ''ContactID'' of
                      Some contact_id \<Rightarrow>
                        (Inr contact_id,
                         say e (''Found '' @ [squote] @ contact_name @ [squote] @
                                '' with ContactID: '' @ contact_id) w1)
                    | None \<Rightarrow> (Inl (KeyError ''ContactID''), w1))
               | [] \<Rightarrow>
                   (Inl (Exit 1),
                    complain e (''No contact found with name '' @ [squote] @ contact_name @
                                [squote]) w1))
         else (Inl (Exit 1),
               complain e (''Failed to fetch contact details: '' @ status_and_text response)
                 w1))"

subsection \<open>The paged invoice query\<close>

text \<open>
  The \<^verbatim>\<open>while True\<close> loop of \<^verbatim>\<open>get_invoices_for_contact\<close> (lines 110 to 129). Its
  state is \<^verbatim>\<open>page\<close>, \<^verbatim>\<open>invoices\<close> and the world. One pass through the body either
  leaves the loop (\<open>Inl\<close>: \<^verbatim>\<open>break\<close> with the invoices, or \<^verbatim>\<open>sys.exit(1)\<close>) or hands
  the next state to the next pass (\<open>Inr\<close>).
\<close>

definition invoices_body ::
  "env \<Rightarrow> date \<Rightarrow> string \<Rightarrow> string \<Rightarrow> string \<Rightarrow> nat \<times> jobj list \<times> world
    \<Rightarrow> ((abort + jobj list) \<times> world) + (nat \<times> jobj list \<times> world)"
where
  "invoices_body e d token tenant_id contact_id st =
     (let (page, invoices, w) = st;
          params =
            [(''where'',
              ''Contact.ContactID==Guid('' @ [dquote] @ contact_id @ [dquote] @
              '') AND Date>=DateTime('' @ str_nat (year d) @ '','' @ fmt_02d (month d) @
              '','' @ fmt_02d (day d) @ '')''),
             (''order'', ''Date DESC''),
             (''page'', str_nat page)];
          (response, w1) = get_xero_api e XERO_INVOICES_URL token tenant_id params w
      in if status_code response = 200
         then (let page_invoices =
                     (case map_of (json_lists response) ''Invoices'' of
                        Some xs \<Rightarrow> xs | None \<Rightarrow> [])
               in if page_invoices = [] then Inl (Inr invoices, w1)
                  else (let invoices' = invoices @ page_invoices;
                            w2 = say e (''Fetched page '' @ str_nat page @ '': '' @
                                        str_nat (length page_invoices) @
                                        '' invoices (total so far: '' @
                                        str_nat (length invoices') @ '')'') w1
                        in Inr (page + 1, invoices', sleep 1 w2)))
         else Inl (Inl (Exit 1),
                   complain e (''Failed to fetch invoices: '' @ status_and_text response)
                     w1))"

text \<open>
  Nothing in the script bounds the number of pages, so the loop is a partial function:
  \<open>None\<close> is a run that never leaves it.
\<close>

partial_function (option) invoices_loop ::
  "env \<Rightarrow> date \<Rightarrow> string \<Rightarrow> string \<Rightarrow> string \<Rightarrow> nat \<times> jobj list \<times> world
    \<Rightarrow> ((abort + jobj list) \<times> world) option"
where
  "invoices_loop e d token tenant_id contact_id st =
     (case invoices_body e d token tenant_id contact_id st of
        Inl r \<Rightarrow> Some r
      | Inr st' \<Rightarrow> invoices_loop e d token tenant_id contact_id st')"

declare invoices_loop.simps [code]

text \<open>
  \<^verbatim>\<open>strftime('%Y-%m-%d')\<close>, for years of four digits. \<^verbatim>\<open>today\<close> is the constant
  \<^verbatim>\<open>datetime(2025, 3, 20)\<close> of line 106.
\<close>

definition strftime_ymd :: "date \<Rightarrow> string" where
  "strftime_ymd d = str_nat (year d) @ ''-'' @ fmt_02d (month d) @ ''-'' @ fmt_02d (day d)"

definition today :: date where
  "today = \<lparr>year = 2025, month = 3, day = 20\<rparr>"

definition get_invoices_for_contact ::
  "env \<Rightarrow> config \<Rightarrow> string \<Rightarrow> string \<Rightarrow> string \<Rightarrow> world
    \<Rightarrow> ((abort + jobj list) \<times> world) option"
where
  "get_invoices_for_contact e cfg token tenant_id contact_id w =
     (case invoices_loop e (start_date cfg) token tenant_id contact_id (1, [], w) of
        None \<Rightarrow> None
      | Some (Inl a, w1) \<Rightarrow> Some (Inl a, w1)
      | Some (Inr invoices, w1) \<Rightarrow>
          Some (Inr invoices,
                say e (''Found '' @ str_nat (length invoices) @ '' invoices for '' @
                       [squote] @ SUPPLIER_NAME cfg @ [squote] @ '' from '' @
                       strftime_ymd (start_date cfg) @ '' to '' @ strftime_ymd today) w1))"

subsection \<open>The resumption ledger\<close>

text \<open>
  Both loaders look for \<^verbatim>\<open>'xero_download.log'\<close>, a relative name, in the working
  directory of the moment they are called. \<^verbatim>\<open>os.path.exists\<close> also holds for a
  directory, which \<^verbatim>\<open>open\<close> then refuses.
\<close>

definition processed_of_line :: "string \<Rightarrow> string set \<Rightarrow> string set" where
  "processed_of_line line processed =
     (if str_contains ''Processing invoice:'' line
      then (let parts = str_split line ''ID: ''
            in if length parts > 1
               then (let invoice_id = str_strip (hd (str_split (parts ! 1) '',''))
                     in insert invoice_id processed)
               else processed)
      else processed)"

definition load_processed_invoices :: "world \<Rightarrow> abort + string set" where
  "load_processed_invoices w =
     (if path_exists w ''xero_download.log''
      then (case files w (abspath w ''xero_download.log'') of
              Some log_file \<Rightarrow> Inr (fold processed_of_line (file_lines log_file) {})
            | None \<Rightarrow> Inl (IsADirectoryError ''xero_download.log''))
      else Inr {})"

definition downloaded_of_line :: "string \<Rightarrow> string set \<Rightarrow> string set" where
  "downloaded_of_line line downloaded =
     (if str_contains ''Downloaded attachment:'' line
      then (let parts = str_split line ''Downloaded attachment: ''
            in if length parts > 1
               then (let unique_file_name = str_strip (parts ! 1)
                     in insert unique_file_name downloaded)
               else downloaded)
      else downloaded)"

definition load_downloaded_attachments :: "world \<Rightarrow> abort + string set" where
  "load_downloaded_attachments w =
     (if path_exists w ''xero_download.log''
      then (case files w (abspath w ''xero_download.log'') of
              Some log_file \<Rightarrow> Inr (fold downloaded_of_line (file_lines log_file) {})
            | None \<Rightarrow> Inl (IsADirectoryError ''xero_download.log''))
      else Inr {})"

subsection \<open>Downloading\<close>

definition unique_name :: "string \<Rightarrow> string \<Rightarrow> string" where
  "unique_name inv_num file_name =
     (let safe_file_name = str_replace (str_replace file_name CHR ''/'' CHR ''_'')
                             backslash CHR ''_''
      in inv_num @ ''_'' @ safe_file_name)"

definition download_invoice_attachment ::
  "env \<Rightarrow> string \<Rightarrow> string \<Rightarrow> string \<Rightarrow> string \<Rightarrow> string \<Rightarrow> string set \<Rightarrow> world \<Rightarrow> world"
where
  "download_invoice_attachment e token tenant_id invoice_id file_name inv_num
       downloaded_set w =
     (let unique_file_name = unique_name inv_num file_name
      in if unique_file_name \<in> downloaded_set
         then logger_info e (''Skipped '' @ unique_file_name @ '' - already downloaded'')
                (print (''Skipping '' @ unique_file_name @ '' - already downloaded'') w)
         else (let url = XERO_INVOICES_URL @ ''/'' @ invoice_id @ ''/Attachments/'' @
                         file_name;
                   headers = [(''Authorization'', ''Bearer '' @ token),
                              (''Accept'', ''application/octet-stream''),
                              (''Xero-tenant-id'', tenant_id)];
                   (response, w1) = send e (Get url headers []) w;
                   w2 = (if status_code response = 200
                         then say e (''Downloaded attachment: '' @ unique_file_name)
                                (write_file unique_file_name (content response) w1)
                         else complain e (''Failed to download '' @ file_name @ '': '' @
                                          status_and_text response) w1)
               in sleep 1 w2))"

text \<open>The loop \<^verbatim>\<open>for attachment in attachments\<close> of lines 227 to 231.\<close>

fun download_attachments ::
  "env \<Rightarrow> string \<Rightarrow> string \<Rightarrow> string \<Rightarrow> string \<Rightarrow> string set \<Rightarrow> jobj list \<Rightarrow> world
    \<Rightarrow> (abort + unit) \<times> world"
where
  "download_attachments e token tenant_id inv_id inv_num downloaded_set [] w = (Inr (), w)"
| "download_attachments e token tenant_id inv_id inv_num downloaded_set (attachment # rest) w =
     (case map_of attachment ''FileName'' of
        None \<Rightarrow> (Inl (KeyError ''FileName''), w)
      | Some file_name \<Rightarrow>
          download_attachments e token tenant_id inv_id inv_num downloaded_set rest
            (download_invoice_attachment e token tenant_id inv_id file_name inv_num
               downloaded_set (say e (''Found attachment: '' @ file_name) w)))"

text \<open>
  One pass through the body of the loop \<^verbatim>\<open>for inv in invoices\<close> (lines 209 to 238;
  \<^verbatim>\<open>inv\<close> is \<open>invoice\<close> here). The counter \<^verbatim>\<open>new_invoices_processed\<close> is an
  argument, and the result is its value after the pass.
\<close>

definition process_invoice ::
  "env \<Rightarrow> string \<Rightarrow> string \<Rightarrow> string set \<Rightarrow> string set \<Rightarrow> nat \<Rightarrow> jobj \<Rightarrow> world
    \<Rightarrow> (abort + nat) \<times> world"
where
  "process_invoice e token tenant_id processed_invoices downloaded_set n invoice w =
     (case map_of invoice ''InvoiceID'' of
        None \<Rightarrow> (Inl (KeyError ''InvoiceID''), w)
      | Some inv_id \<Rightarrow>
          (let inv_num = (case map_of invoice ''InvoiceNumber'' of Some x \<Rightarrow> x | None \<Rightarrow> inv_id);
               date = (case map_of invoice ''DateString'' of Some x \<Rightarrow> x | None \<Rightarrow> ''N/A'')
           in if inv_id \<in> processed_invoices
              then (Inr n,
                    logger_info e (''Skipped invoice: '' @ inv_num @ '' (ID: '' @ inv_id @
                                   '') - already processed'')
                      (print (''Skipping invoice: '' @ inv_num @ '' (ID: '' @ inv_id @
                              '') - already processed'') w))
              else (let w1 = say e (''Processing invoice: '' @ inv_num @ '' (ID: '' @ inv_id @
                                    '', Date: '' @ date @ '')'') w;
                        attachments_url = XERO_INVOICES_URL @ ''/'' @ inv_id @ ''/Attachments'';
                        (response, w2) = get_xero_api e attachments_url token tenant_id [] w1
                    in if status_code response = 200
                       then (let attachments =
                                   (case map_of (json_lists response) ''Attachments'' of
                                      Some xs \<Rightarrow> xs | None \<Rightarrow> [])
                             in if attachments \<noteq> []
                                then (case download_attachments e token tenant_id inv_id inv_num
                                             downloaded_set attachments w2 of
                                        (Inl a, w3) \<Rightarrow> (Inl a, w3)
                                      | (Inr _, w3) \<Rightarrow> (Inr (n + 1), w3))
                                else (Inr (n + 1),
                                      say e (''No attachments found for invoice '' @ inv_num)
                                        w2))
                       else (Inr n,
                             complain e (''Failed to fetch attachments for '' @ inv_num @
                                         '': '' @ status_and_text response) w2))))"

text \<open>The loop itself: an exception ends it, anything else goes on to the next invoice.\<close>

fun process_invoices ::
  "env \<Rightarrow> string \<Rightarrow> string \<Rightarrow> string set \<Rightarrow> string set \<Rightarrow> nat \<Rightarrow> jobj list \<Rightarrow> world
    \<Rightarrow> (abort + nat) \<times> world"
where
  "process_invoices e token tenant_id processed_invoices downloaded_set n [] w = (Inr n, w)"
| "process_invoices e token tenant_id processed_invoices downloaded_set n (invoice # rest) w =
     (case process_invoice e token tenant_id processed_invoices downloaded_set n invoice w of
        (Inl a, w1) \<Rightarrow> (Inl a, w1)
      | (Inr n', w1) \<Rightarrow>
          process_invoices e token tenant_id processed_invoices downloaded_set n' rest w1)"

subsection \<open>main\<close>

text \<open>
  The second half of the \<^verbatim>\<open>try\<close> of \<^verbatim>\<open>main\<close> (lines 198 to 241), from the
  supplier folder on: it changes into the folder, loads the two sets from the ledger
  and goes through the invoices.
\<close>

definition download_all ::
  "env \<Rightarrow> config \<Rightarrow> string \<Rightarrow> string \<Rightarrow> jobj list \<Rightarrow> world \<Rightarrow> (abort + unit) \<times> world"
where
  "download_all e cfg token tenant_id invoices w5 =
     (let supplier_folder =
            path_join ''invoice_attachments'' (str_replace (SUPPLIER_NAME cfg) CHR '' '' CHR ''_'');
          w6 = (if \<not> path_exists w5 supplier_folder then makedirs supplier_folder w5 else w5);
          w7 = chdir supplier_folder w6
      in case load_processed_invoices w7 of
           Inl a \<Rightarrow> (Inl a, w7)
         | Inr processed_invoices \<Rightarrow>
     (case load_downloaded_attachments w7 of
           Inl a \<Rightarrow> (Inl a, w7)
         | Inr downloaded_set \<Rightarrow>
     (case process_invoices e token tenant_id processed_invoices downloaded_set 0 invoices w7 of
           (Inl a, w8) \<Rightarrow> (Inl a, w8)
         | (Inr new_invoices_processed, w8) \<Rightarrow>
             (Inr (),
              say e (''Processed '' @ str_nat new_invoices_processed @ '' new invoices.'')
                w8))))"

text \<open>
  The body of the \<^verbatim>\<open>try\<close> of \<^verbatim>\<open>main\<close> (lines 190 to 241): token, tenant, contact
  and invoices, then the half above. An abort of a callee ends the body with that
  abort.
\<close>

definition main_try :: "env \<Rightarrow> config \<Rightarrow> world \<Rightarrow> ((abort + unit) \<times> world) option" where
  "main_try e cfg w0 =
     (let w1 = logger_info e ''Starting Xero invoice attachment downloader...''
                 (print ''Fetching access token from Xero...'' w0)
      in case get_token e cfg w1 of
           (Inl a, w2) \<Rightarrow> Some (Inl a, w2)
         | (Inr token, w2) \<Rightarrow>
      (case get_tenant_id e token w2 of
           (Inl a, w3) \<Rightarrow> Some (Inl a, w3)
         | (Inr tenant_id, w3) \<Rightarrow>
      (case get_contact_id e cfg token tenant_id None w3 of
           (Inl a, w4) \<Rightarrow> Some (Inl a, w4)
         | (Inr contact_id, w4) \<Rightarrow>
      (case get_invoices_for_contact e cfg token tenant_id contact_id w4 of
           None \<Rightarrow> None
         | Some (Inl a, w5) \<Rightarrow> Some (Inl a, w5)
         | Some (Inr invoices, w5) \<Rightarrow>
             Some (download_all e cfg token tenant_id invoices w5)))))"

text \<open>
  \<^verbatim>\<open>except Exception as err\<close> (lines 243 to 246): an exception is printed, logged and
  turned into exit status 1. \<^verbatim>\<open>SystemExit\<close> is not an \<^verbatim>\<open>Exception\<close> and passes.
\<close>

definition main :: "env \<Rightarrow> config \<Rightarrow> world \<Rightarrow> ((abort + unit) \<times> world) option" where
  "main e cfg w =
     (case main_try e cfg w of
        None \<Rightarrow> None
      | Some (Inl (Raise err), w1) \<Rightarrow>
          Some (Inl (Exit 1), complain e (''Error occurred: '' @ err) w1)
      | Some r \<Rightarrow> Some r)"

text \<open>
  A run of the script: the module-level logging set-up, then the
  \<^verbatim>\<open>if __name__ == "__main__"\<close> block (lines 248 to 252).
\<close>

definition run :: "env \<Rightarrow> config \<Rightarrow> world \<Rightarrow> ((abort + unit) \<times> world) option" where
  "run e cfg w =
     (case main e cfg (print ''Starting Xero invoice attachment downloader...'' (basicConfig w)) of
        None \<Rightarrow> None
      | Some (Inl a, w1) \<Rightarrow> Some (Inl a, w1)
      | Some (Inr _, w1) \<Rightarrow> Some (Inr (), say e ''Download process completed.'' w1))"

section \<open>Vocabulary of the statements\<close>

text \<open>The HTTP requests of a trace and the files written in it, in order.\<close>

fun http_requests :: "event list \<Rightarrow> request list" where
  "http_requests [] = []"
| "http_requests (Http r # t) = r # http_requests t"
| "http_requests (_ # t) = http_requests t"

fun file_writes :: "event list \<Rightarrow> (string \<times> string) list" where
  "file_writes [] = []"
| "file_writes (FileWrite p d # t) = (p, d) # file_writes t"
| "file_writes (_ # t) = file_writes t"

text \<open>The \<^verbatim>\<open>POST\<close> requests of a trace, in order.\<close>

fun is_post :: "request \<Rightarrow> bool" where
  "is_post (Post _ _ _ _) = True"
| "is_post (Get _ _ _) = False"

definition posts :: "event list \<Rightarrow> request list" where
  "posts t = filter is_post (http_requests t)"

text \<open>
  A small configuration, an empty start directory \<^verbatim>\<open>/app\<close> and responses to build
  services from, for the concrete runs below.
\<close>

definition demo_cfg :: config where
  "demo_cfg = \<lparr>CLIENT_ID = ''id'', CLIENT_SECRET = ''secret'', SUPPLIER_NAME = ''Acme Ltd'',
               start_date = \<lparr>year = 2019, month = 7, day = 5\<rparr>\<rparr>"

definition demo_world :: world where
  "demo_world = \<lparr>cwd = ''/app'', dirs = {}, files = Map.empty, log_path = [], trace = [],
                 requests = 0\<rparr>"

definition reply :: "nat \<Rightarrow> jobj \<Rightarrow> (string \<times> jobj list) list \<Rightarrow> jobj list \<Rightarrow> response" where
  "reply st ob ls ar =
     \<lparr>status_code = st, text_body = ''body'', content = ''PDF'', json_object = ob,
      json_lists = ls, json_array = ar\<rparr>"

text \<open>
  A service with one tenant, one contact and one invoice \<^verbatim>\<open>INV-1\<close> that has one
  attachment \<^verbatim>\<open>a/b.pdf\<close>. The run sends seven requests: token, connections,
  contacts, two invoice pages, the attachment list and the attachment.
\<close>

definition demo_service :: env where
  "demo_service =
     \<lparr>http = (\<lambda>n req.
        if n = 0 then reply 200 [(''access_token'', ''T'')] [] []
        else if n = 1 then reply 200 [] [] [[(''tenantId'', ''X'')]]
        else if n = 2 then reply 200 [] [(''Contacts'', [[(''ContactID'', ''c1'')]])] []
        else if n = 3 then
          reply 200 []
            [(''Invoices'', [[(''InvoiceID'', ''abc''), (''InvoiceNumber'', ''INV-1'')]])] []
        else if n = 4 then reply 200 [] [(''Invoices'', [])] []
        else if n = 5 then reply 200 [] [(''Attachments'', [[(''FileName'', ''a/b.pdf'')]])] []
        else reply 200 [] [] []),
      asctime = (\<lambda>n. ''t'')\<rparr>"

text \<open>A service that answers every request with status 500.\<close>

definition failing_service :: env where
  "failing_service = \<lparr>http = (\<lambda>n req. reply 500 [] [] []), asctime = (\<lambda>n. ''t'')\<rparr>"

text \<open>Two services for the contact lookup: one finds two contacts, one finds none.\<close>

definition two_contacts :: env where
  "two_contacts =
     \<lparr>http = (\<lambda>n req. reply 200 []
                [(''Contacts'', [[(''ContactID'', ''c1''), (''Name'', ''Acme Ltd'')],
                                 [(''ContactID'', ''c2''), (''Name'', ''Acme Ltd'')]])] []),
      asctime = (\<lambda>n. ''t'')\<rparr>"

definition no_contacts :: env where
  "no_contacts = \<lparr>http = (\<lambda>n req. reply 200 [] [(''Contacts'', [])] []),
                  asctime = (\<lambda>n. ''t'')\<rparr>"

text \<open>
  The request for one page of invoices, the invoice list of a response, and the
  response of the service to the request for page \<open>k\<close> when the pages are asked for in
  order from world \<open>w\<close> on (page 1 is the next request).
\<close>

definition page_request :: "date \<Rightarrow> string \<Rightarrow> string \<Rightarrow> string \<Rightarrow> nat \<Rightarrow> request" where
  "page_request d token tenant_id contact_id page =
     Get XERO_INVOICES_URL
       [(''Authorization'', ''Bearer '' @ token), (''Accept'', ''application/json''),
        (''Xero-tenant-id'', tenant_id)]
       [(''where'',
         ''Contact.ContactID==Guid('' @ [dquote] @ contact_id @ [dquote] @
         '') AND Date>=DateTime('' @ str_nat (year d) @ '','' @ fmt_02d (month d) @
         '','' @ fmt_02d (day d) @ '')''),
        (''order'', ''Date DESC''),
        (''page'', str_nat page)]"

definition page_list :: "response \<Rightarrow> jobj list" where
  "page_list r = (case map_of (json_lists r) ''Invoices'' of Some xs \<Rightarrow> xs | None \<Rightarrow> [])"

definition page_answer ::
  "env \<Rightarrow> config \<Rightarrow> string \<Rightarrow> string \<Rightarrow> string \<Rightarrow> world \<Rightarrow> nat \<Rightarrow> response" where
  "page_answer e cfg token tenant_id contact_id w k =
     http e (requests w + (k - 1)) (page_request (start_date cfg) token tenant_id contact_id k)"

text \<open>
  The world after one pass through the body of the page loop, and a service with two
  pages of invoices followed by empty pages.
\<close>

definition after_pass ::
  "((abort + jobj list) \<times> world) + (nat \<times> jobj list \<times> world) \<Rightarrow> world" where
  "after_pass x = (case x of Inl (r, w) \<Rightarrow> w | Inr (page, invoices, w) \<Rightarrow> w)"

definition three_pages :: env where
  "three_pages =
     \<lparr>http = (\<lambda>n req.
        if n = 0 then reply 200 [] [(''Invoices'', [[(''InvoiceID'', ''a'')], [(''InvoiceID'', ''b'')]])] []
        else if n = 1 then reply 200 [] [(''Invoices'', [[(''InvoiceID'', ''c'')]])] []
        else reply 200 [] [(''Invoices'', [])] []),
      asctime = (\<lambda>n. ''t'')\<rparr>"

subsection \<open>The requests of a run\<close>

text \<open>
  The five kinds of request the script sends besides the invoice pages, as the
  functions above build them: the token exchange of \<^verbatim>\<open>get_token\<close>, the connections
  lookup of \<^verbatim>\<open>get_tenant_id\<close>, the contact lookup of \<^verbatim>\<open>get_contact_id\<close>, the
  attachment list of an invoice (\<^verbatim>\<open>main\<close>) and the download of one attachment
  (\<^verbatim>\<open>download_invoice_attachment\<close>).
\<close>

definition token_request :: "config \<Rightarrow> request" where
  "token_request cfg =
     Post XERO_TOKEN_URL [(''Content-Type'', ''application/x-www-form-urlencoded'')]
       (CLIENT_ID cfg, CLIENT_SECRET cfg)
       [(''grant_type'', ''client_credentials''),
        (''scopes'', ''accounting.transactions accounting.attachments accounting.contacts'')]"

definition connections_request :: "string \<Rightarrow> request" where
  "connections_request token =
     Get XERO_CONNECTIONS_URL
       [(''Authorization'', ''Bearer '' @ token), (''Accept'', ''application/json'')] []"

definition contact_request :: "config \<Rightarrow> string \<Rightarrow> string \<Rightarrow> request" where
  "contact_request cfg token tenant_id =
     Get XERO_CONTACTS_URL
       [(''Authorization'', ''Bearer '' @ token), (''Accept'', ''application/json''),
        (''Xero-tenant-id'', tenant_id)]
       [(''where'', ''Name=='' @ [dquote] @ SUPPLIER_NAME cfg @ [dquote])]"

definition attachments_request :: "string \<Rightarrow> string \<Rightarrow> string \<Rightarrow> request" where
  "attachments_request token tenant_id inv_id =
     Get (XERO_INVOICES_URL @ ''/'' @ inv_id @ ''/Attachments'')
       [(''Authorization'', ''Bearer '' @ token), (''Accept'', ''application/json''),
        (''Xero-tenant-id'', tenant_id)] []"

definition download_request :: "string \<Rightarrow> string \<Rightarrow> string \<Rightarrow> string \<Rightarrow> request" where
  "download_request token tenant_id invoice_id file_name =
     Get (XERO_INVOICES_URL @ ''/'' @ invoice_id @ ''/Attachments/'' @ file_name)
       [(''Authorization'', ''Bearer '' @ token), (''Accept'', ''application/octet-stream''),
        (''Xero-tenant-id'', tenant_id)] []"

text \<open>
  A run that \<^emph>\<open>exits after\<close> a request with a message: it ends with exit status 1, and the
  last three things it did were that request, printing the message, and logging it as
  an error. Nothing follows the failed request but the report: no second attempt.
\<close>

definition exits_after ::
  "((abort + unit) \<times> world) option \<Rightarrow> request \<Rightarrow> string \<Rightarrow> bool" where
  "exits_after result req msg \<longleftrightarrow>
     (\<exists>w' t. result = Some (Inl (Exit 1), w') \<and>
             trace w' = t @ [Http req, Print msg, Log ''ERROR'' msg])"

text \<open>The service of the concrete runs, except that its answer number \<open>k\<close> has status 500.\<close>

definition fails_at :: "nat \<Rightarrow> env" where
  "fails_at k =
     \<lparr>http = (\<lambda>n req. if n = k then reply 500 [] [] [] else http demo_service n req),
      asctime = (\<lambda>n. ''t'')\<rparr>"

text \<open>
  The answer to the request that is sent as number \<open>i\<close> of a run started in \<open>w\<close>, and
  what it means for the first three answers to be good: status 200 and a body holding
  the token, the tenant or the contact.
\<close>

definition stage_answer :: "env \<Rightarrow> world \<Rightarrow> nat \<Rightarrow> request \<Rightarrow> response" where
  "stage_answer e w i req = http e (requests w + i) req"

definition token_ok :: "env \<Rightarrow> config \<Rightarrow> world \<Rightarrow> string \<Rightarrow> bool" where
  "token_ok e cfg w token \<longleftrightarrow>
     status_code (stage_answer e w 0 (token_request cfg)) = 200 \<and>
     map_of (json_object (stage_answer e w 0 (token_request cfg))) ''access_token'' = Some token"

definition tenant_ok :: "env \<Rightarrow> world \<Rightarrow> string \<Rightarrow> string \<Rightarrow> bool" where
  "tenant_ok e w token tenant_id \<longleftrightarrow>
     status_code (stage_answer e w 1 (connections_request token)) = 200 \<and>
     (\<exists>c cs. json_array (stage_answer e w 1 (connections_request token)) = c # cs \<and>
             map_of c ''tenantId'' = Some tenant_id)"

definition contact_ok :: "env \<Rightarrow> config \<Rightarrow> world \<Rightarrow> string \<Rightarrow> string \<Rightarrow> string \<Rightarrow> bool" where
  "contact_ok e cfg w token tenant_id contact_id \<longleftrightarrow>
     status_code (stage_answer e w 2 (contact_request cfg token tenant_id)) = 200 \<and>
     (\<exists>c cs. map_of (json_lists (stage_answer e w 2 (contact_request cfg token tenant_id)))
               ''Contacts'' = Some (c # cs) \<and>
             map_of c ''ContactID'' = Some contact_id)"

text \<open>
  What the requests and reports of the first four steps leave alone: directories, files
  other than the log, and the list of files written.
\<close>

definition untouched :: "world \<Rightarrow> world \<Rightarrow> bool" where
  "untouched w w' \<longleftrightarrow>
     cwd w' = cwd w \<and> dirs w' = dirs w \<and> log_path w' = log_path w \<and>
     file_writes (trace w') = file_writes (trace w) \<and>
     (\<forall>p. p \<noteq> log_path w \<longrightarrow> files w' p = files w p)"

text \<open>The one invoice of the concrete service.\<close>

definition demo_invoice :: jobj where
  "demo_invoice = [(''InvoiceID'', ''abc''), (''InvoiceNumber'', ''INV-1'')]"

subsection \<open>The log and the folder\<close>

text \<open>
  The text of the log file the logging handler writes to; the supplier folder of
  \<^verbatim>\<open>main\<close> (line 198); and the world after lines 199 to 201, which create the folder
  if it is missing and change into it.
\<close>

definition log_text :: "world \<Rightarrow> string" where
  "log_text w = (case files w (log_path w) of None \<Rightarrow> [] | Some s \<Rightarrow> s)"

definition supplier_folder :: "config \<Rightarrow> string" where
  "supplier_folder cfg =
     path_join ''invoice_attachments'' (str_replace (SUPPLIER_NAME cfg) CHR '' '' CHR ''_'')"

definition in_supplier_folder :: "config \<Rightarrow> world \<Rightarrow> world" where
  "in_supplier_folder cfg w =
     chdir (supplier_folder cfg)
       (if \<not> path_exists w (supplier_folder cfg) then makedirs (supplier_folder cfg) w else w)"

text \<open>
  Starting the script again: the second process begins in the directory the first one
  was started in, with the files and directories the first one left, and has sent
  nothing yet.
\<close>

definition restart :: "world \<Rightarrow> world \<Rightarrow> world" where
  "restart w0 w' = w'\<lparr>cwd := cwd w0, log_path := [], trace := [], requests := 0\<rparr>"

text \<open>
  A start directory whose log already holds the record of invoice \<^verbatim>\<open>abc\<close>, as an
  earlier run wrote it.
\<close>

definition logged_world :: world where
  "logged_world =
     demo_world\<lparr>files := [''/app/xero_download.log'' \<mapsto>
        ''t - INFO - Processing invoice: INV-1 (ID: abc, Date: N/A)'' @ [newline]]\<rparr>"

subsection \<open>Pieces of a log line\<close>

text \<open>
  What stands in front of and behind the first occurrence of a separator. With no
  occurrence, everything is in front and nothing behind.
\<close>

fun before_first :: "string \<Rightarrow> string \<Rightarrow> string" where
  "before_first sep [] = []"
| "before_first sep (c # cs) = (if prefix sep (c # cs) then [] else c # before_first sep cs)"

fun after_first :: "string \<Rightarrow> string \<Rightarrow> string" where
  "after_first sep [] = []"
| "after_first sep (c # cs) =
     (if prefix sep (c # cs) then drop (length sep) (c # cs) else after_first sep cs)"

text \<open>
  The piece of a line that ends up in the set of processed invoices: it begins behind
  the first \<^verbatim>\<open>"ID: "\<close> and ends at the next \<^verbatim>\<open>"ID: "\<close>, the next comma, or the end of
  the line, whichever comes first. Likewise the piece that ends up in the set of
  downloaded attachments: from the first \<^verbatim>\<open>"Downloaded attachment: "\<close> to the next
  one or the end of the line. The lines that contribute are those with both markers,
  respectively with the marker including its trailing space.
\<close>

definition invoice_id_in_line :: "string \<Rightarrow> string" where
  "invoice_id_in_line line =
     str_strip (before_first '','' (before_first ''ID: '' (after_first ''ID: '' line)))"

definition file_name_in_line :: "string \<Rightarrow> string" where
  "file_name_in_line line =
     str_strip (before_first ''Downloaded attachment: ''
                 (after_first ''Downloaded attachment: '' line))"

definition has_invoice_id :: "string \<Rightarrow> bool" where
  "has_invoice_id line \<longleftrightarrow>
     str_contains ''Processing invoice:'' line \<and> str_contains ''ID: '' line"

definition has_file_name :: "string \<Rightarrow> bool" where
  "has_file_name line \<longleftrightarrow> str_contains ''Downloaded attachment: '' line"

text \<open>
  The two sets as the specification words them: the stripped text between \<^verbatim>\<open>"ID: "\<close>
  and the next comma, for the lines containing \<^verbatim>\<open>"Processing invoice:"\<close>; and the
  stripped rest of the line behind \<^verbatim>\<open>"Downloaded attachment: "\<close>, for the lines
  containing that marker.
\<close>

definition spec_processed_invoices :: "string list \<Rightarrow> string set" where
  "spec_processed_invoices lines =
     set (map (\<lambda>line. str_strip (before_first '','' (after_first ''ID: '' line)))
           (filter (\<lambda>line. has_invoice_id line \<and>
                      str_contains '','' (after_first ''ID: '' line)) lines))"

definition spec_downloaded_attachments :: "string list \<Rightarrow> string set" where
  "spec_downloaded_attachments lines =
     set (map (\<lambda>line. str_strip (after_first ''Downloaded attachment: '' line))
           (filter has_file_name lines))"

text \<open>
  A plain line has its markers once: a comma follows the first \<^verbatim>\<open>"ID: "\<close> of an invoice
  record with no further \<^verbatim>\<open>"ID: "\<close> in between, and nothing behind the first
  \<^verbatim>\<open>"Downloaded attachment: "\<close> repeats it.
\<close>

definition plain_line :: "string \<Rightarrow> bool" where
  "plain_line line \<longleftrightarrow>
     (if has_invoice_id line
      then str_contains '','' (after_first ''ID: '' line) \<and>
           \<not> str_contains ''ID: '' (before_first '','' (after_first ''ID: '' line))
      else True) \<and>
     \<not> str_contains ''Downloaded attachment: ''
         (after_first ''Downloaded attachment: '' line)"

text \<open>
  The record that \<^verbatim>\<open>main\<close> logs for an invoice numbered \<^verbatim>\<open>PAID: 1\<close>, a log holding just
  this line, and a log holding one invoice record and one download record.
\<close>

definition paid_line :: string where
  "paid_line = ''t - INFO - Processing invoice: PAID: 1 (ID: abc, Date: N/A)'' @ [newline]"

definition paid_world :: world where
  "paid_world = demo_world\<lparr>files := [''/app/xero_download.log'' \<mapsto> paid_line]\<rparr>"

definition ledger_text :: string where
  "ledger_text =
     ''t - INFO - Processing invoice: INV-1 (ID: abc, Date: N/A)'' @ [newline] @
     ''t - INFO - Downloaded attachment: INV-1_a_b.pdf'' @ [newline]"

definition ledger_world :: world where
  "ledger_world = demo_world\<lparr>files := [''/app/xero_download.log'' \<mapsto> ledger_text]\<rparr>"

text \<open>
  The invoice numbered \<^verbatim>\<open>PAID: 1\<close> whose record the line above is; and a start
  directory whose log holds nothing but the download record of \<^verbatim>\<open>INV-1_a_b.pdf\<close>, as
  an earlier run wrote it.
\<close>

definition paid_invoice :: jobj where
  "paid_invoice = [(''InvoiceID'', ''abc''), (''InvoiceNumber'', ''PAID: 1'')]"

definition downloaded_text :: string where
  "downloaded_text = ''t - INFO - Downloaded attachment: INV-1_a_b.pdf'' @ [newline]"

definition downloaded_world :: world where
  "downloaded_world =
     demo_world\<lparr>files := [''/app/xero_download.log'' \<mapsto> downloaded_text]\<rparr>"

section \<open>What each effect changes\<close>

lemma print_fields [simp]:
  "cwd (print m w) = cwd w" "dirs (print m w) = dirs w" "files (print m w) = files w"
  "log_path (print m w) = log_path w" "requests (print m w) = requests w"
  "trace (print m w) = trace w @ [Print m]"
  by (simp_all add: print_def)

lemma sleep_fields [simp]:
  "cwd (sleep n w) = cwd w" "dirs (sleep n w) = dirs w" "files (sleep n w) = files w"
  "log_path (sleep n w) = log_path w" "requests (sleep n w) = requests w"
  "trace (sleep n w) = trace w @ [Sleep n]"
  by (simp_all add: sleep_def)

lemma logger_log_fields [simp]:
  "cwd (logger_log e l m w) = cwd w" "dirs (logger_log e l m w) = dirs w"
  "log_path (logger_log e l m w) = log_path w" "requests (logger_log e l m w) = requests w"
  "trace (logger_log e l m w) = trace w @ [Log l m]"
  by (simp_all add: logger_log_def Let_def)

lemma logger_log_files:
  "files (logger_log e l m w) p =
     (if p = log_path w
      then Some ((case files w p of None \<Rightarrow> [] | Some s \<Rightarrow> s) @
                 asctime e (length (trace w)) @ '' - '' @ l @ '' - '' @ m @ [newline])
      else files w p)"
  by (simp add: logger_log_def Let_def)

lemma logger_log_files_other [simp]:
  "p \<noteq> log_path w \<Longrightarrow> files (logger_log e l m w) p = files w p"
  by (simp add: logger_log_files)

lemma say_fields [simp]:
  "cwd (say e m w) = cwd w" "dirs (say e m w) = dirs w"
  "log_path (say e m w) = log_path w" "requests (say e m w) = requests w"
  "trace (say e m w) = trace w @ [Print m, Log ''INFO'' m]"
  "p \<noteq> log_path w \<Longrightarrow> files (say e m w) p = files w p"
  by (simp_all add: say_def logger_info_def)

lemma complain_fields [simp]:
  "cwd (complain e m w) = cwd w" "dirs (complain e m w) = dirs w"
  "log_path (complain e m w) = log_path w" "requests (complain e m w) = requests w"
  "trace (complain e m w) = trace w @ [Print m, Log ''ERROR'' m]"
  "p \<noteq> log_path w \<Longrightarrow> files (complain e m w) p = files w p"
  by (simp_all add: complain_def logger_error_def)

lemma logger_info_fields [simp]:
  "cwd (logger_info e m w) = cwd w" "dirs (logger_info e m w) = dirs w"
  "log_path (logger_info e m w) = log_path w" "requests (logger_info e m w) = requests w"
  "trace (logger_info e m w) = trace w @ [Log ''INFO'' m]"
  "p \<noteq> log_path w \<Longrightarrow> files (logger_info e m w) p = files w p"
  by (simp_all add: logger_info_def)

lemma sent_fields [simp]:
  "cwd (sent r w) = cwd w" "dirs (sent r w) = dirs w" "files (sent r w) = files w"
  "log_path (sent r w) = log_path w" "requests (sent r w) = Suc (requests w)"
  "trace (sent r w) = trace w @ [Http r]"
  by (simp_all add: sent_def)

lemma write_file_fields [simp]:
  "cwd (write_file n d w) = cwd w" "dirs (write_file n d w) = dirs w"
  "log_path (write_file n d w) = log_path w" "requests (write_file n d w) = requests w"
  "trace (write_file n d w) = trace w @ [FileWrite (path_join (cwd w) n) d]"
  "files (write_file n d w) = (files w)(path_join (cwd w) n \<mapsto> d)"
  by (simp_all add: write_file_def abspath_def)

lemma makedirs_fields [simp]:
  "cwd (makedirs p w) = cwd w" "dirs (makedirs p w) = insert (path_join (cwd w) p) (dirs w)"
  "log_path (makedirs p w) = log_path w" "requests (makedirs p w) = requests w"
  "trace (makedirs p w) = trace w @ [MakeDirs p]" "files (makedirs p w) = files w"
  by (simp_all add: makedirs_def abspath_def)

lemma chdir_fields [simp]:
  "cwd (chdir p w) = path_join (cwd w) p" "dirs (chdir p w) = dirs w"
  "log_path (chdir p w) = log_path w" "requests (chdir p w) = requests w"
  "trace (chdir p w) = trace w @ [ChDir p]" "files (chdir p w) = files w"
  by (simp_all add: chdir_def abspath_def)

lemma basicConfig_fields [simp]:
  "cwd (basicConfig w) = cwd w" "dirs (basicConfig w) = dirs w"
  "log_path (basicConfig w) = path_join (cwd w) ''xero_download.log''"
  "requests (basicConfig w) = requests w" "trace (basicConfig w) = trace w"
  "p \<noteq> path_join (cwd w) ''xero_download.log'' \<Longrightarrow> files (basicConfig w) p = files w p"
  by (simp_all add: basicConfig_def abspath_def Let_def)


lemma http_requests_append [simp]:
  "http_requests (a @ b) = http_requests a @ http_requests b"
  by (induction a rule: http_requests.induct) simp_all

lemma file_writes_append [simp]:
  "file_writes (a @ b) = file_writes a @ file_writes b"
  by (induction a rule: file_writes.induct) simp_all

section \<open>Attachments already recorded\<close>

text \<open>
  The skip branch of \<^verbatim>\<open>download_invoice_attachment\<close> (lines 166 to 169), for whatever
  set the function is given: if the unique file name (the invoice number, an
  underscore, and the file name with \<^verbatim>\<open>/\<close> and the backslash replaced by underscores)
  is in that set, the function returns after one print and one log record, so it sends
  no HTTP request and writes no file. Which set \<^verbatim>\<open>main\<close> hands over is the matter of
  the section on the ledger below.
\<close>

lemma recorded_attachment_is_skipped:
  assumes "inv_num @ ''_'' @
           str_replace (str_replace file_name CHR ''/'' CHR ''_'') backslash CHR ''_''
             \<in> downloaded_set"
  shows "trace (download_invoice_attachment e token tenant_id invoice_id file_name inv_num
                  downloaded_set w) =
           trace w @
           [Print (''Skipping '' @ unique_name inv_num file_name @ '' - already downloaded''),
            Log ''INFO'' (''Skipped '' @ unique_name inv_num file_name @
                          '' - already downloaded'')]
         \<and> requests (download_invoice_attachment e token tenant_id invoice_id file_name inv_num
                       downloaded_set w) = requests w
         \<and> (\<forall>p. p \<noteq> log_path w \<longrightarrow>
               files (download_invoice_attachment e token tenant_id invoice_id file_name
                        inv_num downloaded_set w) p = files w p)"
  using assms by (simp add: download_invoice_attachment_def unique_name_def)

lemma recorded_attachment_is_skipped_example:
  "''INV-1_a_b.pdf'' \<in> {''INV-1_a_b.pdf'', ''INV-2_c.pdf''}
   \<and> http_requests (trace (download_invoice_attachment failing_service ''T'' ''X'' ''abc''
         ''a/b.pdf'' ''INV-1'' {''INV-1_a_b.pdf'', ''INV-2_c.pdf''} demo_world)) = []
   \<and> file_writes (trace (download_invoice_attachment failing_service ''T'' ''X'' ''abc''
         ''a/b.pdf'' ''INV-1'' {''INV-1_a_b.pdf'', ''INV-2_c.pdf''} demo_world)) = []"
  using recorded_attachment_is_skipped [of "''INV-1''" "''a/b.pdf''"
      "{''INV-1_a_b.pdf'', ''INV-2_c.pdf''}" failing_service "''T''" "''X''" "''abc''" demo_world]
  by (simp add: str_replace_def demo_world_def)

section \<open>One token per run\<close>

text \<open>
  No function but \<^verbatim>\<open>get_token\<close> sends a \<^verbatim>\<open>POST\<close>: the \<^verbatim>\<open>POST\<close> requests of a trace
  are the same before and after any other call. For the paged query this is an
  invariant of the loop, so the loop gets a rule of its own first: what holds of the
  world at the start and is kept by every pass that continues, holds when a pass
  leaves the loop.
\<close>

lemma posts_simps [simp]:
  "posts [] = []"
  "posts (a @ b) = posts a @ posts b"
  "posts (Http r # t) = (if is_post r then r # posts t else posts t)"
  "posts (Print m # t) = posts t"
  "posts (Log l m # t) = posts t"
  "posts (FileWrite p c # t) = posts t"
  "posts (Sleep n # t) = posts t"
  "posts (MakeDirs p # t) = posts t"
  "posts (ChDir p # t) = posts t"
  by (simp_all add: posts_def)

lemma get_token_posts:
  "posts (trace (snd (get_token e cfg w))) =
     posts (trace w) @
     [Post XERO_TOKEN_URL [(''Content-Type'', ''application/x-www-form-urlencoded'')]
        (CLIENT_ID cfg, CLIENT_SECRET cfg)
        [(''grant_type'', ''client_credentials''),
         (''scopes'', ''accounting.transactions accounting.attachments accounting.contacts'')]]"
  by (simp add: get_token_def send_def Let_def split: option.split)

lemma get_tenant_id_posts: "posts (trace (snd (get_tenant_id e token w))) = posts (trace w)"
  by (simp add: get_tenant_id_def send_def Let_def split: option.split list.split)

lemma get_contact_id_posts:
  "posts (trace (snd (get_contact_id e cfg token tenant_id name w))) = posts (trace w)"
  by (simp add: get_contact_id_def get_xero_api_def send_def Let_def split: option.split list.split)

lemma invoices_body_posts:
  "invoices_body e d token tenant_id contact_id (page, invoices, w) = Inl (r, w') \<Longrightarrow>
     posts (trace w') = posts (trace w)"
  "invoices_body e d token tenant_id contact_id (page, invoices, w) = Inr (page', invoices', w') \<Longrightarrow>
     posts (trace w') = posts (trace w)"
  by (auto simp: invoices_body_def get_xero_api_def send_def Let_def split: if_splits)

lemma invoices_loop_rule:
  assumes ret: "invoices_loop e d token tenant_id contact_id st = Some res"
    and init: "I (snd (snd st))"
    and step: "\<And>s s'. I (snd (snd s)) \<Longrightarrow>
                 invoices_body e d token tenant_id contact_id s = Inr s' \<Longrightarrow> I (snd (snd s'))"
    and exit: "\<And>s r. I (snd (snd s)) \<Longrightarrow>
                 invoices_body e d token tenant_id contact_id s = Inl r \<Longrightarrow> Q r"
  shows "Q res"
proof -
  have "I (snd (snd st)) \<longrightarrow> Q res"
  proof (rule invoices_loop.raw_induct
      [where P = "\<lambda>e' d' token' tenant' contact' s r.
         e' = e \<and> d' = d \<and> token' = token \<and> tenant' = tenant_id \<and> contact' = contact_id \<longrightarrow>
         I (snd (snd s)) \<longrightarrow> Q r", OF _ ret, simplified])
    fix f e' d' tk tn c s r
    assume IH: "\<And>e' d' tk tn c s r. f e' d' tk tn c s = Some r \<Longrightarrow>
        e' = e \<and> d' = d \<and> tk = token \<and> tn = tenant_id \<and> c = contact_id \<longrightarrow>
        I (snd (snd s)) \<longrightarrow> Q r"
      and eq: "(case invoices_body e' d' tk tn c s of Inl r \<Rightarrow> Some r
               | Inr s' \<Rightarrow> f e' d' tk tn c s') = Some r"
    show "e' = e \<and> d' = d \<and> tk = token \<and> tn = tenant_id \<and> c = contact_id \<longrightarrow>
        I (snd (snd s)) \<longrightarrow> Q r"
    proof (intro impI)
      assume same: "e' = e \<and> d' = d \<and> tk = token \<and> tn = tenant_id \<and> c = contact_id"
        and inv: "I (snd (snd s))"
      show "Q r"
      proof (cases "invoices_body e d token tenant_id contact_id s")
        case (Inl a)
        with eq same have "a = r" by simp
        with Inl inv show ?thesis by (auto intro: exit)
      next
        case (Inr s')
        with eq same have "f e d token tenant_id contact_id s' = Some r" by simp
        moreover from inv Inr have "I (snd (snd s'))" by (rule step)
        ultimately show ?thesis using IH by blast
      qed
    qed
  qed
  with init show ?thesis by simp
qed


lemma invoices_loop_invariant:
  assumes ret: "invoices_loop e d token tenant_id contact_id (page, invoices, w) = Some (r, w')"
    and init: "I w"
    and step: "\<And>page invoices w page' invoices' w1. I w \<Longrightarrow>
       invoices_body e d token tenant_id contact_id (page, invoices, w) =
         Inr (page', invoices', w1) \<Longrightarrow> I w1"
    and exit: "\<And>page invoices w r w1. I w \<Longrightarrow>
       invoices_body e d token tenant_id contact_id (page, invoices, w) = Inl (r, w1) \<Longrightarrow>
       Q r w1"
  shows "Q r w'"
proof -
  have "case_prod Q (r, w')"
  proof (rule invoices_loop_rule [where I = I and Q = "case_prod Q", OF ret])
    show "I (snd (snd (page, invoices, w)))" using init by simp
  next
    fix s s' assume "I (snd (snd s))"
      and "invoices_body e d token tenant_id contact_id s = Inr s'"
    then show "I (snd (snd s'))"
      using step [of "snd (snd s)" "fst s" "fst (snd s)" "fst s'" "fst (snd s')" "snd (snd s')"]
      by simp
  next
    fix s r1 assume "I (snd (snd s))"
      and "invoices_body e d token tenant_id contact_id s = Inl r1"
    then show "case_prod Q r1"
      using exit [of "snd (snd s)" "fst s" "fst (snd s)" "fst r1" "snd r1"]
      by (simp add: case_prod_beta)
  qed
  then show ?thesis by simp
qed

lemma invoices_loop_posts:
  assumes "invoices_loop e d token tenant_id contact_id (page, invoices, w) = Some (r, w')"
  shows "posts (trace w') = posts (trace w)"
  by (rule invoices_loop_invariant
      [where I = "\<lambda>v. posts (trace v) = posts (trace w)"
         and Q = "\<lambda>r v. posts (trace v) = posts (trace w)", OF assms])
     (auto dest: invoices_body_posts)

lemma get_invoices_for_contact_posts:
  assumes "get_invoices_for_contact e cfg token tenant_id contact_id w = Some (r, w')"
  shows "posts (trace w') = posts (trace w)"
  using assms
  by (auto simp: get_invoices_for_contact_def dest: invoices_loop_posts
      split: option.splits sum.splits prod.splits)


lemma download_invoice_attachment_posts:
  "posts (trace (download_invoice_attachment e token tenant_id invoice_id file_name inv_num
                   downloaded_set w)) = posts (trace w)"
  by (simp add: download_invoice_attachment_def send_def Let_def)

lemma download_attachments_posts:
  "download_attachments e token tenant_id inv_id inv_num downloaded_set attachments w = (r, w')
    \<Longrightarrow> posts (trace w') = posts (trace w)"
  by (induction attachments arbitrary: w)
     (auto simp: download_invoice_attachment_posts split: option.splits)

lemma process_invoice_posts:
  "process_invoice e token tenant_id processed downloaded n invoice w = (r, w')
    \<Longrightarrow> posts (trace w') = posts (trace w)"
  by (auto simp: process_invoice_def get_xero_api_def send_def Let_def
      dest: download_attachments_posts
      split: option.splits prod.splits sum.splits if_splits)

lemma process_invoices_posts:
  "process_invoices e token tenant_id processed downloaded n invoices w = (r, w')
    \<Longrightarrow> posts (trace w') = posts (trace w)"
proof (induction invoices arbitrary: n w)
  case Nil
  then show ?case by simp
next
  case (Cons invoice rest)
  obtain r1 w1 where one: "process_invoice e token tenant_id processed downloaded n invoice w = (r1, w1)"
    by (cases "process_invoice e token tenant_id processed downloaded n invoice w")
  then have w1: "posts (trace w1) = posts (trace w)" by (rule process_invoice_posts)
  show ?case
  proof (cases r1)
    case (Inl a)
    with one Cons.prems w1 show ?thesis by simp
  next
    case (Inr n')
    with one Cons.prems
    have "process_invoices e token tenant_id processed downloaded n' rest w1 = (r, w')" by simp
    then have "posts (trace w') = posts (trace w1)" by (rule Cons.IH)
    with w1 show ?thesis by simp
  qed
qed

lemma download_all_posts:
  "download_all e cfg token tenant_id invoices w = (r, w') \<Longrightarrow>
     posts (trace w') = posts (trace w)"
  by (auto simp: download_all_def Let_def dest!: process_invoices_posts
      split: sum.splits prod.splits if_splits)

lemma main_try_posts:
  assumes "main_try e cfg w = Some (r, w')"
  shows "posts (trace w') =
     posts (trace w) @
     [Post XERO_TOKEN_URL [(''Content-Type'', ''application/x-www-form-urlencoded'')]
        (CLIENT_ID cfg, CLIENT_SECRET cfg)
        [(''grant_type'', ''client_credentials''),
         (''scopes'', ''accounting.transactions accounting.attachments accounting.contacts'')]]"
proof -
  let ?w1 = "logger_info e ''Starting Xero invoice attachment downloader...''
               (print ''Fetching access token from Xero...'' w)"
  let ?req = "Post XERO_TOKEN_URL [(''Content-Type'', ''application/x-www-form-urlencoded'')]
        (CLIENT_ID cfg, CLIENT_SECRET cfg)
        [(''grant_type'', ''client_credentials''),
         (''scopes'', ''accounting.transactions accounting.attachments accounting.contacts'')]"
  obtain r2 w2 where tok: "get_token e cfg ?w1 = (r2, w2)" by (cases "get_token e cfg ?w1")
  then have p2: "posts (trace w2) = posts (trace w) @ [?req]"
    using get_token_posts [of e cfg ?w1] by simp
  show ?thesis
  proof (cases r2)
    case (Inl a)
    with assms tok p2 show ?thesis by (simp add: main_try_def)
  next
    case (Inr token)
    obtain r3 w3 where ten: "get_tenant_id e token w2 = (r3, w3)"
      by (cases "get_tenant_id e token w2")
    then have p3: "posts (trace w3) = posts (trace w2)"
      using get_tenant_id_posts [of e token w2] by simp
    show ?thesis
    proof (cases r3)
      case (Inl a)
      with assms tok Inr ten p2 p3 show ?thesis by (simp add: main_try_def)
    next
      case tenant: (Inr tenant_id)
      obtain r4 w4 where con: "get_contact_id e cfg token tenant_id None w3 = (r4, w4)"
        by (cases "get_contact_id e cfg token tenant_id None w3")
      then have p4: "posts (trace w4) = posts (trace w3)"
        using get_contact_id_posts [of e cfg token tenant_id None w3] by simp
      show ?thesis
      proof (cases r4)
        case (Inl a)
        with assms tok Inr ten tenant con p2 p3 p4 show ?thesis by (simp add: main_try_def)
      next
        case contact: (Inr contact_id)
        from assms tok Inr ten tenant con contact
        obtain r5 w5 where
          inv: "get_invoices_for_contact e cfg token tenant_id contact_id w4 = Some (r5, w5)"
          by (auto simp: main_try_def split: option.splits)
        then have p5: "posts (trace w5) = posts (trace w4)"
          by (rule get_invoices_for_contact_posts)
        show ?thesis
        proof (cases r5)
          case (Inl a)
          with assms tok Inr ten tenant con contact inv p2 p3 p4 p5 show ?thesis
            by (simp add: main_try_def)
        next
          case invs: (Inr invoices)
          obtain r6 w6 where dl: "download_all e cfg token tenant_id invoices w5 = (r6, w6)"
            by (cases "download_all e cfg token tenant_id invoices w5")
          then have p6: "posts (trace w6) = posts (trace w5)"
            by (rule download_all_posts)
          from assms tok Inr ten tenant con contact inv invs dl p2 p3 p4 p5 p6 show ?thesis
            by (simp add: main_try_def)
        qed
      qed
    qed
  qed
qed

lemma main_posts:
  assumes "main e cfg w = Some (r, w')"
  shows "posts (trace w') =
     posts (trace w) @
     [Post XERO_TOKEN_URL [(''Content-Type'', ''application/x-www-form-urlencoded'')]
        (CLIENT_ID cfg, CLIENT_SECRET cfg)
        [(''grant_type'', ''client_credentials''),
         (''scopes'', ''accounting.transactions accounting.attachments accounting.contacts'')]]"
  using assms
  by (auto simp: main_def dest!: main_try_posts split: option.splits prod.splits sum.splits abort.splits)

lemma run_posts:
  assumes "run e cfg w = Some (r, w')"
  shows "posts (trace w') =
     posts (trace w) @
     [Post XERO_TOKEN_URL [(''Content-Type'', ''application/x-www-form-urlencoded'')]
        (CLIENT_ID cfg, CLIENT_SECRET cfg)
        [(''grant_type'', ''client_credentials''),
         (''scopes'', ''accounting.transactions accounting.attachments accounting.contacts'')]]"
  using assms
  by (auto simp: run_def dest!: main_posts split: option.splits prod.splits sum.splits)

text \<open>The run of \<open>demo_service\<close> returns normally.\<close>

lemma demo_run_returns:
  "\<exists>w'. run demo_service demo_cfg demo_world = Some (Inr (), w')"
  by (simp add: run_def main_def main_try_def download_all_def get_token_def get_tenant_id_def
     get_contact_id_def
     get_invoices_for_contact_def invoices_loop.simps invoices_body_def get_xero_api_def send_def
     load_processed_invoices_def load_downloaded_attachments_def path_exists_def abspath_def
     process_invoice_def download_invoice_attachment_def unique_name_def str_replace_def
     demo_service_def demo_cfg_def reply_def Let_def demo_world_def path_join_def)

text \<open>
  Claim C8. \<^verbatim>\<open>get_token\<close> performs a single client-credentials exchange: the one
  request it sends is a \<^verbatim>\<open>POST\<close> to the token endpoint with the form field
  \<^verbatim>\<open>grant_type = client_credentials\<close>, authenticated with \<^verbatim>\<open>CLIENT_ID\<close> and
  \<^verbatim>\<open>CLIENT_SECRET\<close>. On status 200 it returns the \<^verbatim>\<open>access_token\<close> member of the
  body, on any other status it exits with status 1. A run that ends has sent exactly
  this one \<^verbatim>\<open>POST\<close>: the token is acquired once and never refreshed.
\<close>

theorem get_token_client_credentials:
  "let req = Post XERO_TOKEN_URL [(''Content-Type'', ''application/x-www-form-urlencoded'')]
               (CLIENT_ID cfg, CLIENT_SECRET cfg)
               [(''grant_type'', ''client_credentials''),
                (''scopes'',
                 ''accounting.transactions accounting.attachments accounting.contacts'')];
       response = http e (requests w) req
   in http_requests (trace (snd (get_token e cfg w))) = http_requests (trace w) @ [req]
      \<and> (\<forall>token. status_code response = 200 \<and>
                   map_of (json_object response) ''access_token'' = Some token \<longrightarrow>
                   fst (get_token e cfg w) = Inr token)
      \<and> (status_code response \<noteq> 200 \<longrightarrow> fst (get_token e cfg w) = Inl (Exit 1))
      \<and> (\<forall>r w'. run e cfg w = Some (r, w') \<longrightarrow> posts (trace w') = posts (trace w) @ [req])"
  by (auto simp: get_token_def send_def Let_def dest: run_posts split: option.splits)

theorem get_token_client_credentials_witness:
  "fst (get_token demo_service demo_cfg demo_world) = Inr ''T''
   \<and> fst (get_token failing_service demo_cfg demo_world) = Inl (Exit 1)
   \<and> (\<exists>w'. run demo_service demo_cfg demo_world = Some (Inr (), w')
          \<and> posts (trace w') =
              [Post XERO_TOKEN_URL [(''Content-Type'', ''application/x-www-form-urlencoded'')]
                 (''id'', ''secret'')
                 [(''grant_type'', ''client_credentials''),
                  (''scopes'',
                   ''accounting.transactions accounting.attachments accounting.contacts'')]])"
proof -
  obtain w' where ret: "run demo_service demo_cfg demo_world = Some (Inr (), w')"
    using demo_run_returns by blast
  have ok: "status_code (http demo_service 0 req) = 200
      \<and> map_of (json_object (http demo_service 0 req)) ''access_token'' = Some ''T''" for req
    by (simp add: demo_service_def reply_def)
  have bad: "status_code (http failing_service 0 req) \<noteq> 200" for req
    by (simp add: failing_service_def reply_def)
  have zero: "requests demo_world = 0" "trace demo_world = []"
    by (simp_all add: demo_world_def)
  show ?thesis
    using get_token_client_credentials [of demo_cfg demo_service demo_world]
      get_token_client_credentials [of demo_cfg failing_service demo_world]
      ret ok bad zero
    by (simp add: Let_def demo_cfg_def)
qed

section \<open>Resolving the contact\<close>

text \<open>
  Claim C7. \<^verbatim>\<open>get_contact_id\<close>, called as \<^verbatim>\<open>main\<close> calls it, sends one request: a
  \<^verbatim>\<open>GET\<close> to the contacts endpoint whose \<^verbatim>\<open>where\<close> parameter is
  \<^verbatim>\<open>Name=="<SUPPLIER_NAME>"\<close>. When the status is 200 it returns the \<^verbatim>\<open>ContactID\<close>
  of the first contact of the returned list, and when that list is empty it exits
  with status 1.
\<close>

theorem get_contact_id_first_match:
  "let req = Get XERO_CONTACTS_URL
               [(''Authorization'', ''Bearer '' @ token), (''Accept'', ''application/json''),
                (''Xero-tenant-id'', tenant_id)]
               [(''where'', ''Name=='' @ [dquote] @ SUPPLIER_NAME cfg @ [dquote])];
       response = http e (requests w) req;
       contacts = (case map_of (json_lists response) ''Contacts'' of
                     Some cs \<Rightarrow> cs | None \<Rightarrow> [])
   in http_requests (trace (snd (get_contact_id e cfg token tenant_id None w))) =
        http_requests (trace w) @ [req]
      \<and> (\<forall>first others contact_id.
            status_code response = 200 \<and> contacts = first # others \<and>
            map_of first ''ContactID'' = Some contact_id \<longrightarrow>
            fst (get_contact_id e cfg token tenant_id None w) = Inr contact_id)
      \<and> (status_code response = 200 \<and> contacts = [] \<longrightarrow>
            fst (get_contact_id e cfg token tenant_id None w) = Inl (Exit 1))"
  by (auto simp: get_contact_id_def get_xero_api_def send_def Let_def
      split: option.splits list.splits)

theorem get_contact_id_first_match_witness:
  "fst (get_contact_id two_contacts demo_cfg ''T'' ''X'' None demo_world) = Inr ''c1''
   \<and> fst (get_contact_id no_contacts demo_cfg ''T'' ''X'' None demo_world) = Inl (Exit 1)
   \<and> http_requests (trace (snd (get_contact_id two_contacts demo_cfg ''T'' ''X'' None demo_world))) =
       [Get ''https://api.xero.com/api.xro/2.0/Contacts''
          [(''Authorization'', ''Bearer T''), (''Accept'', ''application/json''),
           (''Xero-tenant-id'', ''X'')]
          [(''where'', ''Name=='' @ [dquote] @ ''Acme Ltd'' @ [dquote])]]"
proof -
  have two: "http two_contacts n req = reply 200 []
                [(''Contacts'', [[(''ContactID'', ''c1''), (''Name'', ''Acme Ltd'')],
                                 [(''ContactID'', ''c2''), (''Name'', ''Acme Ltd'')]])] []" for n req
    by (simp add: two_contacts_def)
  have none: "http no_contacts n req = reply 200 [] [(''Contacts'', [])] []" for n req
    by (simp add: no_contacts_def)
  show ?thesis
    using get_contact_id_first_match [of "''T''" "''X''" demo_cfg two_contacts demo_world]
      get_contact_id_first_match [of "''T''" "''X''" demo_cfg no_contacts demo_world]
    by (simp add: Let_def two none reply_def demo_cfg_def demo_world_def XERO_CONTACTS_URL_def)
qed

section \<open>Paging through the invoices\<close>

text \<open>
  One pass through the loop body, by the response to its request: a page with invoices
  continues with the next page number, an empty page breaks, any other status exits.
\<close>

lemma invoices_body_continue:
  assumes "status_code (http e (requests w) (page_request d token tenant_id contact_id page)) = 200"
    and "page_list (http e (requests w) (page_request d token tenant_id contact_id page)) \<noteq> []"
  shows "\<exists>w1. invoices_body e d token tenant_id contact_id (page, invoices, w) =
           Inr (Suc page,
                invoices @ page_list (http e (requests w)
                                        (page_request d token tenant_id contact_id page)), w1)
         \<and> requests w1 = Suc (requests w)
         \<and> http_requests (trace w1) =
             http_requests (trace w) @ [page_request d token tenant_id contact_id page]"
  using assms
  by (simp add: invoices_body_def get_xero_api_def send_def Let_def page_request_def page_list_def)

lemma invoices_body_break:
  assumes "status_code (http e (requests w) (page_request d token tenant_id contact_id page)) = 200"
    and "page_list (http e (requests w) (page_request d token tenant_id contact_id page)) = []"
  shows "invoices_body e d token tenant_id contact_id (page, invoices, w) =
           Inl (Inr invoices, sent (page_request d token tenant_id contact_id page) w)"
  using assms
  by (simp add: invoices_body_def get_xero_api_def send_def Let_def page_request_def page_list_def)

lemma invoices_body_exit:
  assumes "status_code (http e (requests w) (page_request d token tenant_id contact_id page)) \<noteq> 200"
  shows "invoices_body e d token tenant_id contact_id (page, invoices, w) =
           Inl (Inl (Exit 1),
                complain e (''Failed to fetch invoices: '' @
                            status_and_text (http e (requests w)
                              (page_request d token tenant_id contact_id page)))
                  (sent (page_request d token tenant_id contact_id page) w))"
  using assms
  by (simp add: invoices_body_def get_xero_api_def send_def Let_def page_request_def)

lemma invoices_loop_pages:
  assumes "\<forall>i<n. status_code (http e (requests w + i)
                      (page_request d token tenant_id contact_id (page + i))) = 200 \<and>
                 page_list (http e (requests w + i)
                      (page_request d token tenant_id contact_id (page + i))) \<noteq> []"
    and "status_code (http e (requests w + n)
                      (page_request d token tenant_id contact_id (page + n))) = 200"
    and "page_list (http e (requests w + n)
                      (page_request d token tenant_id contact_id (page + n))) = []"
  shows "\<exists>w'. invoices_loop e d token tenant_id contact_id (page, invoices, w) =
           Some (Inr (invoices @
                      concat (map (\<lambda>i. page_list (http e (requests w + i)
                                 (page_request d token tenant_id contact_id (page + i))))
                                [0..<n])), w')
         \<and> http_requests (trace w') =
             http_requests (trace w) @
             map (\<lambda>i. page_request d token tenant_id contact_id (page + i)) [0..<Suc n]"
  using assms
proof (induction n arbitrary: page invoices w)
  case 0
  then show ?case
    by (subst invoices_loop.simps) (simp add: invoices_body_break)
next
  case (Suc n)
  let ?R = "\<lambda>i. http e (requests w + i) (page_request d token tenant_id contact_id (page + i))"
  from Suc.prems(1) have first: "status_code (?R 0) = 200" "page_list (?R 0) \<noteq> []"
    by auto
  then obtain w1 where
    body: "invoices_body e d token tenant_id contact_id (page, invoices, w) =
             Inr (Suc page, invoices @ page_list (?R 0), w1)"
    and req: "requests w1 = Suc (requests w)"
    and tr: "http_requests (trace w1) =
               http_requests (trace w) @ [page_request d token tenant_id contact_id page]"
    using invoices_body_continue [of e w d token tenant_id contact_id page invoices] by auto
  have p1: "\<forall>i<n. status_code (?R (Suc i)) = 200 \<and> page_list (?R (Suc i)) \<noteq> []"
    using Suc.prems(1) by auto
  have p2: "status_code (?R (Suc n)) = 200" "page_list (?R (Suc n)) = []"
    using Suc.prems(2,3) by auto
  have "\<exists>w'. invoices_loop e d token tenant_id contact_id
               (Suc page, invoices @ page_list (?R 0), w1) =
           Some (Inr ((invoices @ page_list (?R 0)) @
                      concat (map (\<lambda>i. page_list (?R (Suc i))) [0..<n])), w')
         \<and> http_requests (trace w') =
             http_requests (trace w1) @
             map (\<lambda>i. page_request d token tenant_id contact_id (Suc (page + i))) [0..<Suc n]"
    using Suc.IH [of w1 "Suc page" "invoices @ page_list (?R 0)"] p1 p2
    by (simp add: req)
  then obtain w' where
    loop: "invoices_loop e d token tenant_id contact_id
               (Suc page, invoices @ page_list (?R 0), w1) =
           Some (Inr ((invoices @ page_list (?R 0)) @
                      concat (map (\<lambda>i. page_list (?R (Suc i))) [0..<n])), w')"
    and tr': "http_requests (trace w') =
             http_requests (trace w1) @
             map (\<lambda>i. page_request d token tenant_id contact_id (Suc (page + i))) [0..<Suc n]"
    by blast
  have c: "concat (map (\<lambda>i. page_list (?R i)) [0..<Suc n]) =
        page_list (?R 0) @ concat (map (\<lambda>i. page_list (?R (Suc i))) [0..<n])"
    by (simp only: upt_conv_Cons [of 0 "Suc n"] map_Suc_upt [symmetric]) (simp add: comp_def)
  have m: "map (\<lambda>i. page_request d token tenant_id contact_id (page + i)) [0..<Suc (Suc n)] =
        page_request d token tenant_id contact_id page #
        map (\<lambda>i. page_request d token tenant_id contact_id (Suc (page + i))) [0..<Suc n]"
    by (simp only: upt_conv_Cons [of 0 "Suc (Suc n)"] map_Suc_upt [symmetric]) (simp add: comp_def)
  have "invoices_loop e d token tenant_id contact_id (page, invoices, w) =
          invoices_loop e d token tenant_id contact_id
               (Suc page, invoices @ page_list (?R 0), w1)"
    by (subst invoices_loop.simps) (simp add: body)
  with loop tr tr' show ?case
    by (simp only: c m) simp
qed

lemma invoices_loop_terminates:
  assumes "status_code (http e (requests w + n)
                      (page_request d token tenant_id contact_id (page + n))) \<noteq> 200 \<or>
           page_list (http e (requests w + n)
                      (page_request d token tenant_id contact_id (page + n))) = []"
  shows "\<exists>r. invoices_loop e d token tenant_id contact_id (page, invoices, w) = Some r"
  using assms
proof (induction n arbitrary: page invoices w)
  case 0
  then show ?case
    by (subst invoices_loop.simps)
       (cases "status_code (http e (requests w) (page_request d token tenant_id contact_id page)) = 200",
        auto simp: invoices_body_break invoices_body_exit)
next
  case (Suc n)
  let ?r = "http e (requests w) (page_request d token tenant_id contact_id page)"
  show ?case
  proof (cases "status_code ?r = 200 \<and> page_list ?r \<noteq> []")
    case True
    then obtain w1 where
      body: "invoices_body e d token tenant_id contact_id (page, invoices, w) =
             Inr (Suc page, invoices @ page_list ?r, w1)"
      and req: "requests w1 = Suc (requests w)"
      using invoices_body_continue [of e w d token tenant_id contact_id page invoices] by auto
    have "\<exists>r. invoices_loop e d token tenant_id contact_id
                 (Suc page, invoices @ page_list ?r, w1) = Some r"
      using Suc.prems by (intro Suc.IH) (simp add: req)
    then show ?thesis
      by (subst invoices_loop.simps) (simp add: body)
  next
    case False
    then show ?thesis
      by (subst invoices_loop.simps)
         (cases "status_code ?r = 200", auto simp: invoices_body_break invoices_body_exit)
  qed
qed

text \<open>
  Claim C5. \<^verbatim>\<open>get_invoices_for_contact\<close> asks for the pages 1, 2, 3, ... in order.
  If the pages 1 to \<open>n\<close> are answered with status 200 and a non-empty invoice list and
  page \<open>n + 1\<close> with status 200 and an empty list, the function returns the
  concatenation of the lists of the pages 1 to \<open>n\<close>, in that order, after having
  requested exactly the pages 1 to \<open>n + 1\<close>, each once. And whenever some page is
  answered with an empty list (or with a failure), the loop terminates.
\<close>

theorem pages_until_first_empty:
  "(\<forall>n. (\<forall>k. 1 \<le> k \<and> k \<le> n \<longrightarrow>
              status_code (page_answer e cfg token tenant_id contact_id w k) = 200 \<and>
              page_list (page_answer e cfg token tenant_id contact_id w k) \<noteq> []) \<and>
        status_code (page_answer e cfg token tenant_id contact_id w (Suc n)) = 200 \<and>
        page_list (page_answer e cfg token tenant_id contact_id w (Suc n)) = [] \<longrightarrow>
        (\<exists>w'. get_invoices_for_contact e cfg token tenant_id contact_id w =
                 Some (Inr (concat (map (\<lambda>k. page_list
                                (page_answer e cfg token tenant_id contact_id w k))
                              [1..<Suc n])), w') \<and>
              http_requests (trace w') =
                http_requests (trace w) @
                map (page_request (start_date cfg) token tenant_id contact_id)
                  [1..<Suc (Suc n)]))
   \<and> ((\<exists>k\<ge>1. status_code (page_answer e cfg token tenant_id contact_id w k) \<noteq> 200 \<or>
              page_list (page_answer e cfg token tenant_id contact_id w k) = []) \<longrightarrow>
        get_invoices_for_contact e cfg token tenant_id contact_id w \<noteq> None)"
proof (intro conjI allI impI)
  fix n
  let ?d = "start_date cfg"
  let ?A = "page_answer e cfg token tenant_id contact_id w"
  assume h: "(\<forall>k. 1 \<le> k \<and> k \<le> n \<longrightarrow> status_code (?A k) = 200 \<and> page_list (?A k) \<noteq> []) \<and>
        status_code (?A (Suc n)) = 200 \<and> page_list (?A (Suc n)) = []"
  have A: "http e (requests w + i) (page_request ?d token tenant_id contact_id (1 + i)) =
      ?A (Suc i)" for i
    by (simp add: page_answer_def)
  have "\<exists>w'. invoices_loop e ?d token tenant_id contact_id (1, [], w) =
           Some (Inr ([] @
                      concat (map (\<lambda>i. page_list (http e (requests w + i)
                                 (page_request ?d token tenant_id contact_id (1 + i))))
                                [0..<n])), w')
         \<and> http_requests (trace w') =
             http_requests (trace w) @
             map (\<lambda>i. page_request ?d token tenant_id contact_id (1 + i)) [0..<Suc n]"
  proof (rule invoices_loop_pages)
    show "\<forall>i<n. status_code (http e (requests w + i)
                      (page_request ?d token tenant_id contact_id (1 + i))) = 200 \<and>
                 page_list (http e (requests w + i)
                      (page_request ?d token tenant_id contact_id (1 + i))) \<noteq> []"
      using h unfolding A by auto
    show "status_code (http e (requests w + n)
                      (page_request ?d token tenant_id contact_id (1 + n))) = 200"
      using h unfolding A by simp
    show "page_list (http e (requests w + n)
                      (page_request ?d token tenant_id contact_id (1 + n))) = []"
      using h unfolding A by simp
  qed
  then obtain w1 where
    loop: "invoices_loop e ?d token tenant_id contact_id (1, [], w) =
           Some (Inr (concat (map (\<lambda>i. page_list (?A (Suc i))) [0..<n])), w1)"
    and tr: "http_requests (trace w1) =
             http_requests (trace w) @
             map (\<lambda>i. page_request ?d token tenant_id contact_id (Suc i)) [0..<Suc n]"
    unfolding A by auto
  have c: "map (\<lambda>k. page_list (?A k)) [1..<Suc n] = map (\<lambda>i. page_list (?A (Suc i))) [0..<n]"
    by (simp only: One_nat_def map_Suc_upt [symmetric]) (simp add: comp_def)
  have m: "map (page_request ?d token tenant_id contact_id) [1..<Suc (Suc n)] =
      map (\<lambda>i. page_request ?d token tenant_id contact_id (Suc i)) [0..<Suc n]"
    by (simp only: One_nat_def map_Suc_upt [symmetric]) (simp add: comp_def)
  show "\<exists>w'. get_invoices_for_contact e cfg token tenant_id contact_id w =
                 Some (Inr (concat (map (\<lambda>k. page_list (?A k)) [1..<Suc n])), w') \<and>
              http_requests (trace w') =
                http_requests (trace w) @
                map (page_request ?d token tenant_id contact_id) [1..<Suc (Suc n)]"
    using loop tr by (simp only: c m) (simp add: get_invoices_for_contact_def)
next
  let ?d = "start_date cfg"
  let ?A = "page_answer e cfg token tenant_id contact_id w"
  assume "\<exists>k\<ge>1. status_code (?A k) \<noteq> 200 \<or> page_list (?A k) = []"
  then obtain k where k: "1 \<le> k" "status_code (?A k) \<noteq> 200 \<or> page_list (?A k) = []"
    by blast
  then have "status_code (http e (requests w + (k - 1))
                      (page_request ?d token tenant_id contact_id (1 + (k - 1)))) \<noteq> 200 \<or>
           page_list (http e (requests w + (k - 1))
                      (page_request ?d token tenant_id contact_id (1 + (k - 1)))) = []"
    by (simp add: page_answer_def)
  then have "\<exists>r. invoices_loop e ?d token tenant_id contact_id (1, [], w) = Some r"
    by (rule invoices_loop_terminates)
  then show "get_invoices_for_contact e cfg token tenant_id contact_id w \<noteq> None"
    by (auto simp: get_invoices_for_contact_def split: sum.splits)
qed

theorem pages_until_first_empty_witness:
  "\<exists>w'. get_invoices_for_contact three_pages demo_cfg ''T'' ''X'' ''c1'' demo_world =
          Some (Inr [[(''InvoiceID'', ''a'')], [(''InvoiceID'', ''b'')], [(''InvoiceID'', ''c'')]], w')
        \<and> http_requests (trace w') =
            [page_request (start_date demo_cfg) ''T'' ''X'' ''c1'' 1,
             page_request (start_date demo_cfg) ''T'' ''X'' ''c1'' 2,
             page_request (start_date demo_cfg) ''T'' ''X'' ''c1'' 3]"
proof -
  let ?A = "page_answer three_pages demo_cfg ''T'' ''X'' ''c1'' demo_world"
  have a1: "?A 1 = reply 200 [] [(''Invoices'', [[(''InvoiceID'', ''a'')], [(''InvoiceID'', ''b'')]])] []"
    and a2: "?A 2 = reply 200 [] [(''Invoices'', [[(''InvoiceID'', ''c'')]])] []"
    and a3: "?A 3 = reply 200 [] [(''Invoices'', [])] []"
    by (simp_all add: page_answer_def three_pages_def demo_world_def)
  have before: "\<forall>k. 1 \<le> k \<and> k \<le> 2 \<longrightarrow> status_code (?A k) = 200 \<and> page_list (?A k) \<noteq> []"
  proof (intro allI impI)
    fix k :: nat assume "1 \<le> k \<and> k \<le> 2"
    then have "k = 1 \<or> k = 2" by arith
    then show "status_code (?A k) = 200 \<and> page_list (?A k) \<noteq> []"
    proof
      assume "k = 1"
      then show ?thesis by (simp only: a1) (simp add: reply_def page_list_def)
    next
      assume "k = 2"
      then show ?thesis by (simp only: a2) (simp add: reply_def page_list_def)
    qed
  qed
  have stop: "status_code (?A (Suc 2)) = 200 \<and> page_list (?A (Suc 2)) = []"
    using a3 by (simp add: reply_def page_list_def eval_nat_numeral)
  have a1': "?A (Suc 0) = reply 200 [] [(''Invoices'', [[(''InvoiceID'', ''a'')], [(''InvoiceID'', ''b'')]])] []"
    using a1 by simp
  have res: "concat (map (\<lambda>k. page_list (?A k)) [1..<Suc 2]) =
      [[(''InvoiceID'', ''a'')], [(''InvoiceID'', ''b'')], [(''InvoiceID'', ''c'')]]"
    by (simp add: upt_rec page_answer_def three_pages_def demo_world_def page_list_def reply_def)
  have reqs: "map (page_request (start_date demo_cfg) ''T'' ''X'' ''c1'') [1..<Suc (Suc 2)] =
      [page_request (start_date demo_cfg) ''T'' ''X'' ''c1'' 1,
       page_request (start_date demo_cfg) ''T'' ''X'' ''c1'' 2,
       page_request (start_date demo_cfg) ''T'' ''X'' ''c1'' 3]"
    by (simp add: upt_rec eval_nat_numeral)
  have tr0: "http_requests (trace demo_world) = []"
    by (simp add: demo_world_def)
  from pages_until_first_empty [of e cfg token tenant_id contact_id w for e cfg token tenant_id contact_id w]
  have "\<exists>w'. get_invoices_for_contact three_pages demo_cfg ''T'' ''X'' ''c1'' demo_world =
                 Some (Inr (concat (map (\<lambda>k. page_list (?A k)) [1..<Suc 2])), w') \<and>
              http_requests (trace w') =
                http_requests (trace demo_world) @
                map (page_request (start_date demo_cfg) ''T'' ''X'' ''c1'') [1..<Suc (Suc 2)]"
    using before stop by blast
  then show ?thesis
    by (simp only: res reqs tr0 append_Nil)
qed

text \<open>Every pass sends one request, the one for its page.\<close>

lemma invoices_body_request:
  "http_requests (trace (after_pass (invoices_body e d token tenant_id contact_id
                                       (page, invoices, w)))) =
     http_requests (trace w) @ [page_request d token tenant_id contact_id page]"
  by (simp add: invoices_body_def get_xero_api_def send_def Let_def page_request_def
      after_pass_def)

lemma invoices_loop_requests:
  assumes "invoices_loop e d token tenant_id contact_id (page, invoices, w) = Some (r, w')"
  shows "\<exists>rs. http_requests (trace w') = http_requests (trace w) @ rs \<and>
              (\<forall>req\<in>set rs. \<exists>k. req = page_request d token tenant_id contact_id k)"
proof (rule invoices_loop_invariant
    [where I = "\<lambda>v. \<exists>rs. http_requests (trace v) = http_requests (trace w) @ rs \<and>
                  (\<forall>req\<in>set rs. \<exists>k. req = page_request d token tenant_id contact_id k)"
       and Q = "\<lambda>r v. \<exists>rs. http_requests (trace v) = http_requests (trace w) @ rs \<and>
                  (\<forall>req\<in>set rs. \<exists>k. req = page_request d token tenant_id contact_id k)",
     OF assms])
  show "\<exists>rs. http_requests (trace w) = http_requests (trace w) @ rs \<and>
              (\<forall>req\<in>set rs. \<exists>k. req = page_request d token tenant_id contact_id k)"
    by simp
next
  fix page invoices v page' invoices' v1
  assume "\<exists>rs. http_requests (trace v) = http_requests (trace w) @ rs \<and>
              (\<forall>req\<in>set rs. \<exists>k. req = page_request d token tenant_id contact_id k)"
    and "invoices_body e d token tenant_id contact_id (page, invoices, v) =
           Inr (page', invoices', v1)"
  then show "\<exists>rs. http_requests (trace v1) = http_requests (trace w) @ rs \<and>
              (\<forall>req\<in>set rs. \<exists>k. req = page_request d token tenant_id contact_id k)"
    using invoices_body_request [of e d token tenant_id contact_id page invoices v]
    by (auto simp: after_pass_def)
next
  fix page invoices v r v1
  assume "\<exists>rs. http_requests (trace v) = http_requests (trace w) @ rs \<and>
              (\<forall>req\<in>set rs. \<exists>k. req = page_request d token tenant_id contact_id k)"
    and "invoices_body e d token tenant_id contact_id (page, invoices, v) = Inl (r, v1)"
  then show "\<exists>rs. http_requests (trace v1) = http_requests (trace w) @ rs \<and>
              (\<forall>req\<in>set rs. \<exists>k. req = page_request d token tenant_id contact_id k)"
    using invoices_body_request [of e d token tenant_id contact_id page invoices v]
    by (auto simp: after_pass_def)
qed

text \<open>
  Claim C6. Every invoice page request carries the same server-side filter: its
  \<^verbatim>\<open>where\<close> parameter is
  \<^verbatim>\<open>Contact.ContactID==Guid("<contact_id>") AND Date>=DateTime(y,mm,dd)\<close> with the year
  of the start date in decimal and its month and day zero-padded to two digits; the
  comparison is \<^verbatim>\<open>>=\<close> and there is no second date condition. This holds for the
  request of every pass through the loop body, whether the loop ends or not, and so
  for every request in the trace of a call of \<^verbatim>\<open>get_invoices_for_contact\<close> that
  returns.
\<close>

theorem invoice_pages_carry_filter:
  "(\<forall>page invoices v.
      http_requests (trace (after_pass (invoices_body e (start_date cfg) token tenant_id
                                          contact_id (page, invoices, v)))) =
        http_requests (trace v) @
        [Get XERO_INVOICES_URL
           [(''Authorization'', ''Bearer '' @ token), (''Accept'', ''application/json''),
            (''Xero-tenant-id'', tenant_id)]
           [(''where'',
             ''Contact.ContactID==Guid('' @ [dquote] @ contact_id @ [dquote] @
             '') AND Date>=DateTime('' @ str_nat (year (start_date cfg)) @ '','' @
             fmt_02d (month (start_date cfg)) @ '','' @ fmt_02d (day (start_date cfg)) @ '')''),
            (''order'', ''Date DESC''),
            (''page'', str_nat page)]])
   \<and> (\<forall>r w'. get_invoices_for_contact e cfg token tenant_id contact_id w = Some (r, w') \<longrightarrow>
         (\<exists>rs. http_requests (trace w') = http_requests (trace w) @ rs \<and>
               (\<forall>req\<in>set rs. \<exists>page. req =
                  Get XERO_INVOICES_URL
                    [(''Authorization'', ''Bearer '' @ token), (''Accept'', ''application/json''),
                     (''Xero-tenant-id'', tenant_id)]
                    [(''where'',
                      ''Contact.ContactID==Guid('' @ [dquote] @ contact_id @ [dquote] @
                      '') AND Date>=DateTime('' @ str_nat (year (start_date cfg)) @ '','' @
                      fmt_02d (month (start_date cfg)) @ '','' @
                      fmt_02d (day (start_date cfg)) @ '')''),
                     (''order'', ''Date DESC''),
                     (''page'', str_nat page)])))"
proof (intro conjI allI impI)
  fix page invoices v
  show "http_requests (trace (after_pass (invoices_body e (start_date cfg) token tenant_id
                                          contact_id (page, invoices, v)))) =
        http_requests (trace v) @
        [Get XERO_INVOICES_URL
           [(''Authorization'', ''Bearer '' @ token), (''Accept'', ''application/json''),
            (''Xero-tenant-id'', tenant_id)]
           [(''where'',
             ''Contact.ContactID==Guid('' @ [dquote] @ contact_id @ [dquote] @
             '') AND Date>=DateTime('' @ str_nat (year (start_date cfg)) @ '','' @
             fmt_02d (month (start_date cfg)) @ '','' @ fmt_02d (day (start_date cfg)) @ '')''),
            (''order'', ''Date DESC''),
            (''page'', str_nat page)]]"
    using invoices_body_request [of e "start_date cfg" token tenant_id contact_id page invoices v]
    by (simp add: page_request_def)
next
  fix r w'
  assume ret: "get_invoices_for_contact e cfg token tenant_id contact_id w = Some (r, w')"
  then obtain r1 w1 where
    loop: "invoices_loop e (start_date cfg) token tenant_id contact_id (1, [], w) = Some (r1, w1)"
    and same: "http_requests (trace w') = http_requests (trace w1)"
    by (auto simp: get_invoices_for_contact_def split: option.splits sum.splits)
  from invoices_loop_requests [OF loop] same
  show "\<exists>rs. http_requests (trace w') = http_requests (trace w) @ rs \<and>
               (\<forall>req\<in>set rs. \<exists>page. req =
                  Get XERO_INVOICES_URL
                    [(''Authorization'', ''Bearer '' @ token), (''Accept'', ''application/json''),
                     (''Xero-tenant-id'', tenant_id)]
                    [(''where'',
                      ''Contact.ContactID==Guid('' @ [dquote] @ contact_id @ [dquote] @
                      '') AND Date>=DateTime('' @ str_nat (year (start_date cfg)) @ '','' @
                      fmt_02d (month (start_date cfg)) @ '','' @
                      fmt_02d (day (start_date cfg)) @ '')''),
                     (''order'', ''Date DESC''),
                     (''page'', str_nat page)])"
    by (simp add: page_request_def)
qed

theorem invoice_pages_carry_filter_witness:
  "http_requests (trace (after_pass (invoices_body three_pages (start_date demo_cfg) ''T'' ''X''
                                       ''c1'' (1, [], demo_world)))) =
     [Get ''https://api.xero.com/api.xro/2.0/Invoices''
        [(''Authorization'', ''Bearer T''), (''Accept'', ''application/json''),
         (''Xero-tenant-id'', ''X'')]
        [(''where'',
          ''Contact.ContactID==Guid('' @ [dquote] @ ''c1'' @ [dquote] @
          '') AND Date>=DateTime(2019,07,05)''),
         (''order'', ''Date DESC''),
         (''page'', ''1'')]]
   \<and> (\<exists>r w'. get_invoices_for_contact three_pages demo_cfg ''T'' ''X'' ''c1'' demo_world =
                Some (r, w')
        \<and> length (http_requests (trace w')) = 3)"
proof -
  have ret: "\<exists>w'. get_invoices_for_contact three_pages demo_cfg ''T'' ''X'' ''c1'' demo_world =
      Some (Inr [[(''InvoiceID'', ''a'')], [(''InvoiceID'', ''b'')], [(''InvoiceID'', ''c'')]], w')
      \<and> length (http_requests (trace w')) = 3"
    by (simp add: get_invoices_for_contact_def invoices_loop.simps invoices_body_def
        get_xero_api_def send_def three_pages_def reply_def demo_world_def Let_def)
  have digits: "str_nat 2019 = ''2019''" "fmt_02d 7 = ''07''" "fmt_02d 5 = ''05''"
    "str_nat (Suc 0) = ''1''"
    by (simp_all add: fmt_02d_def str_nat.simps digit_def)
  have tr0: "http_requests (trace demo_world) = []"
    by (simp add: demo_world_def)
  have date: "year (start_date demo_cfg) = 2019" "month (start_date demo_cfg) = 7"
    "day (start_date demo_cfg) = 5"
    by (simp_all add: demo_cfg_def)
  from invoice_pages_carry_filter [of three_pages demo_cfg "''T''" "''X''" "''c1''" demo_world]
  have "http_requests (trace (after_pass (invoices_body three_pages (start_date demo_cfg)
                                       ''T'' ''X'' ''c1'' (1, [], demo_world)))) =
        http_requests (trace demo_world) @
        [Get XERO_INVOICES_URL
           [(''Authorization'', ''Bearer '' @ ''T''), (''Accept'', ''application/json''),
            (''Xero-tenant-id'', ''X'')]
           [(''where'',
             ''Contact.ContactID==Guid('' @ [dquote] @ ''c1'' @ [dquote] @
             '') AND Date>=DateTime('' @ str_nat (year (start_date demo_cfg)) @ '','' @
             fmt_02d (month (start_date demo_cfg)) @ '','' @
             fmt_02d (day (start_date demo_cfg)) @ '')''),
            (''order'', ''Date DESC''),
            (''page'', str_nat 1)]]"
    by blast
  then have "http_requests (trace (after_pass (invoices_body three_pages (start_date demo_cfg)
                                       ''T'' ''X'' ''c1'' (1, [], demo_world)))) =
     [Get ''https://api.xero.com/api.xro/2.0/Invoices''
        [(''Authorization'', ''Bearer T''), (''Accept'', ''application/json''),
         (''Xero-tenant-id'', ''X'')]
        [(''where'',
          ''Contact.ContactID==Guid('' @ [dquote] @ ''c1'' @ [dquote] @
          '') AND Date>=DateTime(2019,07,05)''),
         (''order'', ''Date DESC''),
         (''page'', ''1'')]]"
    by (simp add: tr0 date digits XERO_INVOICES_URL_def)
  with ret show ?thesis by blast
qed

section \<open>Requests that fail\<close>

text \<open>
  Each of the first four steps of \<^verbatim>\<open>main\<close> ends the process on a status other than 200;
  the two steps inside the download loop report the failure and go on.
\<close>

lemma get_token_fail:
  "status_code (http e (requests v) (token_request cfg)) \<noteq> 200 \<Longrightarrow>
   get_token e cfg v =
     (Inl (Exit 1),
      complain e (''Failed to fetch token: '' @
                  status_and_text (http e (requests v) (token_request cfg)))
        (sent (token_request cfg) v))"
  by (simp add: get_token_def send_def token_request_def Let_def)

lemma get_token_ok:
  "status_code (http e (requests v) (token_request cfg)) = 200 \<Longrightarrow>
   map_of (json_object (http e (requests v) (token_request cfg))) ''access_token'' = Some token \<Longrightarrow>
   get_token e cfg v =
     (Inr token, say e ''Obtained token successfully'' (sent (token_request cfg) v))"
  by (simp add: get_token_def send_def token_request_def Let_def)

lemma get_tenant_id_fail:
  "status_code (http e (requests v) (connections_request token)) \<noteq> 200 \<Longrightarrow>
   get_tenant_id e token v =
     (Inl (Exit 1),
      complain e (''Failed to fetch tenant ID: '' @
                  status_and_text (http e (requests v) (connections_request token)))
        (sent (connections_request token) v))"
  by (simp add: get_tenant_id_def send_def connections_request_def Let_def)

lemma get_tenant_id_ok:
  "status_code (http e (requests v) (connections_request token)) = 200 \<Longrightarrow>
   json_array (http e (requests v) (connections_request token)) = c # cs \<Longrightarrow>
   map_of c ''tenantId'' = Some tenant_id \<Longrightarrow>
   get_tenant_id e token v =
     (Inr tenant_id, say e (''Using tenant ID: '' @ tenant_id) (sent (connections_request token) v))"
  by (simp add: get_tenant_id_def send_def connections_request_def Let_def)

lemma get_contact_id_fail:
  "status_code (http e (requests v) (contact_request cfg token tenant_id)) \<noteq> 200 \<Longrightarrow>
   get_contact_id e cfg token tenant_id None v =
     (Inl (Exit 1),
      complain e (''Failed to fetch contact details: '' @
                  status_and_text (http e (requests v) (contact_request cfg token tenant_id)))
        (sent (contact_request cfg token tenant_id) v))"
  by (simp add: get_contact_id_def get_xero_api_def send_def contact_request_def Let_def)

lemma get_contact_id_ok:
  "status_code (http e (requests v) (contact_request cfg token tenant_id)) = 200 \<Longrightarrow>
   map_of (json_lists (http e (requests v) (contact_request cfg token tenant_id))) ''Contacts'' =
     Some (c # cs) \<Longrightarrow>
   map_of c ''ContactID'' = Some contact_id \<Longrightarrow>
   get_contact_id e cfg token tenant_id None v =
     (Inr contact_id,
      say e (''Found '' @ [squote] @ SUPPLIER_NAME cfg @ [squote] @ '' with ContactID: '' @
             contact_id) (sent (contact_request cfg token tenant_id) v))"
  by (simp add: get_contact_id_def get_xero_api_def send_def contact_request_def Let_def)

lemma invoices_loop_fails:
  assumes "\<forall>i<n. status_code (http e (requests w + i)
                      (page_request d token tenant_id contact_id (page + i))) = 200 \<and>
                 page_list (http e (requests w + i)
                      (page_request d token tenant_id contact_id (page + i))) \<noteq> []"
    and "status_code (http e (requests w + n)
                      (page_request d token tenant_id contact_id (page + n))) \<noteq> 200"
  shows "\<exists>w' t. invoices_loop e d token tenant_id contact_id (page, invoices, w) =
           Some (Inl (Exit 1), w')
         \<and> trace w' = t @
             [Http (page_request d token tenant_id contact_id (page + n)),
              Print (''Failed to fetch invoices: '' @
                     status_and_text (http e (requests w + n)
                       (page_request d token tenant_id contact_id (page + n)))),
              Log ''ERROR'' (''Failed to fetch invoices: '' @
                     status_and_text (http e (requests w + n)
                       (page_request d token tenant_id contact_id (page + n))))]"
  using assms
proof (induction n arbitrary: page invoices w)
  case 0
  then show ?case
    by (subst invoices_loop.simps) (simp add: invoices_body_exit)
next
  case (Suc n)
  let ?R = "\<lambda>i. http e (requests w + i) (page_request d token tenant_id contact_id (page + i))"
  from Suc.prems(1) have first: "status_code (?R 0) = 200" "page_list (?R 0) \<noteq> []"
    by auto
  then obtain w1 where
    body: "invoices_body e d token tenant_id contact_id (page, invoices, w) =
             Inr (Suc page, invoices @ page_list (?R 0), w1)"
    and req: "requests w1 = Suc (requests w)"
    using invoices_body_continue [of e w d token tenant_id contact_id page invoices] by auto
  have p1: "\<forall>i<n. status_code (?R (Suc i)) = 200 \<and> page_list (?R (Suc i)) \<noteq> []"
    using Suc.prems(1) by auto
  have p2: "status_code (?R (Suc n)) \<noteq> 200"
    using Suc.prems(2) by auto
  have "\<exists>w' t. invoices_loop e d token tenant_id contact_id
               (Suc page, invoices @ page_list (?R 0), w1) = Some (Inl (Exit 1), w')
         \<and> trace w' = t @
             [Http (page_request d token tenant_id contact_id (Suc (page + n))),
              Print (''Failed to fetch invoices: '' @ status_and_text (?R (Suc n))),
              Log ''ERROR'' (''Failed to fetch invoices: '' @ status_and_text (?R (Suc n)))]"
    using Suc.IH [of w1 "Suc page" "invoices @ page_list (?R 0)"] p1 p2
    by (simp add: req)
  moreover have "invoices_loop e d token tenant_id contact_id (page, invoices, w) =
          invoices_loop e d token tenant_id contact_id
               (Suc page, invoices @ page_list (?R 0), w1)"
    by (subst invoices_loop.simps) (simp add: body)
  ultimately show ?case by simp
qed

lemma exits_afterI:
  "result = Some (Inl (Exit 1), complain e msg (sent req v)) \<Longrightarrow> exits_after result req msg"
  unfolding exits_after_def
  by (rule exI [of _ "complain e msg (sent req v)"], rule exI [of _ "trace v"]) simp

lemma run_exit:
  "main_try e cfg (print ''Starting Xero invoice attachment downloader...'' (basicConfig w)) =
     Some (Inl (Exit c), w') \<Longrightarrow>
   run e cfg w = Some (Inl (Exit c), w')"
  by (simp add: run_def main_def)

lemma main_try_token_exit:
  "get_token e cfg (logger_info e ''Starting Xero invoice attachment downloader...''
                      (print ''Fetching access token from Xero...'' w)) = (Inl a, w2) \<Longrightarrow>
   main_try e cfg w = Some (Inl a, w2)"
  by (simp add: main_try_def)

lemma main_try_tenant_exit:
  "get_token e cfg (logger_info e ''Starting Xero invoice attachment downloader...''
                      (print ''Fetching access token from Xero...'' w)) = (Inr token, w2) \<Longrightarrow>
   get_tenant_id e token w2 = (Inl a, w3) \<Longrightarrow>
   main_try e cfg w = Some (Inl a, w3)"
  by (simp add: main_try_def)

lemma main_try_contact_exit:
  "get_token e cfg (logger_info e ''Starting Xero invoice attachment downloader...''
                      (print ''Fetching access token from Xero...'' w)) = (Inr token, w2) \<Longrightarrow>
   get_tenant_id e token w2 = (Inr tenant_id, w3) \<Longrightarrow>
   get_contact_id e cfg token tenant_id None w3 = (Inl a, w4) \<Longrightarrow>
   main_try e cfg w = Some (Inl a, w4)"
  by (simp add: main_try_def)

lemma main_try_invoices_exit:
  "get_token e cfg (logger_info e ''Starting Xero invoice attachment downloader...''
                      (print ''Fetching access token from Xero...'' w)) = (Inr token, w2) \<Longrightarrow>
   get_tenant_id e token w2 = (Inr tenant_id, w3) \<Longrightarrow>
   get_contact_id e cfg token tenant_id None w3 = (Inr contact_id, w4) \<Longrightarrow>
   get_invoices_for_contact e cfg token tenant_id contact_id w4 = Some (Inl a, w5) \<Longrightarrow>
   main_try e cfg w = Some (Inl a, w5)"
  by (simp add: main_try_def)

lemma run_token_fails:
  assumes "status_code (stage_answer e w 0 (token_request cfg)) \<noteq> 200"
  shows "exits_after (run e cfg w) (token_request cfg)
           (''Failed to fetch token: '' @
            status_and_text (stage_answer e w 0 (token_request cfg)))"
proof -
  let ?w0 = "print ''Starting Xero invoice attachment downloader...'' (basicConfig w)"
  let ?w1 = "logger_info e ''Starting Xero invoice attachment downloader...''
               (print ''Fetching access token from Xero...'' ?w0)"
  have r1: "requests ?w1 = requests w + 0" by simp
  have "get_token e cfg ?w1 =
     (Inl (Exit 1),
      complain e (''Failed to fetch token: '' @
                  status_and_text (stage_answer e w 0 (token_request cfg)))
        (sent (token_request cfg) ?w1))"
    using assms get_token_fail [of e ?w1 cfg] unfolding stage_answer_def r1 by simp
  then show ?thesis
    by (intro exits_afterI run_exit main_try_token_exit)
qed

lemma run_tenant_fails:
  assumes "token_ok e cfg w token"
    and "status_code (stage_answer e w 1 (connections_request token)) \<noteq> 200"
  shows "exits_after (run e cfg w) (connections_request token)
           (''Failed to fetch tenant ID: '' @
            status_and_text (stage_answer e w 1 (connections_request token)))"
proof -
  let ?w0 = "print ''Starting Xero invoice attachment downloader...'' (basicConfig w)"
  let ?w1 = "logger_info e ''Starting Xero invoice attachment downloader...''
               (print ''Fetching access token from Xero...'' ?w0)"
  let ?w2 = "say e ''Obtained token successfully'' (sent (token_request cfg) ?w1)"
  have r1: "requests ?w1 = requests w + 0" and r2: "requests ?w2 = requests w + 1" by simp_all
  have tok: "get_token e cfg ?w1 = (Inr token, ?w2)"
    using assms(1) get_token_ok [of e ?w1 cfg token]
    unfolding token_ok_def stage_answer_def r1 by simp
  have "get_tenant_id e token ?w2 =
     (Inl (Exit 1),
      complain e (''Failed to fetch tenant ID: '' @
                  status_and_text (stage_answer e w 1 (connections_request token)))
        (sent (connections_request token) ?w2))"
    using assms(2) get_tenant_id_fail [of e ?w2 token] unfolding stage_answer_def r2 by simp
  with tok show ?thesis
    by (intro exits_afterI run_exit main_try_tenant_exit)
qed

lemma run_contact_fails:
  assumes "token_ok e cfg w token" and "tenant_ok e w token tenant_id"
    and "status_code (stage_answer e w 2 (contact_request cfg token tenant_id)) \<noteq> 200"
  shows "exits_after (run e cfg w) (contact_request cfg token tenant_id)
           (''Failed to fetch contact details: '' @
            status_and_text (stage_answer e w 2 (contact_request cfg token tenant_id)))"
proof -
  let ?w0 = "print ''Starting Xero invoice attachment downloader...'' (basicConfig w)"
  let ?w1 = "logger_info e ''Starting Xero invoice attachment downloader...''
               (print ''Fetching access token from Xero...'' ?w0)"
  let ?w2 = "say e ''Obtained token successfully'' (sent (token_request cfg) ?w1)"
  let ?w3 = "say e (''Using tenant ID: '' @ tenant_id) (sent (connections_request token) ?w2)"
  have r1: "requests ?w1 = requests w + 0" and r2: "requests ?w2 = requests w + 1"
    and r3: "requests ?w3 = requests w + 2" by simp_all
  have tok: "get_token e cfg ?w1 = (Inr token, ?w2)"
    using assms(1) get_token_ok [of e ?w1 cfg token]
    unfolding token_ok_def stage_answer_def r1 by simp
  from assms(2) obtain c cs where
    "status_code (http e (requests w + 1) (connections_request token)) = 200"
    "json_array (http e (requests w + 1) (connections_request token)) = c # cs"
    "map_of c ''tenantId'' = Some tenant_id"
    unfolding tenant_ok_def stage_answer_def by blast
  then have tenant: "get_tenant_id e token ?w2 = (Inr tenant_id, ?w3)"
    using get_tenant_id_ok [of e ?w2 token c cs tenant_id] unfolding r2 by simp
  have "get_contact_id e cfg token tenant_id None ?w3 =
     (Inl (Exit 1),
      complain e (''Failed to fetch contact details: '' @
                  status_and_text (stage_answer e w 2 (contact_request cfg token tenant_id)))
        (sent (contact_request cfg token tenant_id) ?w3))"
    using assms(3) get_contact_id_fail [of e ?w3 cfg token tenant_id]
    unfolding stage_answer_def r3 by simp
  with tok tenant show ?thesis
    by (intro exits_afterI run_exit main_try_contact_exit)
qed

lemma run_page_fails:
  assumes "token_ok e cfg w token" and "tenant_ok e w token tenant_id"
    and "contact_ok e cfg w token tenant_id contact_id"
    and "\<forall>k. 1 \<le> k \<and> k \<le> n \<longrightarrow>
           status_code (stage_answer e w (2 + k)
             (page_request (start_date cfg) token tenant_id contact_id k)) = 200 \<and>
           page_list (stage_answer e w (2 + k)
             (page_request (start_date cfg) token tenant_id contact_id k)) \<noteq> []"
    and "status_code (stage_answer e w (2 + Suc n)
             (page_request (start_date cfg) token tenant_id contact_id (Suc n))) \<noteq> 200"
  shows "exits_after (run e cfg w)
           (page_request (start_date cfg) token tenant_id contact_id (Suc n))
           (''Failed to fetch invoices: '' @
            status_and_text (stage_answer e w (2 + Suc n)
              (page_request (start_date cfg) token tenant_id contact_id (Suc n))))"
proof -
  let ?d = "start_date cfg"
  let ?w0 = "print ''Starting Xero invoice attachment downloader...'' (basicConfig w)"
  let ?w1 = "logger_info e ''Starting Xero invoice attachment downloader...''
               (print ''Fetching access token from Xero...'' ?w0)"
  let ?w2 = "say e ''Obtained token successfully'' (sent (token_request cfg) ?w1)"
  let ?w3 = "say e (''Using tenant ID: '' @ tenant_id) (sent (connections_request token) ?w2)"
  let ?w4 = "say e (''Found '' @ [squote] @ SUPPLIER_NAME cfg @ [squote] @
                    '' with ContactID: '' @ contact_id)
               (sent (contact_request cfg token tenant_id) ?w3)"
  have r1: "requests ?w1 = requests w + 0" and r2: "requests ?w2 = requests w + 1"
    and r3: "requests ?w3 = requests w + 2" and r4: "requests ?w4 = requests w + 3"
    by simp_all
  have tok: "get_token e cfg ?w1 = (Inr token, ?w2)"
    using assms(1) get_token_ok [of e ?w1 cfg token]
    unfolding token_ok_def stage_answer_def r1 by simp
  from assms(2) obtain c cs where
    "status_code (http e (requests w + 1) (connections_request token)) = 200"
    "json_array (http e (requests w + 1) (connections_request token)) = c # cs"
    "map_of c ''tenantId'' = Some tenant_id"
    unfolding tenant_ok_def stage_answer_def by blast
  then have tenant: "get_tenant_id e token ?w2 = (Inr tenant_id, ?w3)"
    using get_tenant_id_ok [of e ?w2 token c cs tenant_id] unfolding r2 by simp
  from assms(3) obtain k ks where
    "status_code (http e (requests w + 2) (contact_request cfg token tenant_id)) = 200"
    "map_of (json_lists (http e (requests w + 2) (contact_request cfg token tenant_id)))
       ''Contacts'' = Some (k # ks)"
    "map_of k ''ContactID'' = Some contact_id"
    unfolding contact_ok_def stage_answer_def by blast
  then have contact: "get_contact_id e cfg token tenant_id None ?w3 = (Inr contact_id, ?w4)"
    using get_contact_id_ok [of e ?w3 cfg token tenant_id k ks contact_id] unfolding r3 by simp
  have idx: "http e (requests ?w4 + i) (page_request ?d token tenant_id contact_id (1 + i)) =
      stage_answer e w (2 + Suc i) (page_request ?d token tenant_id contact_id (Suc i))" for i
    unfolding r4 by (simp add: stage_answer_def eval_nat_numeral)
  have "\<exists>w' t. invoices_loop e ?d token tenant_id contact_id (1, [], ?w4) =
           Some (Inl (Exit 1), w')
         \<and> trace w' = t @
             [Http (page_request ?d token tenant_id contact_id (1 + n)),
              Print (''Failed to fetch invoices: '' @
                     status_and_text (http e (requests ?w4 + n)
                       (page_request ?d token tenant_id contact_id (1 + n)))),
              Log ''ERROR'' (''Failed to fetch invoices: '' @
                     status_and_text (http e (requests ?w4 + n)
                       (page_request ?d token tenant_id contact_id (1 + n))))]"
  proof (rule invoices_loop_fails)
    show "\<forall>i<n. status_code (http e (requests ?w4 + i)
                      (page_request ?d token tenant_id contact_id (1 + i))) = 200 \<and>
                 page_list (http e (requests ?w4 + i)
                      (page_request ?d token tenant_id contact_id (1 + i))) \<noteq> []"
      unfolding idx using assms(4) by auto
    show "status_code (http e (requests ?w4 + n)
                      (page_request ?d token tenant_id contact_id (1 + n))) \<noteq> 200"
      unfolding idx using assms(5) by simp
  qed
  then obtain w' t where
    loop: "invoices_loop e ?d token tenant_id contact_id (1, [], ?w4) = Some (Inl (Exit 1), w')"
    and tr: "trace w' = t @
             [Http (page_request ?d token tenant_id contact_id (Suc n)),
              Print (''Failed to fetch invoices: '' @
                     status_and_text (stage_answer e w (2 + Suc n)
                       (page_request ?d token tenant_id contact_id (Suc n)))),
              Log ''ERROR'' (''Failed to fetch invoices: '' @
                     status_and_text (stage_answer e w (2 + Suc n)
                       (page_request ?d token tenant_id contact_id (Suc n))))]"
    unfolding idx by auto
  from loop have "get_invoices_for_contact e cfg token tenant_id contact_id ?w4 =
      Some (Inl (Exit 1), w')"
    by (simp add: get_invoices_for_contact_def)
  with tok tenant contact have "run e cfg w = Some (Inl (Exit 1), w')"
    by (intro run_exit main_try_invoices_exit)
  with tr show ?thesis
    unfolding exits_after_def by blast
qed

lemma process_invoice_metadata_fails:
  assumes "map_of invoice ''InvoiceID'' = Some inv_id" and "inv_id \<notin> processed"
    and "status_code (http e (requests v) (attachments_request token tenant_id inv_id)) \<noteq> 200"
  shows "\<exists>v' p. process_invoice e token tenant_id processed downloaded n invoice v = (Inr n, v')
           \<and> trace v' = trace v @
               [Print p, Log ''INFO'' p, Http (attachments_request token tenant_id inv_id),
                Print (''Failed to fetch attachments for '' @
                       (case map_of invoice ''InvoiceNumber'' of Some x \<Rightarrow> x | None \<Rightarrow> inv_id) @
                       '': '' @ status_and_text (http e (requests v)
                                  (attachments_request token tenant_id inv_id))),
                Log ''ERROR'' (''Failed to fetch attachments for '' @
                       (case map_of invoice ''InvoiceNumber'' of Some x \<Rightarrow> x | None \<Rightarrow> inv_id) @
                       '': '' @ status_and_text (http e (requests v)
                                  (attachments_request token tenant_id inv_id)))]
           \<and> process_invoices e token tenant_id processed downloaded n (invoice # rest) v =
               process_invoices e token tenant_id processed downloaded n rest v'"
  using assms
  by (simp add: process_invoice_def get_xero_api_def send_def attachments_request_def Let_def)

lemma download_fails:
  assumes "unique_name inv_num file_name \<notin> downloaded"
    and "status_code (http e (requests v)
           (download_request token tenant_id invoice_id file_name)) \<noteq> 200"
  shows "trace (download_invoice_attachment e token tenant_id invoice_id file_name inv_num
                  downloaded v) =
         trace v @
         [Http (download_request token tenant_id invoice_id file_name),
          Print (''Failed to download '' @ file_name @ '': '' @
                 status_and_text (http e (requests v)
                   (download_request token tenant_id invoice_id file_name))),
          Log ''ERROR'' (''Failed to download '' @ file_name @ '': '' @
                 status_and_text (http e (requests v)
                   (download_request token tenant_id invoice_id file_name))),
          Sleep 1]"
  using assms
  by (simp add: download_invoice_attachment_def send_def download_request_def Let_def)

lemma status_and_text_500: "status_and_text (reply 500 ob ls ar) = ''500 - body''"
  by (simp add: status_and_text_def reply_def str_nat.simps digit_def)

lemma reply_status: "status_code (reply st ob ls ar) = st"
  by (simp add: reply_def)

lemma fails_at_answer:
  "stage_answer (fails_at k) demo_world i req =
     (if i = k then reply 500 [] [] [] else http demo_service i req)"
  "http (fails_at k) i req = (if i = k then reply 500 [] [] [] else http demo_service i req)"
  by (simp_all add: stage_answer_def fails_at_def demo_world_def)

text \<open>
  Claim C3, as the script has it. A status other than 200 from the token exchange, the
  connections lookup, the contact lookup or an invoice page ends the run with exit
  status 1, the failed request being followed by nothing but the printed and the logged
  error. A status other than 200 for the attachment list of an invoice does not end the
  run: the error is printed and logged, the counter of processed invoices stays as it
  is, and the loop goes on with the next invoice. A status other than 200 for the
  download of an attachment does not end the run either: the error is printed and
  logged, the script sleeps one second, and the function returns. In all six cases the
  request is sent once.
\<close>

theorem api_failures_exit_or_continue:
  "(status_code (stage_answer e w 0 (token_request cfg)) \<noteq> 200 \<longrightarrow>
      exits_after (run e cfg w) (token_request cfg)
        (''Failed to fetch token: '' @
         status_and_text (stage_answer e w 0 (token_request cfg))))
   \<and> (\<forall>token.
        token_ok e cfg w token \<and>
        status_code (stage_answer e w 1 (connections_request token)) \<noteq> 200 \<longrightarrow>
        exits_after (run e cfg w) (connections_request token)
          (''Failed to fetch tenant ID: '' @
           status_and_text (stage_answer e w 1 (connections_request token))))
   \<and> (\<forall>token tenant_id.
        token_ok e cfg w token \<and> tenant_ok e w token tenant_id \<and>
        status_code (stage_answer e w 2 (contact_request cfg token tenant_id)) \<noteq> 200 \<longrightarrow>
        exits_after (run e cfg w) (contact_request cfg token tenant_id)
          (''Failed to fetch contact details: '' @
           status_and_text (stage_answer e w 2 (contact_request cfg token tenant_id))))
   \<and> (\<forall>token tenant_id contact_id n.
        token_ok e cfg w token \<and> tenant_ok e w token tenant_id \<and>
        contact_ok e cfg w token tenant_id contact_id \<and>
        (\<forall>k. 1 \<le> k \<and> k \<le> n \<longrightarrow>
           status_code (stage_answer e w (2 + k)
             (page_request (start_date cfg) token tenant_id contact_id k)) = 200 \<and>
           page_list (stage_answer e w (2 + k)
             (page_request (start_date cfg) token tenant_id contact_id k)) \<noteq> []) \<and>
        status_code (stage_answer e w (2 + Suc n)
             (page_request (start_date cfg) token tenant_id contact_id (Suc n))) \<noteq> 200 \<longrightarrow>
        exits_after (run e cfg w)
          (page_request (start_date cfg) token tenant_id contact_id (Suc n))
          (''Failed to fetch invoices: '' @
           status_and_text (stage_answer e w (2 + Suc n)
             (page_request (start_date cfg) token tenant_id contact_id (Suc n)))))
   \<and> (\<forall>token tenant_id processed downloaded n invoice rest inv_id v.
        map_of invoice ''InvoiceID'' = Some inv_id \<and> inv_id \<notin> processed \<and>
        status_code (http e (requests v) (attachments_request token tenant_id inv_id)) \<noteq> 200 \<longrightarrow>
        (\<exists>v' p. process_invoice e token tenant_id processed downloaded n invoice v = (Inr n, v')
           \<and> trace v' = trace v @
               [Print p, Log ''INFO'' p, Http (attachments_request token tenant_id inv_id),
                Print (''Failed to fetch attachments for '' @
                       (case map_of invoice ''InvoiceNumber'' of Some x \<Rightarrow> x | None \<Rightarrow> inv_id) @
                       '': '' @ status_and_text (http e (requests v)
                                  (attachments_request token tenant_id inv_id))),
                Log ''ERROR'' (''Failed to fetch attachments for '' @
                       (case map_of invoice ''InvoiceNumber'' of Some x \<Rightarrow> x | None \<Rightarrow> inv_id) @
                       '': '' @ status_and_text (http e (requests v)
                                  (attachments_request token tenant_id inv_id)))]
           \<and> process_invoices e token tenant_id processed downloaded n (invoice # rest) v =
               process_invoices e token tenant_id processed downloaded n rest v'))
   \<and> (\<forall>token tenant_id invoice_id file_name inv_num downloaded v.
        unique_name inv_num file_name \<notin> downloaded \<and>
        status_code (http e (requests v)
           (download_request token tenant_id invoice_id file_name)) \<noteq> 200 \<longrightarrow>
        trace (download_invoice_attachment e token tenant_id invoice_id file_name inv_num
                 downloaded v) =
        trace v @
        [Http (download_request token tenant_id invoice_id file_name),
         Print (''Failed to download '' @ file_name @ '': '' @
                status_and_text (http e (requests v)
                  (download_request token tenant_id invoice_id file_name))),
         Log ''ERROR'' (''Failed to download '' @ file_name @ '': '' @
                status_and_text (http e (requests v)
                  (download_request token tenant_id invoice_id file_name))),
         Sleep 1])"
  by (intro conjI allI impI run_token_fails)
     (blast intro: run_tenant_fails run_contact_fails run_page_fails
        process_invoice_metadata_fails download_fails)+

theorem api_failures_exit_or_continue_witness:
  "exits_after (run (fails_at 0) demo_cfg demo_world) (token_request demo_cfg)
     ''Failed to fetch token: 500 - body''
   \<and> exits_after (run (fails_at 1) demo_cfg demo_world) (connections_request ''T'')
     ''Failed to fetch tenant ID: 500 - body''
   \<and> exits_after (run (fails_at 2) demo_cfg demo_world) (contact_request demo_cfg ''T'' ''X'')
     ''Failed to fetch contact details: 500 - body''
   \<and> exits_after (run (fails_at 4) demo_cfg demo_world)
       (page_request (start_date demo_cfg) ''T'' ''X'' ''c1'' 2)
     ''Failed to fetch invoices: 500 - body''
   \<and> (\<exists>v'. process_invoice (fails_at 5) ''T'' ''X'' {} {} 0 demo_invoice
              (demo_world\<lparr>requests := 5\<rparr>) = (Inr 0, v')
          \<and> trace v' =
              [Print ''Processing invoice: INV-1 (ID: abc, Date: N/A)'',
               Log ''INFO'' ''Processing invoice: INV-1 (ID: abc, Date: N/A)'',
               Http (attachments_request ''T'' ''X'' ''abc''),
               Print ''Failed to fetch attachments for INV-1: 500 - body'',
               Log ''ERROR'' ''Failed to fetch attachments for INV-1: 500 - body''])
   \<and> trace (download_invoice_attachment (fails_at 6) ''T'' ''X'' ''abc'' ''a/b.pdf'' ''INV-1'' {}
              (demo_world\<lparr>requests := 6\<rparr>)) =
       [Http (download_request ''T'' ''X'' ''abc'' ''a/b.pdf''),
        Print ''Failed to download a/b.pdf: 500 - body'',
        Log ''ERROR'' ''Failed to download a/b.pdf: 500 - body'',
        Sleep 1]"
proof -
  note ev = fails_at_answer demo_service_def reply_def page_list_def
  have tok: "token_ok (fails_at k) demo_cfg demo_world ''T''" if "0 < k" for k
    using that by (simp add: token_ok_def ev)
  have ten: "tenant_ok (fails_at k) demo_world ''T'' ''X''" if "1 < k" for k
    using that by (simp add: tenant_ok_def ev)
  have con: "contact_ok (fails_at k) demo_cfg demo_world ''T'' ''X'' ''c1''" if "2 < k" for k
    using that by (simp add: contact_ok_def ev)
  have c1: "exits_after (run (fails_at 0) demo_cfg demo_world) (token_request demo_cfg)
     ''Failed to fetch token: 500 - body''"
    using api_failures_exit_or_continue [where e = "fails_at 0" and w = demo_world
        and cfg = demo_cfg, THEN conjunct1]
    by (simp add: fails_at_answer status_and_text_500 reply_status)
  have c2: "exits_after (run (fails_at 1) demo_cfg demo_world) (connections_request ''T'')
     ''Failed to fetch tenant ID: 500 - body''"
    using api_failures_exit_or_continue [where e = "fails_at 1" and w = demo_world
        and cfg = demo_cfg, THEN conjunct2, THEN conjunct1, THEN spec, of "''T''"]
      tok [of 1]
    by (simp add: fails_at_answer status_and_text_500 reply_status)
  have c3: "exits_after (run (fails_at 2) demo_cfg demo_world)
     (contact_request demo_cfg ''T'' ''X'')
     ''Failed to fetch contact details: 500 - body''"
    using api_failures_exit_or_continue [where e = "fails_at 2" and w = demo_world
        and cfg = demo_cfg, THEN conjunct2, THEN conjunct2, THEN conjunct1,
        THEN spec, THEN spec, of "''T''" "''X''"]
      tok [of 2] ten [of 2]
    by (simp add: fails_at_answer status_and_text_500 reply_status)
  have pages: "\<forall>k. 1 \<le> k \<and> k \<le> 1 \<longrightarrow>
      status_code (stage_answer (fails_at 4) demo_world (2 + k)
        (page_request (start_date demo_cfg) ''T'' ''X'' ''c1'' k)) = 200 \<and>
      page_list (stage_answer (fails_at 4) demo_world (2 + k)
        (page_request (start_date demo_cfg) ''T'' ''X'' ''c1'' k)) \<noteq> []"
  proof (intro allI impI)
    fix k :: nat assume "1 \<le> k \<and> k \<le> 1"
    then have "k = 1" by arith
    then show "status_code (stage_answer (fails_at 4) demo_world (2 + k)
        (page_request (start_date demo_cfg) ''T'' ''X'' ''c1'' k)) = 200 \<and>
      page_list (stage_answer (fails_at 4) demo_world (2 + k)
        (page_request (start_date demo_cfg) ''T'' ''X'' ''c1'' k)) \<noteq> []"
      by (simp add: ev)
  qed
  have stop: "status_code (stage_answer (fails_at 4) demo_world (2 + Suc 1)
        (page_request (start_date demo_cfg) ''T'' ''X'' ''c1'' (Suc 1))) \<noteq> 200"
    by (simp add: fails_at_answer reply_status)
  have c4: "exits_after (run (fails_at 4) demo_cfg demo_world)
       (page_request (start_date demo_cfg) ''T'' ''X'' ''c1'' 2)
     ''Failed to fetch invoices: 500 - body''"
    using api_failures_exit_or_continue [where e = "fails_at 4" and w = demo_world
        and cfg = demo_cfg, THEN conjunct2, THEN conjunct2, THEN conjunct2, THEN conjunct1,
        THEN spec, THEN spec, THEN spec, THEN spec, of "''T''" "''X''" "''c1''" 1]
      tok [of 4] ten [of 4] con [of 4] pages stop
    by (simp add: fails_at_answer status_and_text_500 reply_status numeral_2_eq_2)
  have c5: "\<exists>v'. process_invoice (fails_at 5) ''T'' ''X'' {} {} 0 demo_invoice
              (demo_world\<lparr>requests := 5\<rparr>) = (Inr 0, v')
          \<and> trace v' =
              [Print ''Processing invoice: INV-1 (ID: abc, Date: N/A)'',
               Log ''INFO'' ''Processing invoice: INV-1 (ID: abc, Date: N/A)'',
               Http (attachments_request ''T'' ''X'' ''abc''),
               Print ''Failed to fetch attachments for INV-1: 500 - body'',
               Log ''ERROR'' ''Failed to fetch attachments for INV-1: 500 - body'']"
    using api_failures_exit_or_continue [where e = "fails_at 5" and w = demo_world
        and cfg = demo_cfg, THEN conjunct2, THEN conjunct2, THEN conjunct2, THEN conjunct2,
        THEN conjunct1, THEN spec [where x = "''T''"], THEN spec [where x = "''X''"],
        THEN spec [where x = "{}"], THEN spec [where x = "{}"], THEN spec [where x = 0],
        THEN spec [where x = demo_invoice], THEN spec [where x = "[]"],
        THEN spec [where x = "''abc''"],
        THEN spec [where x = "demo_world\<lparr>requests := 5\<rparr>"]]
    by (auto simp add: fails_at_answer status_and_text_500 reply_status demo_invoice_def
        demo_world_def process_invoice_def get_xero_api_def send_def Let_def)
  have c6: "trace (download_invoice_attachment (fails_at 6) ''T'' ''X'' ''abc'' ''a/b.pdf'' ''INV-1'' {}
              (demo_world\<lparr>requests := 6\<rparr>)) =
       [Http (download_request ''T'' ''X'' ''abc'' ''a/b.pdf''),
        Print ''Failed to download a/b.pdf: 500 - body'',
        Log ''ERROR'' ''Failed to download a/b.pdf: 500 - body'',
        Sleep 1]"
    using api_failures_exit_or_continue [where e = "fails_at 6" and w = demo_world
        and cfg = demo_cfg, THEN conjunct2, THEN conjunct2, THEN conjunct2, THEN conjunct2,
        THEN conjunct2, THEN spec [where x = "''T''"], THEN spec [where x = "''X''"],
        THEN spec [where x = "''abc''"], THEN spec [where x = "''a/b.pdf''"],
        THEN spec [where x = "''INV-1''"], THEN spec [where x = "{}"],
        THEN spec [where x = "demo_world\<lparr>requests := 6\<rparr>"]]
    by (simp add: fails_at_answer status_and_text_500 reply_status demo_world_def)
  show ?thesis using c1 c2 c3 c4 c5 c6 by blast
qed

section \<open>From the start of a run to the download loop\<close>

lemma untouched_refl [simp]: "untouched w w"
  by (simp add: untouched_def)

lemma untouched_trans: "untouched a b \<Longrightarrow> untouched b c \<Longrightarrow> untouched a c"
  by (simp add: untouched_def)

lemma untouched_effects [simp]:
  "untouched w (print m w)" "untouched w (sleep n w)" "untouched w (sent r w)"
  "untouched w (say e m w)" "untouched w (complain e m w)" "untouched w (logger_info e m w)"
  by (simp_all add: untouched_def)

lemma untouched_after [simp]:
  "untouched w v \<Longrightarrow> untouched w (print m v)"
  "untouched w v \<Longrightarrow> untouched w (sleep n v)"
  "untouched w v \<Longrightarrow> untouched w (sent r v)"
  "untouched w v \<Longrightarrow> untouched w (say e m v)"
  "untouched w v \<Longrightarrow> untouched w (complain e m v)"
  "untouched w v \<Longrightarrow> untouched w (logger_info e m v)"
  by (simp_all add: untouched_def)

lemma invoices_body_untouched:
  "invoices_body e d token tenant_id contact_id (page, invoices, v) = Inl (r, v') \<Longrightarrow>
     untouched w v \<Longrightarrow> untouched w v'"
  "invoices_body e d token tenant_id contact_id (page, invoices, v) = Inr (page', invoices', v') \<Longrightarrow>
     untouched w v \<Longrightarrow> untouched w v'"
  by (auto simp: invoices_body_def get_xero_api_def send_def Let_def split: if_splits)

lemma invoices_loop_untouched:
  assumes "invoices_loop e d token tenant_id contact_id (page, invoices, w) = Some (r, w')"
  shows "untouched w w'"
  by (rule invoices_loop_invariant
      [where I = "\<lambda>v. untouched w v" and Q = "\<lambda>r v. untouched w v", OF assms])
     (auto dest: invoices_body_untouched)

lemma invoices_body_requests:
  "invoices_body e d token tenant_id contact_id (page, invoices, v) = Inl (r, v') \<Longrightarrow>
     requests v' = Suc (requests v)"
  "invoices_body e d token tenant_id contact_id (page, invoices, v) = Inr (page', invoices', v') \<Longrightarrow>
     requests v' = Suc (requests v) \<and> page' = Suc page"
  by (auto simp: invoices_body_def get_xero_api_def send_def Let_def split: if_splits)

lemma invoices_loop_counts:
  assumes "invoices_loop e d token tenant_id contact_id (page, invoices, w) = Some (r, w')"
  shows "requests w' + length (http_requests (trace w)) =
         requests w + length (http_requests (trace w'))"
proof (rule invoices_loop_invariant
    [where I = "\<lambda>v. requests v + length (http_requests (trace w)) =
                     requests w + length (http_requests (trace v))"
       and Q = "\<lambda>r v. requests v + length (http_requests (trace w)) =
                     requests w + length (http_requests (trace v))", OF assms])
  show "requests w + length (http_requests (trace w)) =
        requests w + length (http_requests (trace w))" by simp
next
  fix page invoices v page' invoices' v1
  assume "requests v + length (http_requests (trace w)) =
          requests w + length (http_requests (trace v))"
    and b: "invoices_body e d token tenant_id contact_id (page, invoices, v) =
          Inr (page', invoices', v1)"
  then show "requests v1 + length (http_requests (trace w)) =
             requests w + length (http_requests (trace v1))"
    using invoices_body_request [of e d token tenant_id contact_id page invoices v]
      invoices_body_requests(2) [OF b]
    by (simp add: after_pass_def)
next
  fix page invoices v r v1
  assume "requests v + length (http_requests (trace w)) =
          requests w + length (http_requests (trace v))"
    and b: "invoices_body e d token tenant_id contact_id (page, invoices, v) = Inl (r, v1)"
  then show "requests v1 + length (http_requests (trace w)) =
             requests w + length (http_requests (trace v1))"
    using invoices_body_request [of e d token tenant_id contact_id page invoices v]
      invoices_body_requests(1) [OF b]
    by (simp add: after_pass_def)
qed

lemma main_try_download_all:
  "get_token e cfg (logger_info e ''Starting Xero invoice attachment downloader...''
                      (print ''Fetching access token from Xero...'' w)) = (Inr token, w2) \<Longrightarrow>
   get_tenant_id e token w2 = (Inr tenant_id, w3) \<Longrightarrow>
   get_contact_id e cfg token tenant_id None w3 = (Inr contact_id, w4) \<Longrightarrow>
   get_invoices_for_contact e cfg token tenant_id contact_id w4 = Some (Inr invoices, w5) \<Longrightarrow>
   main_try e cfg w = Some (download_all e cfg token tenant_id invoices w5)"
  by (simp add: main_try_def)

lemma setup_reaches_download_all:
  assumes tok: "token_ok e cfg w token" and ten: "tenant_ok e w token tenant_id"
    and con: "contact_ok e cfg w token tenant_id contact_id"
    and pages: "\<forall>k. 1 \<le> k \<and> k \<le> n \<longrightarrow>
           status_code (stage_answer e w (2 + k)
             (page_request (start_date cfg) token tenant_id contact_id k)) = 200 \<and>
           page_list (stage_answer e w (2 + k)
             (page_request (start_date cfg) token tenant_id contact_id k)) \<noteq> []"
    and stop: "status_code (stage_answer e w (2 + Suc n)
             (page_request (start_date cfg) token tenant_id contact_id (Suc n))) = 200"
      "page_list (stage_answer e w (2 + Suc n)
             (page_request (start_date cfg) token tenant_id contact_id (Suc n))) = []"
  shows "\<exists>w5. main_try e cfg w =
           Some (download_all e cfg token tenant_id
                   (concat (map (\<lambda>k. page_list (stage_answer e w (2 + k)
                              (page_request (start_date cfg) token tenant_id contact_id k)))
                            [1..<Suc n])) w5)
         \<and> untouched w w5 \<and> requests w5 = requests w + 4 + n
         \<and> http_requests (trace w5) =
             http_requests (trace w) @
             [token_request cfg, connections_request token,
              contact_request cfg token tenant_id] @
             map (page_request (start_date cfg) token tenant_id contact_id) [1..<Suc (Suc n)]"
proof -
  let ?d = "start_date cfg"
  let ?P = "\<lambda>k. stage_answer e w (2 + k) (page_request ?d token tenant_id contact_id k)"
  let ?w1 = "logger_info e ''Starting Xero invoice attachment downloader...''
               (print ''Fetching access token from Xero...'' w)"
  let ?w2 = "say e ''Obtained token successfully'' (sent (token_request cfg) ?w1)"
  let ?w3 = "say e (''Using tenant ID: '' @ tenant_id) (sent (connections_request token) ?w2)"
  let ?w4 = "say e (''Found '' @ [squote] @ SUPPLIER_NAME cfg @ [squote] @
                    '' with ContactID: '' @ contact_id)
               (sent (contact_request cfg token tenant_id) ?w3)"
  have r1: "requests ?w1 = requests w + 0" and r2: "requests ?w2 = requests w + 1"
    and r3: "requests ?w3 = requests w + 2" and r4: "requests ?w4 = requests w + 3"
    by simp_all
  have u4: "untouched w ?w4" by simp
  have t4: "http_requests (trace ?w4) =
      http_requests (trace w) @
      [token_request cfg, connections_request token, contact_request cfg token tenant_id]"
    by simp
  have g1: "get_token e cfg ?w1 = (Inr token, ?w2)"
    using tok get_token_ok [of e ?w1 cfg token]
    unfolding token_ok_def stage_answer_def r1 by simp
  from ten obtain c cs where
    "status_code (http e (requests w + 1) (connections_request token)) = 200"
    "json_array (http e (requests w + 1) (connections_request token)) = c # cs"
    "map_of c ''tenantId'' = Some tenant_id"
    unfolding tenant_ok_def stage_answer_def by blast
  then have g2: "get_tenant_id e token ?w2 = (Inr tenant_id, ?w3)"
    using get_tenant_id_ok [of e ?w2 token c cs tenant_id] unfolding r2 by simp
  from con obtain k ks where
    "status_code (http e (requests w + 2) (contact_request cfg token tenant_id)) = 200"
    "map_of (json_lists (http e (requests w + 2) (contact_request cfg token tenant_id)))
       ''Contacts'' = Some (k # ks)"
    "map_of k ''ContactID'' = Some contact_id"
    unfolding contact_ok_def stage_answer_def by blast
  then have g3: "get_contact_id e cfg token tenant_id None ?w3 = (Inr contact_id, ?w4)"
    using get_contact_id_ok [of e ?w3 cfg token tenant_id k ks contact_id] unfolding r3 by simp
  have idx: "http e (requests ?w4 + i) (page_request ?d token tenant_id contact_id (1 + i)) =
      ?P (Suc i)" for i
    unfolding r4 by (simp add: stage_answer_def eval_nat_numeral)
  have "\<exists>w'. invoices_loop e ?d token tenant_id contact_id (1, [], ?w4) =
           Some (Inr ([] @
                      concat (map (\<lambda>i. page_list (http e (requests ?w4 + i)
                                 (page_request ?d token tenant_id contact_id (1 + i))))
                                [0..<n])), w')
         \<and> http_requests (trace w') =
             http_requests (trace ?w4) @
             map (\<lambda>i. page_request ?d token tenant_id contact_id (1 + i)) [0..<Suc n]"
  proof (rule invoices_loop_pages)
    show "\<forall>i<n. status_code (http e (requests ?w4 + i)
                      (page_request ?d token tenant_id contact_id (1 + i))) = 200 \<and>
                 page_list (http e (requests ?w4 + i)
                      (page_request ?d token tenant_id contact_id (1 + i))) \<noteq> []"
      unfolding idx using pages by auto
    show "status_code (http e (requests ?w4 + n)
                      (page_request ?d token tenant_id contact_id (1 + n))) = 200"
      unfolding idx using stop by simp
    show "page_list (http e (requests ?w4 + n)
                      (page_request ?d token tenant_id contact_id (1 + n))) = []"
      unfolding idx using stop by simp
  qed
  then obtain w' where
    loop: "invoices_loop e ?d token tenant_id contact_id (1, [], ?w4) =
           Some (Inr (concat (map (\<lambda>i. page_list (?P (Suc i))) [0..<n])), w')"
    and tr: "http_requests (trace w') =
             http_requests (trace ?w4) @
             map (\<lambda>i. page_request ?d token tenant_id contact_id (Suc i)) [0..<Suc n]"
    unfolding idx by auto
  have c: "map (\<lambda>k. page_list (?P k)) [1..<Suc n] = map (\<lambda>i. page_list (?P (Suc i))) [0..<n]"
    by (simp only: One_nat_def map_Suc_upt [symmetric]) (simp add: comp_def)
  have m: "map (page_request ?d token tenant_id contact_id) [1..<Suc (Suc n)] =
      map (\<lambda>i. page_request ?d token tenant_id contact_id (Suc i)) [0..<Suc n]"
    by (simp only: One_nat_def map_Suc_upt [symmetric]) (simp add: comp_def)
  let ?invoices = "concat (map (\<lambda>k. page_list (?P k)) [1..<Suc n])"
  let ?w5 = "say e (''Found '' @ str_nat (length ?invoices) @ '' invoices for '' @
                    [squote] @ SUPPLIER_NAME cfg @ [squote] @ '' from '' @
                    strftime_ymd (start_date cfg) @ '' to '' @ strftime_ymd today) w'"
  have g4: "get_invoices_for_contact e cfg token tenant_id contact_id ?w4 =
      Some (Inr ?invoices, ?w5)"
    using loop by (simp only: c) (simp add: get_invoices_for_contact_def)
  have "untouched ?w4 w'" using loop by (rule invoices_loop_untouched)
  with u4 have "untouched w w'" by (rule untouched_trans)
  then have u5: "untouched w ?w5" by (rule untouched_after(4))
  have "requests w' + length (http_requests (trace ?w4)) =
        requests ?w4 + length (http_requests (trace w'))"
    using loop by (rule invoices_loop_counts)
  then have r5: "requests ?w5 = requests w + 4 + n"
    unfolding tr by simp
  have t5: "http_requests (trace ?w5) =
             http_requests (trace w) @
             [token_request cfg, connections_request token,
              contact_request cfg token tenant_id] @
             map (page_request ?d token tenant_id contact_id) [1..<Suc (Suc n)]"
    using tr unfolding m t4 by simp
  from g1 g2 g3 g4 have "main_try e cfg w = Some (download_all e cfg token tenant_id ?invoices ?w5)"
    by (rule main_try_download_all)
  with u5 r5 t5 show ?thesis by blast
qed

lemma run_returns:
  "main_try e cfg (print ''Starting Xero invoice attachment downloader...'' (basicConfig w)) =
     Some (Inr (), w') \<Longrightarrow>
   run e cfg w = Some (Inr (), say e ''Download process completed.'' w')"
  by (simp add: run_def main_def)

lemma demo_setup:
  assumes agree: "\<And>n req. n < 5 \<Longrightarrow> http e n req = http demo_service n req"
    and zero: "requests w = 0"
  shows "\<exists>w5. main_try e demo_cfg w = Some (download_all e demo_cfg ''T'' ''X'' [demo_invoice] w5)
         \<and> untouched w w5 \<and> requests w5 = 5
         \<and> http_requests (trace w5) =
             http_requests (trace w) @
             [token_request demo_cfg, connections_request ''T'',
              contact_request demo_cfg ''T'' ''X'',
              page_request (start_date demo_cfg) ''T'' ''X'' ''c1'' 1,
              page_request (start_date demo_cfg) ''T'' ''X'' ''c1'' 2]"
proof -
  let ?P = "\<lambda>k. stage_answer e w (2 + k) (page_request (start_date demo_cfg) ''T'' ''X'' ''c1'' k)"
  have base: "stage_answer e w n req = http demo_service n req" if "n < 5" for n req
    using that by (simp add: stage_answer_def zero agree)
  note ev = base demo_service_def reply_def page_list_def
  have tok: "token_ok e demo_cfg w ''T''"
    by (simp add: token_ok_def ev)
  have ten: "tenant_ok e w ''T'' ''X''"
    by (simp add: tenant_ok_def ev)
  have con: "contact_ok e demo_cfg w ''T'' ''X'' ''c1''"
    by (simp add: contact_ok_def ev)
  have pages: "\<forall>k. 1 \<le> k \<and> k \<le> 1 \<longrightarrow> status_code (?P k) = 200 \<and> page_list (?P k) \<noteq> []"
  proof (intro allI impI)
    fix k :: nat assume "1 \<le> k \<and> k \<le> 1"
    then have "k = 1" by arith
    then show "status_code (?P k) = 200 \<and> page_list (?P k) \<noteq> []"
      by (simp add: ev)
  qed
  have stop: "status_code (?P (Suc 1)) = 200" "page_list (?P (Suc 1)) = []"
    by (simp_all add: ev)
  have invs: "concat (map (\<lambda>k. page_list (?P k)) [1..<Suc 1]) = [demo_invoice]"
    by (simp add: ev demo_invoice_def)
  have reqs: "map (page_request (start_date demo_cfg) ''T'' ''X'' ''c1'') [1..<Suc (Suc 1)] =
      [page_request (start_date demo_cfg) ''T'' ''X'' ''c1'' 1,
       page_request (start_date demo_cfg) ''T'' ''X'' ''c1'' 2]"
    by (simp add: upt_rec eval_nat_numeral)
  from setup_reaches_download_all [OF tok ten con pages stop]
  show ?thesis
    unfolding invs reqs by (simp add: zero)
qed

section \<open>The ledger after the change of directory\<close>

text \<open>
  The logging handler opens \<^verbatim>\<open>xero_download.log\<close> in the directory the script is
  started in and keeps that absolute path. \<^verbatim>\<open>main\<close> changes into the supplier folder
  (line 201) before it calls the two loaders (lines 204 and 205), which open the
  relative name \<^verbatim>\<open>xero_download.log\<close>: they look for the ledger inside the supplier
  folder. Unless a file of that name is there, both sets are empty and every invoice of
  the list is processed.
\<close>

lemma in_supplier_folder_fields [simp]:
  "cwd (in_supplier_folder cfg w) = path_join (cwd w) (supplier_folder cfg)"
  "files (in_supplier_folder cfg w) = files w"
  "log_path (in_supplier_folder cfg w) = log_path w"
  "requests (in_supplier_folder cfg w) = requests w"
  "http_requests (trace (in_supplier_folder cfg w)) = http_requests (trace w)"
  "file_writes (trace (in_supplier_folder cfg w)) = file_writes (trace w)"
  by (simp_all add: in_supplier_folder_def)

lemma in_supplier_folder_dirs:
  "p \<in> dirs (in_supplier_folder cfg w) \<Longrightarrow>
     p \<in> dirs w \<or> p = path_join (cwd w) (supplier_folder cfg)"
  by (auto simp: in_supplier_folder_def split: if_splits)

lemma path_join_relative_longer:
  "b \<noteq> [] \<Longrightarrow> hd b \<noteq> CHR ''/'' \<Longrightarrow> length a < length (path_join a b)"
  by (cases b) (auto simp: path_join_def)

lemma ledger_is_not_the_folder: "path_join a ''xero_download.log'' \<noteq> a"
  using path_join_relative_longer [of "''xero_download.log''" a] by auto

lemma loads_without_ledger:
  assumes "files w (path_join (cwd w) ''xero_download.log'') = None"
    and "path_join (cwd w) ''xero_download.log'' \<notin> dirs w"
  shows "load_processed_invoices w = Inr {}" and "load_downloaded_attachments w = Inr {}"
  using assms
  by (simp_all add: load_processed_invoices_def load_downloaded_attachments_def
      path_exists_def abspath_def)

lemma download_all_in_folder:
  "download_all e cfg token tenant_id invoices w5 =
     (case load_processed_invoices (in_supplier_folder cfg w5) of
        Inl a \<Rightarrow> (Inl a, in_supplier_folder cfg w5)
      | Inr processed_invoices \<Rightarrow>
     (case load_downloaded_attachments (in_supplier_folder cfg w5) of
        Inl a \<Rightarrow> (Inl a, in_supplier_folder cfg w5)
      | Inr downloaded_set \<Rightarrow>
     (case process_invoices e token tenant_id processed_invoices downloaded_set 0 invoices
             (in_supplier_folder cfg w5) of
        (Inl a, w8) \<Rightarrow> (Inl a, w8)
      | (Inr n, w8) \<Rightarrow>
          (Inr (), say e (''Processed '' @ str_nat n @ '' new invoices.'') w8))))"
  unfolding download_all_def in_supplier_folder_def supplier_folder_def Let_def ..

lemma download_all_without_ledger:
  assumes "files w5 (path_join (path_join (cwd w5) (supplier_folder cfg))
                      ''xero_download.log'') = None"
    and "path_join (path_join (cwd w5) (supplier_folder cfg)) ''xero_download.log'' \<notin> dirs w5"
  shows "download_all e cfg token tenant_id invoices w5 =
     (case process_invoices e token tenant_id {} {} 0 invoices (in_supplier_folder cfg w5) of
        (Inl a, w8) \<Rightarrow> (Inl a, w8)
      | (Inr n, w8) \<Rightarrow>
          (Inr (), say e (''Processed '' @ str_nat n @ '' new invoices.'') w8))"
proof -
  let ?w7 = "in_supplier_folder cfg w5"
  have "path_join (cwd ?w7) ''xero_download.log'' \<notin> dirs ?w7"
    using assms(2) in_supplier_folder_dirs [of _ cfg w5]
      ledger_is_not_the_folder [of "path_join (cwd w5) (supplier_folder cfg)"]
    by auto
  moreover have "files ?w7 (path_join (cwd ?w7) ''xero_download.log'') = None"
    using assms(1) by simp
  ultimately have "load_processed_invoices ?w7 = Inr {}" "load_downloaded_attachments ?w7 = Inr {}"
    by (simp_all add: loads_without_ledger)
  then show ?thesis
    by (simp add: download_all_in_folder)
qed

lemma process_invoice_with_attachments:
  assumes "map_of invoice ''InvoiceID'' = Some inv_id" and "inv_id \<notin> processed"
    and "status_code (http e (requests v) (attachments_request token tenant_id inv_id)) = 200"
    and "map_of (json_lists (http e (requests v) (attachments_request token tenant_id inv_id)))
           ''Attachments'' = Some (a # as)"
  shows "process_invoice e token tenant_id processed downloaded n invoice v =
     (case download_attachments e token tenant_id inv_id
             (case map_of invoice ''InvoiceNumber'' of Some x \<Rightarrow> x | None \<Rightarrow> inv_id)
             downloaded (a # as)
             (sent (attachments_request token tenant_id inv_id)
                (say e (''Processing invoice: '' @
                        (case map_of invoice ''InvoiceNumber'' of Some x \<Rightarrow> x | None \<Rightarrow> inv_id) @
                        '' (ID: '' @ inv_id @ '', Date: '' @
                        (case map_of invoice ''DateString'' of Some x \<Rightarrow> x | None \<Rightarrow> ''N/A'') @
                        '')'') v)) of
        (Inl x, w3) \<Rightarrow> (Inl x, w3)
      | (Inr _, w3) \<Rightarrow> (Inr (n + 1), w3))"
  using assms
  by (simp add: process_invoice_def get_xero_api_def send_def attachments_request_def Let_def)

lemma download_succeeds:
  assumes "unique_name inv_num file_name \<notin> downloaded"
    and "status_code (http e (requests v)
           (download_request token tenant_id invoice_id file_name)) = 200"
  shows "download_invoice_attachment e token tenant_id invoice_id file_name inv_num downloaded v =
     sleep 1
       (say e (''Downloaded attachment: '' @ unique_name inv_num file_name)
          (write_file (unique_name inv_num file_name)
             (content (http e (requests v)
                (download_request token tenant_id invoice_id file_name)))
             (sent (download_request token tenant_id invoice_id file_name) v)))"
  using assms
  by (simp add: download_invoice_attachment_def send_def download_request_def Let_def)

lemma demo_folder: "path_join ''/app'' (supplier_folder demo_cfg) = ''/app/invoice_attachments/Acme_Ltd''"
  by (simp add: supplier_folder_def demo_cfg_def str_replace_def path_join_def)

lemma demo_ledger:
  "path_join ''/app/invoice_attachments/Acme_Ltd'' ''xero_download.log'' =
     ''/app/invoice_attachments/Acme_Ltd/xero_download.log''"
  by (simp add: path_join_def)

lemma demo_download_ok:
  assumes r: "requests w5 = 5" and c: "cwd w5 = ''/app''"
    and f: "files w5 ''/app/invoice_attachments/Acme_Ltd/xero_download.log'' = None"
    and d: "''/app/invoice_attachments/Acme_Ltd/xero_download.log'' \<notin> dirs w5"
    and a5: "\<And>req. http e 5 req =
               reply 200 [] [(''Attachments'', [[(''FileName'', ''a/b.pdf'')]])] []"
    and a6: "\<And>req. http e 6 req = reply 200 [] [] []"
  shows "\<exists>w'. download_all e demo_cfg ''T'' ''X'' [demo_invoice] w5 = (Inr (), w')
          \<and> http_requests (trace w') =
              http_requests (trace w5) @
              [attachments_request ''T'' ''X'' ''abc'',
               download_request ''T'' ''X'' ''abc'' ''a/b.pdf'']
          \<and> file_writes (trace w') =
              file_writes (trace w5) @
              [(''/app/invoice_attachments/Acme_Ltd/INV-1_a_b.pdf'', ''PDF'')]"
proof -
  define w7 where "w7 = in_supplier_folder demo_cfg w5"
  define v1 where "v1 = sent (attachments_request ''T'' ''X'' ''abc'')
               (say e ''Processing invoice: INV-1 (ID: abc, Date: N/A)'' w7)"
  define v2 where "v2 = say e ''Found attachment: a/b.pdf'' v1"
  define v3 where "v3 = sleep 1
       (say e ''Downloaded attachment: INV-1_a_b.pdf''
          (write_file ''INV-1_a_b.pdf'' ''PDF''
             (sent (download_request ''T'' ''X'' ''abc'' ''a/b.pdf'') v2)))"
  have id: "map_of demo_invoice ''InvoiceID'' = Some ''abc''"
    and num: "map_of demo_invoice ''InvoiceNumber'' = Some ''INV-1''"
    and dat: "map_of demo_invoice ''DateString'' = None"
    by (simp_all add: demo_invoice_def)
  have r7: "requests w7 = 5" and r2: "requests v2 = 6"
    by (simp_all add: r w7_def v1_def v2_def)
  have c7: "cwd w7 = ''/app/invoice_attachments/Acme_Ltd''"
    and c2: "cwd v2 = ''/app/invoice_attachments/Acme_Ltd''"
    by (simp_all add: c demo_folder w7_def v1_def v2_def)
  have uniq: "unique_name ''INV-1'' ''a/b.pdf'' = ''INV-1_a_b.pdf''"
    by (simp add: unique_name_def str_replace_def)
  have ok6: "status_code (http e (requests v2) req) = 200"
    and pdf: "content (http e (requests v2) req) = ''PDF''" for req
    by (simp_all add: r2 a6 reply_def)
  have ok5: "status_code (http e (requests w7) req) = 200"
    and list5: "map_of (json_lists (http e (requests w7) req)) ''Attachments'' =
          Some ([(''FileName'', ''a/b.pdf'')] # [])" for req
    by (simp_all add: r7 a5 reply_def)
  have dl: "download_invoice_attachment e ''T'' ''X'' ''abc'' ''a/b.pdf'' ''INV-1'' {} v2 = v3"
    using download_succeeds [of "''INV-1''" "''a/b.pdf''" "{}" e v2 "''T''" "''X''" "''abc''"]
    by (simp add: ok6 pdf uniq v3_def)
  have atts: "download_attachments e ''T'' ''X'' ''abc'' ''INV-1'' {}
                [[(''FileName'', ''a/b.pdf'')]] v1 = (Inr (), v3)"
    using dl by (simp add: v2_def)
  have one: "process_invoice e ''T'' ''X'' {} {} 0 demo_invoice w7 = (Inr 1, v3)"
    using process_invoice_with_attachments [of demo_invoice "''abc''" "{}" e w7 "''T''" "''X''"
        "[(''FileName'', ''a/b.pdf'')]" "[]" "{}" 0, OF id _ ok5 list5] atts
    by (simp add: num dat v1_def)
  have all: "process_invoices e ''T'' ''X'' {} {} 0 [demo_invoice] w7 = (Inr 1, v3)"
    by (simp add: one)
  have "download_all e demo_cfg ''T'' ''X'' [demo_invoice] w5 =
      (Inr (), say e (''Processed '' @ str_nat 1 @ '' new invoices.'') v3)"
    using download_all_without_ledger [of w5 demo_cfg e "''T''" "''X''" "[demo_invoice]"] f d all
    by (simp add: c demo_folder demo_ledger w7_def)
  moreover have "http_requests (trace (say e (''Processed '' @ str_nat 1 @
                    '' new invoices.'') v3)) =
              http_requests (trace w5) @
              [attachments_request ''T'' ''X'' ''abc'',
               download_request ''T'' ''X'' ''abc'' ''a/b.pdf'']"
    by (simp add: v3_def v2_def v1_def w7_def)
  moreover have "file_writes (trace (say e (''Processed '' @ str_nat 1 @
                    '' new invoices.'') v3)) =
              file_writes (trace w5) @
              [(''/app/invoice_attachments/Acme_Ltd/INV-1_a_b.pdf'', ''PDF'')]"
    using c2 by (simp add: v3_def path_join_def) (simp add: v2_def v1_def w7_def)
  ultimately show ?thesis by blast
qed

lemma log_text_effects [simp]:
  "log_text (print m w) = log_text w" "log_text (sleep n w) = log_text w"
  "log_text (sent r w) = log_text w"
  "log_text (logger_log e l m w) =
     log_text w @ asctime e (length (trace w)) @ '' - '' @ l @ '' - '' @ m @ [newline]"
  by (simp_all add: log_text_def logger_log_files)

lemma log_text_say:
  "log_text (say e m w) =
     log_text w @ asctime e (Suc (length (trace w))) @ '' - INFO - '' @ m @ [newline]"
  "log_text (complain e m w) =
     log_text w @ asctime e (Suc (length (trace w))) @ '' - ERROR - '' @ m @ [newline]"
  by (simp_all add: say_def complain_def logger_info_def logger_error_def)

lemma demo_metadata_fails:
  assumes r: "requests w5 = 5" and c: "cwd w5 = ''/app''"
    and f: "files w5 ''/app/invoice_attachments/Acme_Ltd/xero_download.log'' = None"
    and d: "''/app/invoice_attachments/Acme_Ltd/xero_download.log'' \<notin> dirs w5"
    and a5: "\<And>req. http e 5 req = reply 500 [] [] []"
  shows "\<exists>w'. download_all e demo_cfg ''T'' ''X'' [demo_invoice] w5 = (Inr (), w')
          \<and> http_requests (trace w') =
              http_requests (trace w5) @ [attachments_request ''T'' ''X'' ''abc'']
          \<and> untouched (in_supplier_folder demo_cfg w5) w'
          \<and> (\<exists>pre post. log_text w' =
                pre @ '' - INFO - Processing invoice: INV-1 (ID: abc, Date: N/A)'' @
                [newline] @ post)"
proof -
  define w7 where "w7 = in_supplier_folder demo_cfg w5"
  have id: "map_of demo_invoice ''InvoiceID'' = Some ''abc''"
    and num: "map_of demo_invoice ''InvoiceNumber'' = Some ''INV-1''"
    and dat: "map_of demo_invoice ''DateString'' = None"
    by (simp_all add: demo_invoice_def)
  have r7: "requests w7 = 5" by (simp add: r w7_def)
  have bad: "status_code (http e (requests w7) (attachments_request ''T'' ''X'' ''abc'')) \<noteq> 200"
    by (simp add: r7 a5 reply_def)
  define v1 where "v1 = say e ''Processing invoice: INV-1 (ID: abc, Date: N/A)'' w7"
  define v3 where "v3 =
    complain e (''Failed to fetch attachments for INV-1: '' @
                status_and_text (http e (requests w7) (attachments_request ''T'' ''X'' ''abc'')))
      (sent (attachments_request ''T'' ''X'' ''abc'') v1)"
  have one: "process_invoice e ''T'' ''X'' {} {} 0 demo_invoice w7 = (Inr 0, v3)"
    using bad
    by (simp add: process_invoice_def get_xero_api_def send_def attachments_request_def Let_def
        id num dat v3_def v1_def)
  have all: "process_invoices e ''T'' ''X'' {} {} 0 [demo_invoice] w7 = (Inr 0, v3)"
    by (simp add: one)
  define w9 where "w9 = say e (''Processed '' @ str_nat 0 @ '' new invoices.'') v3"
  have res: "download_all e demo_cfg ''T'' ''X'' [demo_invoice] w5 = (Inr (), w9)"
    using download_all_without_ledger [of w5 demo_cfg e "''T''" "''X''" "[demo_invoice]"] f d all
    by (simp add: c demo_folder demo_ledger w7_def w9_def)
  have tr: "http_requests (trace w9) =
              http_requests (trace w5) @ [attachments_request ''T'' ''X'' ''abc'']"
    by (simp add: w9_def v3_def v1_def w7_def)
  have un: "untouched (in_supplier_folder demo_cfg w5) w9"
    by (simp add: w9_def v3_def v1_def w7_def)
  have "log_text v1 = log_text w7 @ asctime e (Suc (length (trace w7))) @
          '' - INFO - Processing invoice: INV-1 (ID: abc, Date: N/A)'' @ [newline]"
    by (simp add: v1_def log_text_say)
  then have "log_text w9 = (log_text w7 @ asctime e (Suc (length (trace w7)))) @
          '' - INFO - Processing invoice: INV-1 (ID: abc, Date: N/A)'' @ [newline] @
          (asctime e (Suc (length (trace (sent (attachments_request ''T'' ''X'' ''abc'') v1)))) @
           '' - ERROR - '' @ (''Failed to fetch attachments for INV-1: '' @
                status_and_text (http e (requests w7) (attachments_request ''T'' ''X'' ''abc''))) @
           [newline]) @
          (asctime e (Suc (length (trace v3))) @ '' - INFO - '' @
           (''Processed '' @ str_nat 0 @ '' new invoices.'') @ [newline])"
    by (simp add: w9_def v3_def log_text_say)
  then have "\<exists>pre post. log_text w9 =
                pre @ '' - INFO - Processing invoice: INV-1 (ID: abc, Date: N/A)'' @
                [newline] @ post"
    by blast
  with res tr un show ?thesis by blast
qed

lemma demo_run_setup:
  assumes agree: "\<And>n req. n < 5 \<Longrightarrow> http e n req = http demo_service n req"
    and zero: "requests w0 = 0" and c: "cwd w0 = ''/app''"
    and f: "files w0 ''/app/invoice_attachments/Acme_Ltd/xero_download.log'' = None"
    and d: "''/app/invoice_attachments/Acme_Ltd/xero_download.log'' \<notin> dirs w0"
  shows "\<exists>w5. main_try e demo_cfg
                 (print ''Starting Xero invoice attachment downloader...'' (basicConfig w0)) =
               Some (download_all e demo_cfg ''T'' ''X'' [demo_invoice] w5)
         \<and> requests w5 = 5 \<and> cwd w5 = ''/app''
         \<and> file_writes (trace w5) = file_writes (trace w0)
         \<and> log_path w5 = ''/app/xero_download.log''
         \<and> files w5 ''/app/invoice_attachments/Acme_Ltd/xero_download.log'' = None
         \<and> ''/app/invoice_attachments/Acme_Ltd/xero_download.log'' \<notin> dirs w5
         \<and> http_requests (trace w5) =
             http_requests (trace w0) @
             [token_request demo_cfg, connections_request ''T'',
              contact_request demo_cfg ''T'' ''X'',
              page_request (start_date demo_cfg) ''T'' ''X'' ''c1'' 1,
              page_request (start_date demo_cfg) ''T'' ''X'' ''c1'' 2]"
proof -
  define w where "w = print ''Starting Xero invoice attachment downloader...'' (basicConfig w0)"
  have rw: "requests w = 0" by (simp add: w_def zero)
  have lp: "log_path w = ''/app/xero_download.log''"
    by (simp add: w_def c path_join_def)
  have fw: "files w ''/app/invoice_attachments/Acme_Ltd/xero_download.log'' = None"
    using f by (simp add: w_def c path_join_def)
  from demo_setup [OF agree rw] obtain w5 where
    m: "main_try e demo_cfg w = Some (download_all e demo_cfg ''T'' ''X'' [demo_invoice] w5)"
    and u: "untouched w w5" and r5: "requests w5 = 5"
    and t5: "http_requests (trace w5) =
             http_requests (trace w) @
             [token_request demo_cfg, connections_request ''T'',
              contact_request demo_cfg ''T'' ''X'',
              page_request (start_date demo_cfg) ''T'' ''X'' ''c1'' 1,
              page_request (start_date demo_cfg) ''T'' ''X'' ''c1'' 2]"
    by blast
  from u have "cwd w5 = ''/app''" "dirs w5 = dirs w0" "log_path w5 = ''/app/xero_download.log''"
    "files w5 ''/app/invoice_attachments/Acme_Ltd/xero_download.log'' =
       files w ''/app/invoice_attachments/Acme_Ltd/xero_download.log''"
    "file_writes (trace w5) = file_writes (trace w0)"
    by (simp_all add: untouched_def lp) (simp_all add: w_def c)
  with m r5 t5 fw d show ?thesis
    unfolding w_def by (intro exI [of _ w5]) simp
qed

lemma demo_run_fails5:
  assumes zero: "requests w0 = 0" and c: "cwd w0 = ''/app''"
    and f: "files w0 ''/app/invoice_attachments/Acme_Ltd/xero_download.log'' = None"
    and d: "''/app/invoice_attachments/Acme_Ltd/xero_download.log'' \<notin> dirs w0"
  shows "\<exists>w1. run (fails_at 5) demo_cfg w0 = Some (Inr (), w1)
         \<and> http_requests (trace w1) =
             http_requests (trace w0) @
             [token_request demo_cfg, connections_request ''T'',
              contact_request demo_cfg ''T'' ''X'',
              page_request (start_date demo_cfg) ''T'' ''X'' ''c1'' 1,
              page_request (start_date demo_cfg) ''T'' ''X'' ''c1'' 2,
              attachments_request ''T'' ''X'' ''abc'']
         \<and> files w1 ''/app/invoice_attachments/Acme_Ltd/xero_download.log'' = None
         \<and> ''/app/invoice_attachments/Acme_Ltd/xero_download.log'' \<notin> dirs w1
         \<and> (\<exists>pre post. log_text w1 =
                pre @ '' - INFO - Processing invoice: INV-1 (ID: abc, Date: N/A)'' @
                [newline] @ post)"
proof -
  have agree: "http (fails_at 5) n req = http demo_service n req" if "n < 5" for n req
    using that by (simp add: fails_at_def)
  have a5: "http (fails_at 5) 5 req = reply 500 [] [] []" for req
    by (simp add: fails_at_def)
  from demo_run_setup [OF agree zero c f d] obtain w5 where
    m: "main_try (fails_at 5) demo_cfg
          (print ''Starting Xero invoice attachment downloader...'' (basicConfig w0)) =
        Some (download_all (fails_at 5) demo_cfg ''T'' ''X'' [demo_invoice] w5)"
    and r5: "requests w5 = 5" and c5: "cwd w5 = ''/app''"
    and l5: "log_path w5 = ''/app/xero_download.log''"
    and f5: "files w5 ''/app/invoice_attachments/Acme_Ltd/xero_download.log'' = None"
    and d5: "''/app/invoice_attachments/Acme_Ltd/xero_download.log'' \<notin> dirs w5"
    and t5: "http_requests (trace w5) =
             http_requests (trace w0) @
             [token_request demo_cfg, connections_request ''T'',
              contact_request demo_cfg ''T'' ''X'',
              page_request (start_date demo_cfg) ''T'' ''X'' ''c1'' 1,
              page_request (start_date demo_cfg) ''T'' ''X'' ''c1'' 2]"
    by blast
  from demo_metadata_fails [OF r5 c5 f5 d5 a5] obtain w9 pre post where
    dl: "download_all (fails_at 5) demo_cfg ''T'' ''X'' [demo_invoice] w5 = (Inr (), w9)"
    and t9: "http_requests (trace w9) =
              http_requests (trace w5) @ [attachments_request ''T'' ''X'' ''abc'']"
    and u9: "untouched (in_supplier_folder demo_cfg w5) w9"
    and l9: "log_text w9 =
                pre @ '' - INFO - Processing invoice: INV-1 (ID: abc, Date: N/A)'' @
                [newline] @ post"
    by blast
  define w1 where "w1 = say (fails_at 5) ''Download process completed.'' w9"
  from m dl have ret: "run (fails_at 5) demo_cfg w0 = Some (Inr (), w1)"
    unfolding w1_def by (intro run_returns) simp
  have t1: "http_requests (trace w1) =
             http_requests (trace w0) @
             [token_request demo_cfg, connections_request ''T'',
              contact_request demo_cfg ''T'' ''X'',
              page_request (start_date demo_cfg) ''T'' ''X'' ''c1'' 1,
              page_request (start_date demo_cfg) ''T'' ''X'' ''c1'' 2,
              attachments_request ''T'' ''X'' ''abc'']"
    by (simp add: w1_def t9 t5)
  from u9 have l9': "log_path w9 = ''/app/xero_download.log''"
    and f9: "files w9 ''/app/invoice_attachments/Acme_Ltd/xero_download.log'' = None"
    and d9: "dirs w9 = dirs (in_supplier_folder demo_cfg w5)"
    by (simp_all add: untouched_def l5 f5)
  have f1: "files w1 ''/app/invoice_attachments/Acme_Ltd/xero_download.log'' = None"
    by (simp add: w1_def l9' f9)
  have d1: "''/app/invoice_attachments/Acme_Ltd/xero_download.log'' \<notin> dirs w1"
    using d5 in_supplier_folder_dirs [of "''/app/invoice_attachments/Acme_Ltd/xero_download.log''"
        demo_cfg w5]
    by (auto simp: w1_def d9 c5 demo_folder)
  have "log_text w1 = pre @ '' - INFO - Processing invoice: INV-1 (ID: abc, Date: N/A)'' @
                [newline] @ (post @ asctime (fails_at 5) (Suc (length (trace w9))) @
                '' - INFO - '' @ ''Download process completed.'' @ [newline])"
    by (simp add: w1_def log_text_say l9)
  then have "\<exists>pre post. log_text w1 =
                pre @ '' - INFO - Processing invoice: INV-1 (ID: abc, Date: N/A)'' @
                [newline] @ post"
    by blast
  with ret t1 f1 d1 show ?thesis by blast
qed

lemma demo_run_ok:
  assumes zero: "requests w0 = 0" and c: "cwd w0 = ''/app''"
    and f: "files w0 ''/app/invoice_attachments/Acme_Ltd/xero_download.log'' = None"
    and d: "''/app/invoice_attachments/Acme_Ltd/xero_download.log'' \<notin> dirs w0"
  shows "\<exists>w1. run demo_service demo_cfg w0 = Some (Inr (), w1)
         \<and> http_requests (trace w1) =
             http_requests (trace w0) @
             [token_request demo_cfg, connections_request ''T'',
              contact_request demo_cfg ''T'' ''X'',
              page_request (start_date demo_cfg) ''T'' ''X'' ''c1'' 1,
              page_request (start_date demo_cfg) ''T'' ''X'' ''c1'' 2,
              attachments_request ''T'' ''X'' ''abc'',
              download_request ''T'' ''X'' ''abc'' ''a/b.pdf'']
         \<and> file_writes (trace w1) =
             file_writes (trace w0) @
             [(''/app/invoice_attachments/Acme_Ltd/INV-1_a_b.pdf'', ''PDF'')]"
proof -
  have a5: "http demo_service 5 req =
              reply 200 [] [(''Attachments'', [[(''FileName'', ''a/b.pdf'')]])] []"
    and a6: "http demo_service 6 req = reply 200 [] [] []" for req
    by (simp_all add: demo_service_def)
  from demo_run_setup [OF _ zero c f d, of demo_service] obtain w5 where
    m: "main_try demo_service demo_cfg
          (print ''Starting Xero invoice attachment downloader...'' (basicConfig w0)) =
        Some (download_all demo_service demo_cfg ''T'' ''X'' [demo_invoice] w5)"
    and r5: "requests w5 = 5" and c5: "cwd w5 = ''/app''"
    and f5: "files w5 ''/app/invoice_attachments/Acme_Ltd/xero_download.log'' = None"
    and d5: "''/app/invoice_attachments/Acme_Ltd/xero_download.log'' \<notin> dirs w5"
    and t5: "http_requests (trace w5) =
             http_requests (trace w0) @
             [token_request demo_cfg, connections_request ''T'',
              contact_request demo_cfg ''T'' ''X'',
              page_request (start_date demo_cfg) ''T'' ''X'' ''c1'' 1,
              page_request (start_date demo_cfg) ''T'' ''X'' ''c1'' 2]"
    and w5: "file_writes (trace w5) = file_writes (trace w0)"
    by blast
  from demo_download_ok [OF r5 c5 f5 d5 a5 a6] obtain w9 where
    dl: "download_all demo_service demo_cfg ''T'' ''X'' [demo_invoice] w5 = (Inr (), w9)"
    and t9: "http_requests (trace w9) =
              http_requests (trace w5) @
              [attachments_request ''T'' ''X'' ''abc'',
               download_request ''T'' ''X'' ''abc'' ''a/b.pdf'']"
    and f9: "file_writes (trace w9) =
              file_writes (trace w5) @
              [(''/app/invoice_attachments/Acme_Ltd/INV-1_a_b.pdf'', ''PDF'')]"
    by blast
  define w1 where "w1 = say demo_service ''Download process completed.'' w9"
  from m dl have "run demo_service demo_cfg w0 = Some (Inr (), w1)"
    unfolding w1_def by (intro run_returns) simp
  moreover have "http_requests (trace w1) =
             http_requests (trace w0) @
             [token_request demo_cfg, connections_request ''T'',
              contact_request demo_cfg ''T'' ''X'',
              page_request (start_date demo_cfg) ''T'' ''X'' ''c1'' 1,
              page_request (start_date demo_cfg) ''T'' ''X'' ''c1'' 2,
              attachments_request ''T'' ''X'' ''abc'',
              download_request ''T'' ''X'' ''abc'' ''a/b.pdf'']"
    by (simp add: w1_def t9 t5)
  moreover have "file_writes (trace w1) =
             file_writes (trace w0) @
             [(''/app/invoice_attachments/Acme_Ltd/INV-1_a_b.pdf'', ''PDF'')]"
    by (simp add: w1_def f9 w5)
  ultimately show ?thesis by blast
qed

lemma demo_world_start:
  "requests demo_world = 0" "cwd demo_world = ''/app''"
  "files demo_world ''/app/invoice_attachments/Acme_Ltd/xero_download.log'' = None"
  "''/app/invoice_attachments/Acme_Ltd/xero_download.log'' \<notin> dirs demo_world"
  "http_requests (trace demo_world) = []" "file_writes (trace demo_world) = []"
  by (simp_all add: demo_world_def)

lemma logged_world_start:
  "requests logged_world = 0" "cwd logged_world = ''/app''"
  "files logged_world ''/app/invoice_attachments/Acme_Ltd/xero_download.log'' = None"
  "''/app/invoice_attachments/Acme_Ltd/xero_download.log'' \<notin> dirs logged_world"
  "http_requests (trace logged_world) = []" "file_writes (trace logged_world) = []"
  by (simp_all add: logged_world_def demo_world_def)

lemma restart_start:
  "requests (restart w0 w') = 0" "cwd (restart w0 w') = cwd w0"
  "files (restart w0 w') = files w'" "dirs (restart w0 w') = dirs w'"
  "http_requests (trace (restart w0 w')) = []" "file_writes (trace (restart w0 w')) = []"
  by (simp_all add: restart_def)

text \<open>
  Claim C3, the run that contradicts the wording "every API failure terminates the
  process": the service answers the sixth request, the attachment list of invoice
  \<^verbatim>\<open>abc\<close>, with status 500, and the run returns normally instead of exiting.
\<close>

theorem failed_attachment_list_does_not_exit:
  "\<exists>w'. run (fails_at 5) demo_cfg demo_world = Some (Inr (), w')
        \<and> http_requests (trace w') =
            [token_request demo_cfg, connections_request ''T'',
             contact_request demo_cfg ''T'' ''X'',
             page_request (start_date demo_cfg) ''T'' ''X'' ''c1'' 1,
             page_request (start_date demo_cfg) ''T'' ''X'' ''c1'' 2,
             attachments_request ''T'' ''X'' ''abc'']
        \<and> status_code (http (fails_at 5) 5 (attachments_request ''T'' ''X'' ''abc'')) = 500"
proof -
  have "status_code (http (fails_at 5) 5 (attachments_request ''T'' ''X'' ''abc'')) = 500"
    by (simp add: fails_at_def reply_def)
  with demo_run_fails5 [OF demo_world_start(1-4)] show ?thesis
    by (auto simp: demo_world_start)
qed

lemma downloaded_world_start:
  "requests downloaded_world = 0" "cwd downloaded_world = ''/app''"
  "files downloaded_world ''/app/invoice_attachments/Acme_Ltd/xero_download.log'' = None"
  "''/app/invoice_attachments/Acme_Ltd/xero_download.log'' \<notin> dirs downloaded_world"
  "http_requests (trace downloaded_world) = []" "file_writes (trace downloaded_world) = []"
  by (simp_all add: downloaded_world_def demo_world_def)

text \<open>
  Claim C1 says that a file whose unique name is in the downloaded set loaded from the
  log at the start of the run is never downloaded again. The script does download it
  again: started in a directory whose log holds the record
  \<^verbatim>\<open>Downloaded attachment: INV-1_a_b.pdf\<close> (read from that directory, the loader
  returns the set holding that name, which is the unique name of attachment
  \<^verbatim>\<open>a/b.pdf\<close> of invoice \<^verbatim>\<open>INV-1\<close>), the run sends the download request for
  \<^verbatim>\<open>a/b.pdf\<close> and writes \<^verbatim>\<open>INV-1_a_b.pdf\<close> once more, because
  \<^verbatim>\<open>load_downloaded_attachments\<close> is called after the change of directory and hands
  \<^verbatim>\<open>download_invoice_attachment\<close> the empty set.
\<close>

theorem recorded_attachment_is_downloaded_again:
  "load_downloaded_attachments (basicConfig downloaded_world) = Inr {''INV-1_a_b.pdf''}
   \<and> unique_name ''INV-1'' ''a/b.pdf'' = ''INV-1_a_b.pdf''
   \<and> (\<exists>w'. run demo_service demo_cfg downloaded_world = Some (Inr (), w')
          \<and> http_requests (trace w') =
              [token_request demo_cfg, connections_request ''T'',
               contact_request demo_cfg ''T'' ''X'',
               page_request (start_date demo_cfg) ''T'' ''X'' ''c1'' 1,
               page_request (start_date demo_cfg) ''T'' ''X'' ''c1'' 2,
               attachments_request ''T'' ''X'' ''abc'',
               download_request ''T'' ''X'' ''abc'' ''a/b.pdf'']
          \<and> file_writes (trace w') =
              [(''/app/invoice_attachments/Acme_Ltd/INV-1_a_b.pdf'', ''PDF'')])"
proof -
  have "load_downloaded_attachments (basicConfig downloaded_world) = Inr {''INV-1_a_b.pdf''}"
    by (simp add: load_downloaded_attachments_def path_exists_def abspath_def path_join_def
        basicConfig_def downloaded_world_def downloaded_text_def demo_world_def Let_def
        file_lines_def downloaded_of_line_def str_split_def str_split_acc.simps str_strip_def
        isspace_def)
  moreover have "unique_name ''INV-1'' ''a/b.pdf'' = ''INV-1_a_b.pdf''"
    by (simp add: unique_name_def str_replace_def)
  ultimately show ?thesis
    using demo_run_ok [OF downloaded_world_start(1-4)]
    by (auto simp: downloaded_world_start)
qed

text \<open>
  Claim C2 says that \<^verbatim>\<open>main\<close> skips an invoice exactly when the log records it as
  processed. The script does not: started in a directory whose log holds the record of
  invoice \<^verbatim>\<open>abc\<close> (read from that directory, the loader returns the set holding
  \<^verbatim>\<open>abc\<close>), the run still requests the attachment list of \<^verbatim>\<open>abc\<close> and downloads its
  attachment, because the loaders are called after the change of directory.
\<close>

theorem recorded_invoice_is_fetched_again:
  "load_processed_invoices (basicConfig logged_world) = Inr {''abc''}
   \<and> (\<exists>w'. run demo_service demo_cfg logged_world = Some (Inr (), w')
          \<and> http_requests (trace w') =
              [token_request demo_cfg, connections_request ''T'',
               contact_request demo_cfg ''T'' ''X'',
               page_request (start_date demo_cfg) ''T'' ''X'' ''c1'' 1,
               page_request (start_date demo_cfg) ''T'' ''X'' ''c1'' 2,
               attachments_request ''T'' ''X'' ''abc'',
               download_request ''T'' ''X'' ''abc'' ''a/b.pdf''])"
proof -
  have "load_processed_invoices (basicConfig logged_world) = Inr {''abc''}"
    by (simp add: load_processed_invoices_def path_exists_def abspath_def path_join_def
        basicConfig_def logged_world_def demo_world_def Let_def file_lines_def
        processed_of_line_def str_split_def str_split_acc.simps str_strip_def isspace_def)
  with demo_run_ok [OF logged_world_start(1-4)] show ?thesis
    by (auto simp: logged_world_start)
qed

text \<open>
  Claim C9 says that an invoice whose attachment list could not be fetched is recorded as
  processed and skipped by every later run. The record is indeed written before the
  request: the first run below logs \<^verbatim>\<open>Processing invoice: INV-1 (ID: abc, Date: N/A)\<close>
  and then fails to fetch the attachment list. But the second run, started in the same
  directory with the files the first one left, does not skip the invoice: it requests
  the attachment list of \<^verbatim>\<open>abc\<close> again and downloads the attachment.
\<close>

theorem failed_invoice_is_fetched_again:
  "\<exists>w1 w2. run (fails_at 5) demo_cfg demo_world = Some (Inr (), w1)
      \<and> (\<exists>pre post. log_text w1 =
            pre @ '' - INFO - Processing invoice: INV-1 (ID: abc, Date: N/A)'' @
            [newline] @ post)
      \<and> run demo_service demo_cfg (restart demo_world w1) = Some (Inr (), w2)
      \<and> http_requests (trace w2) =
          [token_request demo_cfg, connections_request ''T'',
           contact_request demo_cfg ''T'' ''X'',
           page_request (start_date demo_cfg) ''T'' ''X'' ''c1'' 1,
           page_request (start_date demo_cfg) ''T'' ''X'' ''c1'' 2,
           attachments_request ''T'' ''X'' ''abc'',
           download_request ''T'' ''X'' ''abc'' ''a/b.pdf'']"
proof -
  from demo_run_fails5 [OF demo_world_start(1-4)] obtain w1 where
    r1: "run (fails_at 5) demo_cfg demo_world = Some (Inr (), w1)"
    and f1: "files w1 ''/app/invoice_attachments/Acme_Ltd/xero_download.log'' = None"
    and d1: "''/app/invoice_attachments/Acme_Ltd/xero_download.log'' \<notin> dirs w1"
    and l1: "\<exists>pre post. log_text w1 =
                pre @ '' - INFO - Processing invoice: INV-1 (ID: abc, Date: N/A)'' @
                [newline] @ post"
    by blast
  have s: "requests (restart demo_world w1) = 0" "cwd (restart demo_world w1) = ''/app''"
    "files (restart demo_world w1) ''/app/invoice_attachments/Acme_Ltd/xero_download.log'' = None"
    "''/app/invoice_attachments/Acme_Ltd/xero_download.log'' \<notin> dirs (restart demo_world w1)"
    using f1 d1 by (simp_all add: restart_start demo_world_start)
  from demo_run_ok [OF s] obtain w2 where
    "run demo_service demo_cfg (restart demo_world w1) = Some (Inr (), w2)"
    "http_requests (trace w2) =
          [token_request demo_cfg, connections_request ''T'',
           contact_request demo_cfg ''T'' ''X'',
           page_request (start_date demo_cfg) ''T'' ''X'' ''c1'' 1,
           page_request (start_date demo_cfg) ''T'' ''X'' ''c1'' 2,
           attachments_request ''T'' ''X'' ''abc'',
           download_request ''T'' ''X'' ''abc'' ''a/b.pdf'']"
    by (auto simp: restart_start)
  with r1 l1 show ?thesis by blast
qed

section \<open>The name of a downloaded file\<close>

text \<open>
  Claim C10 says that the written path contains no directory separator, so that the
  file is created directly inside the supplier folder. Only the file name is cleaned of
  \<^verbatim>\<open>/\<close> and the backslash; the invoice number goes into the name as the service
  sent it. With the invoice number \<^verbatim>\<open>../x\<close> the name handed to \<^verbatim>\<open>open\<close> is
  \<^verbatim>\<open>../x_a_b.pdf\<close>, and the file is written next to the supplier folder, not inside it.
\<close>

theorem invoice_number_is_not_cleaned:
  "unique_name ''../x'' ''a/b.pdf'' = ''../x_a_b.pdf''
   \<and> file_writes (trace (download_invoice_attachment demo_service ''T'' ''X'' ''abc''
         ''a/b.pdf'' ''../x'' {} (demo_world\<lparr>cwd := ''/app/invoice_attachments/Acme_Ltd''\<rparr>))) =
       [(''/app/invoice_attachments/Acme_Ltd/../x_a_b.pdf'', ''PDF'')]"
  by (simp add: download_invoice_attachment_def send_def unique_name_def str_replace_def
      demo_service_def reply_def demo_world_def path_join_def Let_def)

section \<open>Reading the ledger\<close>

text \<open>
  \<^verbatim>\<open>s.split(sep)\<close> cuts at the first occurrence of the separator and splits what is
  behind it in the same way. So \<^verbatim>\<open>parts[0]\<close> is what stands before the first
  occurrence, there is a \<^verbatim>\<open>parts[1]\<close> exactly when the separator occurs, and
  \<^verbatim>\<open>parts[1]\<close> ends where the separator occurs next.
\<close>

lemma before_first_absent: "\<not> str_contains sep s \<Longrightarrow> before_first sep s = s"
  by (induction s) auto

lemma str_split_acc_first:
  "sep \<noteq> [] \<Longrightarrow>
   str_split_acc sep acc s =
     (if str_contains sep s
      then (rev acc @ before_first sep s) # str_split_acc sep [] (after_first sep s)
      else [rev acc @ s])"
proof (induction s arbitrary: acc)
  case Nil
  then show ?case by (simp add: str_split_acc.simps [of sep acc "[]"])
next
  case (Cons c cs)
  show ?case
  proof (cases "prefix sep (c # cs)")
    case True
    with Cons.prems show ?thesis
      by (simp add: str_split_acc.simps [of sep acc "c # cs"])
  next
    case False
    with Cons.prems Cons.IH [OF Cons.prems, of "c # acc"] show ?thesis
      by (simp add: str_split_acc.simps [of sep acc "c # cs"])
  qed
qed

lemma str_split_first:
  "sep \<noteq> [] \<Longrightarrow>
   str_split s sep =
     (if str_contains sep s then before_first sep s # str_split (after_first sep s) sep
      else [s])"
  unfolding str_split_def by (subst str_split_acc_first) simp_all

lemma str_split_hd: "sep \<noteq> [] \<Longrightarrow> hd (str_split s sep) = before_first sep s"
  by (subst str_split_first) (simp_all add: before_first_absent)

lemma str_split_not_Nil: "sep \<noteq> [] \<Longrightarrow> str_split s sep \<noteq> []"
  by (subst str_split_first) simp_all

lemma str_split_length:
  "sep \<noteq> [] \<Longrightarrow> Suc 0 < length (str_split s sep) \<longleftrightarrow> str_contains sep s"
  using str_split_not_Nil [of sep "after_first sep s"]
  by (subst str_split_first) (simp_all add: Suc_lessI)

lemma str_split_second:
  "sep \<noteq> [] \<Longrightarrow> str_contains sep s \<Longrightarrow>
   str_split s sep ! Suc 0 = before_first sep (after_first sep s)"
  using str_split_not_Nil [of sep "after_first sep s"]
    str_split_hd [of sep "after_first sep s"]
  by (subst str_split_first) (simp_all add: hd_conv_nth)

lemma processed_of_line_eq:
  "processed_of_line line processed =
     (if has_invoice_id line then insert (invoice_id_in_line line) processed else processed)"
  by (simp add: processed_of_line_def invoice_id_in_line_def has_invoice_id_def Let_def
      str_split_length str_split_second str_split_hd)

lemma str_contains_longer:
  "str_contains (a @ b) s \<Longrightarrow> str_contains a s"
  by (induction s) (auto dest: append_prefixD)

lemma downloaded_of_line_eq:
  "downloaded_of_line line downloaded =
     (if has_file_name line then insert (file_name_in_line line) downloaded else downloaded)"
  using str_contains_longer [of "''Downloaded attachment:''" "'' ''" line]
  by (auto simp add: downloaded_of_line_def file_name_in_line_def has_file_name_def Let_def
      str_split_length str_split_second)

lemma fold_insert_if:
  "fold (\<lambda>x S. if P x then insert (f x) S else S) xs S0 = S0 \<union> set (map f (filter P xs))"
  by (induction xs arbitrary: S0) auto

lemma fold_processed_of_line:
  "fold processed_of_line lines {} = set (map invoice_id_in_line (filter has_invoice_id lines))"
proof -
  have eq: "processed_of_line =
      (\<lambda>x S. if has_invoice_id x then insert (invoice_id_in_line x) S else S)"
    by (intro ext) (rule processed_of_line_eq)
  show ?thesis unfolding eq fold_insert_if by simp
qed

lemma fold_downloaded_of_line:
  "fold downloaded_of_line lines {} = set (map file_name_in_line (filter has_file_name lines))"
proof -
  have eq: "downloaded_of_line =
      (\<lambda>x S. if has_file_name x then insert (file_name_in_line x) S else S)"
    by (intro ext) (rule downloaded_of_line_eq)
  show ?thesis unfolding eq fold_insert_if by simp
qed

lemma before_first_char: "before_first [c] s = takeWhile (\<lambda>x. x \<noteq> c) s"
  by (induction s) auto

lemma prefix_takeWhile:
  "prefix sep s \<Longrightarrow> c \<notin> set sep \<Longrightarrow> prefix sep (takeWhile (\<lambda>x. x \<noteq> c) s)"
proof -
  assume "prefix sep s" and c: "c \<notin> set sep"
  then obtain zs where "s = sep @ zs" by (auto simp: prefix_def)
  moreover have "takeWhile (\<lambda>x. x \<noteq> c) (sep @ zs) = sep @ takeWhile (\<lambda>x. x \<noteq> c) zs"
    using c by (intro takeWhile_append2) auto
  ultimately show ?thesis by simp
qed

lemma str_contains_prefix: "sep \<noteq> [] \<Longrightarrow> prefix sep s \<Longrightarrow> str_contains sep s"
  by (cases s) auto

lemma before_first_twice:
  assumes "sep \<noteq> []" and "c \<notin> set sep"
    and "\<not> str_contains sep (before_first [c] s)"
  shows "before_first [c] (before_first sep s) = before_first [c] s"
  using assms(3)
proof (induction s)
  case Nil
  then show ?case by simp
next
  case (Cons x xs)
  show ?case
  proof (cases "prefix sep (x # xs)")
    case True
    from prefix_takeWhile [OF True assms(2)] assms(1)
    have "str_contains sep (before_first [c] (x # xs))"
      unfolding before_first_char by (rule str_contains_prefix [rotated])
    with Cons.prems show ?thesis by simp
  next
    case False
    show ?thesis
    proof (cases "x = c")
      case True
      with False show ?thesis by simp
    next
      case neq: False
      with Cons.prems have "\<not> str_contains sep (before_first [c] xs)" by simp
      with Cons.IH False neq show ?thesis by simp
    qed
  qed
qed

lemma plain_line_invoice_id:
  "plain_line line \<Longrightarrow> has_invoice_id line \<Longrightarrow>
   invoice_id_in_line line = str_strip (before_first '','' (after_first ''ID: '' line))"
  unfolding plain_line_def invoice_id_in_line_def
  by (subst before_first_twice) simp_all

lemma plain_line_file_name:
  "plain_line line \<Longrightarrow>
   file_name_in_line line = str_strip (after_first ''Downloaded attachment: '' line)"
  unfolding plain_line_def file_name_in_line_def
  by (simp add: before_first_absent)

lemma plain_lines_processed:
  assumes "\<And>line. line \<in> set lines \<Longrightarrow> plain_line line"
  shows "set (map invoice_id_in_line (filter has_invoice_id lines)) =
     spec_processed_invoices lines"
proof -
  have "filter has_invoice_id lines =
      filter (\<lambda>line. has_invoice_id line \<and> str_contains '','' (after_first ''ID: '' line))
        lines"
    using assms by (intro filter_cong) (auto simp: plain_line_def)
  moreover have "map invoice_id_in_line (filter has_invoice_id lines) =
      map (\<lambda>line. str_strip (before_first '','' (after_first ''ID: '' line)))
        (filter has_invoice_id lines)"
    using assms by (intro map_cong) (auto simp: plain_line_invoice_id)
  ultimately show ?thesis
    unfolding spec_processed_invoices_def by simp
qed

lemma plain_lines_downloaded:
  assumes "\<And>line. line \<in> set lines \<Longrightarrow> plain_line line"
  shows "set (map file_name_in_line (filter has_file_name lines)) =
     spec_downloaded_attachments lines"
proof -
  have "map file_name_in_line (filter has_file_name lines) =
      map (\<lambda>line. str_strip (after_first ''Downloaded attachment: '' line))
        (filter has_file_name lines)"
    using assms by (intro map_cong) (auto simp: plain_line_file_name)
  then show ?thesis
    unfolding spec_downloaded_attachments_def by simp
qed

lemma loaders_without_file:
  "\<not> path_exists w ''xero_download.log'' \<Longrightarrow>
   load_processed_invoices w = Inr {} \<and> load_downloaded_attachments w = Inr {}"
  by (simp add: load_processed_invoices_def load_downloaded_attachments_def)

lemma loaders_with_file:
  "files w (abspath w ''xero_download.log'') = Some log_file \<Longrightarrow>
   load_processed_invoices w = Inr (fold processed_of_line (file_lines log_file) {}) \<and>
   load_downloaded_attachments w = Inr (fold downloaded_of_line (file_lines log_file) {})"
  by (simp add: load_processed_invoices_def load_downloaded_attachments_def path_exists_def)

lemma ledger_lines:
  "file_lines ledger_text =
     [''t - INFO - Processing invoice: INV-1 (ID: abc, Date: N/A)'' @ [newline],
      ''t - INFO - Downloaded attachment: INV-1_a_b.pdf'' @ [newline]]"
  by (simp add: ledger_text_def file_lines_def)

lemma paid_lines: "file_lines paid_line = [paid_line]"
  by (simp add: paid_line_def file_lines_def)

text \<open>
  What the two loaders return. Both return the empty set when there is no
  \<^verbatim>\<open>xero_download.log\<close> in the working directory. When the file is there,
  \<^verbatim>\<open>load_processed_invoices\<close> returns the stripped pieces of the lines that contain
  \<^verbatim>\<open>"Processing invoice:"\<close> and \<^verbatim>\<open>"ID: "\<close>, each piece running from the first
  \<^verbatim>\<open>"ID: "\<close> to the next \<^verbatim>\<open>"ID: "\<close>, the next comma or the end of the line, whichever
  comes first; \<^verbatim>\<open>load_downloaded_attachments\<close> returns the stripped pieces of the lines
  that contain \<^verbatim>\<open>"Downloaded attachment: "\<close>, each running from the first marker to the
  next one or the end of the line. When every line of the file is plain, these are the
  sets of the specification: the text between \<^verbatim>\<open>"ID: "\<close> and the next comma, and the rest
  of the line behind \<^verbatim>\<open>"Downloaded attachment: "\<close>.
\<close>

lemma ledger_sets_from_log_lines:
  "(\<not> path_exists w ''xero_download.log'' \<longrightarrow>
      load_processed_invoices w = Inr {} \<and> load_downloaded_attachments w = Inr {})
   \<and> (\<forall>log_file. files w (abspath w ''xero_download.log'') = Some log_file \<longrightarrow>
        load_processed_invoices w =
          Inr (set (map invoice_id_in_line (filter has_invoice_id (file_lines log_file))))
        \<and> load_downloaded_attachments w =
          Inr (set (map file_name_in_line (filter has_file_name (file_lines log_file))))
        \<and> ((\<forall>line \<in> set (file_lines log_file). plain_line line) \<longrightarrow>
             load_processed_invoices w = Inr (spec_processed_invoices (file_lines log_file)) \<and>
             load_downloaded_attachments w =
               Inr (spec_downloaded_attachments (file_lines log_file))))"
proof (intro conjI allI impI)
  fix log_file
  assume f: "files w (abspath w ''xero_download.log'') = Some log_file"
  note l = loaders_with_file [OF f]
  show p: "load_processed_invoices w =
      Inr (set (map invoice_id_in_line (filter has_invoice_id (file_lines log_file))))"
    using l by (simp only: fold_processed_of_line)
  show d: "load_downloaded_attachments w =
      Inr (set (map file_name_in_line (filter has_file_name (file_lines log_file))))"
    using l by (simp only: fold_downloaded_of_line)
  assume plain: "\<forall>line \<in> set (file_lines log_file). plain_line line"
  show "load_processed_invoices w = Inr (spec_processed_invoices (file_lines log_file))"
    using p plain by (simp only: plain_lines_processed)
  show "load_downloaded_attachments w = Inr (spec_downloaded_attachments (file_lines log_file))"
    using d plain by (simp only: plain_lines_downloaded)
qed (simp_all add: loaders_without_file)

lemma ledger_sets_from_log_lines_example:
  "load_processed_invoices demo_world = Inr {}
   \<and> load_downloaded_attachments demo_world = Inr {}
   \<and> load_processed_invoices ledger_world = Inr {''abc''}
   \<and> load_downloaded_attachments ledger_world = Inr {''INV-1_a_b.pdf''}
   \<and> spec_processed_invoices (file_lines ledger_text) = {''abc''}
   \<and> spec_downloaded_attachments (file_lines ledger_text) = {''INV-1_a_b.pdf''}"
proof -
  have none: "\<not> path_exists demo_world ''xero_download.log''"
    by (simp add: path_exists_def demo_world_def abspath_def path_join_def)
  have some: "files ledger_world (abspath ledger_world ''xero_download.log'') = Some ledger_text"
    by (simp add: ledger_world_def demo_world_def abspath_def path_join_def)
  have plain: "\<forall>line \<in> set (file_lines ledger_text). plain_line line"
    unfolding ledger_lines by (simp add: plain_line_def has_invoice_id_def)
  have sp: "spec_processed_invoices (file_lines ledger_text) = {''abc''}"
    unfolding ledger_lines
    by (simp add: spec_processed_invoices_def has_invoice_id_def str_strip_def isspace_def)
  have sd: "spec_downloaded_attachments (file_lines ledger_text) = {''INV-1_a_b.pdf''}"
    unfolding ledger_lines
    by (simp add: spec_downloaded_attachments_def has_file_name_def str_strip_def isspace_def)
  from ledger_sets_from_log_lines [of demo_world] none
  have a: "load_processed_invoices demo_world = Inr {}"
    "load_downloaded_attachments demo_world = Inr {}"
    by blast+
  from ledger_sets_from_log_lines [of ledger_world] some plain
  have b: "load_processed_invoices ledger_world = Inr (spec_processed_invoices (file_lines ledger_text))"
    "load_downloaded_attachments ledger_world =
       Inr (spec_downloaded_attachments (file_lines ledger_text))"
    by blast+
  from a b sp sd show ?thesis by simp
qed

text \<open>
  Claim C4 says that \<^verbatim>\<open>load_processed_invoices\<close> returns exactly the stripped texts
  between \<^verbatim>\<open>"ID: "\<close> and the next comma of the lines containing
  \<^verbatim>\<open>"Processing invoice:"\<close>, which for a record of \<^verbatim>\<open>main\<close> is the invoice ID. The
  script does not: for the invoice with ID \<^verbatim>\<open>abc\<close> and number \<^verbatim>\<open>PAID: 1\<close>, \<^verbatim>\<open>main\<close>
  logs the record \<^verbatim>\<open>Processing invoice: PAID: 1 (ID: abc, Date: N/A)\<close>, and from a log
  holding that record the loader returns \<^verbatim>\<open>1 (\<close>: \<^verbatim>\<open>split("ID: ")\<close> cuts inside the
  invoice number, and \<^verbatim>\<open>parts[1]\<close> ends where the marker occurs next. The text between
  the first \<^verbatim>\<open>"ID: "\<close> and the next comma would be \<^verbatim>\<open>1 (ID: abc\<close>, and the invoice ID
  is \<^verbatim>\<open>abc\<close>; the loader returns neither.
\<close>

theorem invoice_id_is_cut_at_the_invoice_number:
  "log_text (snd (process_invoice failing_service ''T'' ''X'' {} {} 0 paid_invoice
                    (basicConfig demo_world))) =
     paid_line @ ''t - ERROR - Failed to fetch attachments for PAID: 1: 500 - body'' @ [newline]
   \<and> load_processed_invoices paid_world = Inr {''1 (''}
   \<and> spec_processed_invoices (file_lines paid_line) = {''1 (ID: abc''}"
proof -
  have e: "http failing_service n req = reply 500 [] [] []" "asctime failing_service n = ''t''"
    for n req
    by (simp_all add: failing_service_def)
  have l: "log_text (basicConfig demo_world) = []"
    by (simp add: log_text_def basicConfig_def demo_world_def abspath_def path_join_def Let_def)
  have "log_text (snd (process_invoice failing_service ''T'' ''X'' {} {} 0 paid_invoice
                    (basicConfig demo_world))) =
     paid_line @ ''t - ERROR - Failed to fetch attachments for PAID: 1: 500 - body'' @ [newline]"
    by (simp add: process_invoice_def paid_invoice_def get_xero_api_def send_def Let_def
        log_text_say e l reply_status status_and_text_500 paid_line_def)
  moreover have "load_processed_invoices paid_world = Inr {''1 (''}"
    by (simp add: load_processed_invoices_def path_exists_def abspath_def path_join_def
        paid_world_def paid_line_def demo_world_def Let_def file_lines_def
        processed_of_line_def str_split_def str_split_acc.simps str_strip_def isspace_def)
  moreover have "spec_processed_invoices (file_lines paid_line) = {''1 (ID: abc''}"
    unfolding paid_lines
    by (simp add: spec_processed_invoices_def has_invoice_id_def paid_line_def str_strip_def
        isspace_def)
  ultimately show ?thesis by simp
qed

end
